theory Spec2Isabelle
  imports Complex_Main "HOL-Library.Sublist" "HOL-Library.Char_ord" "HOL-Library.List_Lexorder"
begin

section \<open>Python strings and the Python library\<close>

text \<open>
  A Python \<open>str\<close> is modelled as a \<^typ>\<open>string\<close> holding its UTF-8 bytes: an ASCII
  character is one \<^typ>\<open>char\<close>, an emoji of the source is the list of its bytes.
  Byte-wise lexicographic order on UTF-8 is the code point order that Python's
  \<open>sorted\<close> uses.

  \<open>str.lower\<close>, \<open>str.upper\<close> and \<open>difflib.get_close_matches(word, possibilities, n,
  cutoff)\<close> belong to the Python library: the first two map every cased letter of
  Unicode, the third ranks by a similarity ratio. The functions of the query tool that
  call them take the three as the fields of the parameter \<open>py\<close>, so that
  \<open>lower py s\<close> is \<open>s.lower()\<close>, whatever the string holds.
\<close>

type_synonym close_matches = "string \<Rightarrow> string list \<Rightarrow> nat \<Rightarrow> rat \<Rightarrow> string list"

record python =
  lower :: "string \<Rightarrow> string"
  upper :: "string \<Rightarrow> string"
  get_close_matches :: close_matches

text \<open>\<open>sub in s\<close> on strings: \<open>sub\<close> occurs in \<open>s\<close> as a contiguous block.\<close>

fun py_in :: "string \<Rightarrow> string \<Rightarrow> bool" where
  "py_in sub [] = (sub = [])"
| "py_in sub (c # cs) = (prefix sub (c # cs) \<or> py_in sub cs)"

text \<open>\<open>any(env in name_lower for env in markers)\<close>\<close>

definition any_in :: "string list \<Rightarrow> string \<Rightarrow> bool" where
  "any_in markers s = list_ex (\<lambda>env. py_in env s) markers"

section \<open>Query engine: display helpers\<close>

text \<open>The five strings \<open>get_environment_indicator\<close> returns, emoji first.\<close>

definition env_PROD :: string where
  "env_PROD = [CHR 0xF0, CHR 0x9F, CHR 0x9F, CHR 0xA2] @ '' PROD''"

definition env_STAGE :: string where
  "env_STAGE = [CHR 0xF0, CHR 0x9F, CHR 0x9F, CHR 0xA1] @ '' STAGE''"

definition env_DEV :: string where
  "env_DEV = [CHR 0xF0, CHR 0x9F, CHR 0x94, CHR 0xB5] @ '' DEV''"

definition env_TEST :: string where
  "env_TEST = [CHR 0xF0, CHR 0x9F, CHR 0x9F, CHR 0xA3] @ '' TEST''"

definition env_OTHER :: string where
  "env_OTHER = [CHR 0xE2, CHR 0x9A, CHR 0xAA] @ '' OTHER''"

definition get_environment_indicator :: "python \<Rightarrow> string \<Rightarrow> string" where
  "get_environment_indicator py resource_name =
     (let name_lower = lower py resource_name in
      if any_in [''prod'', ''production''] name_lower then env_PROD
      else if any_in [''stag'', ''staging'', ''stage''] name_lower then env_STAGE
      else if any_in [''dev'', ''development''] name_lower then env_DEV
      else if any_in [''test'', ''testing''] name_lower then env_TEST
      else env_OTHER)"

section \<open>Resource records, the cache and the files\<close>

text \<open>
  A \<open>datetime\<close> of the SDK's answers is given by the text its \<open>isoformat()\<close>
  returns; \<open>str(d)\<close> is \<open>d.isoformat(sep=' ')\<close>, the same text with a space in
  place of the \<open>T\<close> between the date and the time.
\<close>

datatype datetime = Datetime string

fun isoformat :: "datetime \<Rightarrow> string" where
  "isoformat (Datetime s) = s"

fun str :: "datetime \<Rightarrow> string" where
  "str (Datetime s) = map (\<lambda>c. if c = CHR ''T'' then CHR '' '' else c) s"

text \<open>
  A value under a key of a record: a \<open>str\<close>, an \<open>int\<close>, or a \<open>datetime\<close>, which is
  what the SDK answers for the time members. The cache file holds strings and integers.
\<close>

datatype pyval = PStr string | PInt int | PDatetime datetime

text \<open>
  One record of the cache: the dict with the keys \<open>service\<close>, \<open>type\<close> and \<open>url\<close>
  (each may be absent, which is what \<open>resource.get(key, default)\<close> tests) and the
  service-specific keys, which the query engine never reads. The cache is the dict from
  resource name to record, in insertion order.
\<close>

record resource =
  service :: "string option"
  rtype :: "string option"
  url :: "string option"
  extra :: "(string \<times> pyval) list"

type_synonym cache = "(string \<times> resource) list"

text \<open>\<open>d.get(key, default)\<close> on an optional key.\<close>

definition dict_get :: "'a option \<Rightarrow> 'a \<Rightarrow> 'a" where
  "dict_get field dflt = (case field of None \<Rightarrow> dflt | Some v \<Rightarrow> v)"

text \<open>Truth value of an argument that is \<open>None\<close> or a string.\<close>

definition truthy :: "string option \<Rightarrow> bool" where
  "truthy s = (case s of None \<Rightarrow> False | Some t \<Rightarrow> t \<noteq> [])"

text \<open>\<open>SERVICE_CONFIG\<close>: service tag to icon, colour and display name, in source order.\<close>

definition SERVICE_CONFIG :: "(string \<times> string \<times> string \<times> string) list" where
  "SERVICE_CONFIG =
     [(''lambda'', [CHR 0xCE, CHR 0xBB], [CHR 0xF0, CHR 0x9F, CHR 0x9F, CHR 0xA1], ''Lambda''),
      (''s3'', [CHR 0xF0, CHR 0x9F, CHR 0xAA, CHR 0xA3], [CHR 0xF0, CHR 0x9F, CHR 0x9F, CHR 0xA2], ''S3''),
      (''sqs'', [CHR 0xF0, CHR 0x9F, CHR 0x93, CHR 0xAC], [CHR 0xF0, CHR 0x9F, CHR 0x94, CHR 0xB5], ''SQS''),
      (''kinesis'', [CHR 0xF0, CHR 0x9F, CHR 0x8C, CHR 0x8A], [CHR 0xF0, CHR 0x9F, CHR 0x9F, CHR 0xA3],
         ''Kinesis''),
      (''dynamodb'', [CHR 0xF0, CHR 0x9F, CHR 0x97, CHR 0x84, CHR 0xEF, CHR 0xB8, CHR 0x8F],
         [CHR 0xF0, CHR 0x9F, CHR 0x9F, CHR 0xA0], ''DynamoDB''),
      (''rds'', [CHR 0xF0, CHR 0x9F, CHR 0x97, CHR 0x83, CHR 0xEF, CHR 0xB8, CHR 0x8F],
         [CHR 0xF0, CHR 0x9F, CHR 0x94, CHR 0xB4], ''RDS''),
      (''apigateway'', [CHR 0xF0, CHR 0x9F, CHR 0x9A, CHR 0xAA], [CHR 0xE2, CHR 0x9A, CHR 0xAB],
         ''API Gateway'')]"

text \<open>\<open>list(SERVICE_CONFIG.keys())\<close>\<close>

definition valid_services :: "string list" where
  "valid_services = map fst SERVICE_CONFIG"

text \<open>
  The settings file as \<open>load_settings\<close> finds it: missing, not JSON, or an object
  that has the key \<open>enabled_services\<close> or not. The resources file likewise, with the
  third failure \<open>load_aws_resources\<close> catches.
\<close>

datatype settings_file = Settings_missing | Settings_invalid | Settings "string list option"

datatype resources_file = Cache_missing | Cache_invalid | Cache_unreadable | Cache cache

text \<open>
  What a run of the query tool reads from outside: the two files, whether
  \<open>fzf --version\<close> succeeds, and what the user answers to the prompt of the manual
  search (the answer after \<open>strip()\<close>; \<open>None\<close> is a keyboard interrupt).
\<close>

record world =
  settings_json :: settings_file
  resources_json :: resources_file
  fzf_installed :: bool
  typed_query :: "string option"

text \<open>
  What a run prints, one constructor for each \<open>print\<close> of the modelled functions with
  the values it interpolates, and what it does besides printing. The model of a run ends
  where the fzf process is spawned: \<open>Spawn_fzf\<close> carries the header and the lines
  written to its standard input.
\<close>

datatype message =
    Resources_file_not_found
  | Run_populate_hint
  | Resources_file_invalid
  | Resources_file_error
  | No_service_resources_found string
  | No_aws_resources_found
  | No_resources_matching string string
  | Did_you_mean
  | Suggestion string string
  | Opening string string string
  | No_url_available string
  | Service_disabled string
  | Enable_services_hint
  | Service_search_title string
  | Finder_title
  | Rule_line
  | Services_enabled nat nat
  | All_services_enabled nat
  | Fzf_not_found
  | Falling_back
  | Manual_search_banner
  | Goodbye
  | Help_text

datatype fzf_header =
    Search_service_header string string
  | Search_all_header
  | Found_matches_header nat string

datatype event =
    Print message
  | Open_url string
  | Spawn_fzf fzf_header "string list"
  | Settings_menu
  | Edit_configuration

text \<open>
  The exception classes the two scripts tell apart: \<open>Other_exception\<close> is any class
  that no \<open>except\<close> clause of the collector names but \<open>except Exception\<close>.
\<close>

datatype py_error = KeyError | ClientError | NoCredentialsError | OSError | Other_exception

text \<open>A run: what happened in order, and the exception that ended it, if one did.\<close>

type_synonym run = "event list \<times> py_error option"

section \<open>Query engine: loading and filtering\<close>

definition load_settings :: "settings_file \<Rightarrow> string list" where
  "load_settings f =
     (case f of
        Settings (Some enabled) \<Rightarrow> enabled
      | Settings None \<Rightarrow> valid_services
      | Settings_missing \<Rightarrow> valid_services
      | Settings_invalid \<Rightarrow> valid_services)"

definition load_aws_resources :: "resources_file \<Rightarrow> event list \<times> cache" where
  "load_aws_resources f =
     (case f of
        Cache c \<Rightarrow> ([], c)
      | Cache_missing \<Rightarrow> ([Print Resources_file_not_found, Print Run_populate_hint], [])
      | Cache_invalid \<Rightarrow> ([Print Resources_file_invalid], [])
      | Cache_unreadable \<Rightarrow> ([Print Resources_file_error], []))"

definition get_service_display :: "python \<Rightarrow> string \<Rightarrow> string option \<Rightarrow> string" where
  "get_service_display py svc resource_type =
     (let (icon, color, display_name) =
            (case map_of SERVICE_CONFIG svc of
               Some config \<Rightarrow> config
             | None \<Rightarrow> ([CHR 0xE2, CHR 0x9D, CHR 0x93], [CHR 0xE2, CHR 0x9A, CHR 0xAA], upper py svc))
      in if truthy resource_type \<and> resource_type \<in> set [Some ''cluster'']
         then icon @ '' '' @ display_name @ '' Cluster''
         else icon @ '' '' @ display_name)"

text \<open>The first stage of \<open>filter_by_service\<close>: the records of enabled services.\<close>

definition enabled_only :: "python \<Rightarrow> string set \<Rightarrow> cache \<Rightarrow> cache" where
  "enabled_only py enabled_services resources =
     filter (\<lambda>(name, resource). lower py (dict_get (service resource) []) \<in> enabled_services)
       resources"

text \<open>The second stage: the records of one service.\<close>

definition service_only :: "python \<Rightarrow> string \<Rightarrow> cache \<Rightarrow> cache" where
  "service_only py service_filter resources =
     filter (\<lambda>(name, resource). lower py (dict_get (service resource) []) = lower py service_filter)
       resources"

definition filter_by_service :: "python \<Rightarrow> world \<Rightarrow> cache \<Rightarrow> string option \<Rightarrow> cache" where
  "filter_by_service py fs resources service_filter =
     (let enabled_services = set (load_settings (settings_json fs));
          filtered_resources = enabled_only py enabled_services resources
      in case service_filter of
           None \<Rightarrow> filtered_resources
         | Some sf \<Rightarrow>
             if sf \<noteq> [] then service_only py sf filtered_resources else filtered_resources)"

text \<open>The line \<open>name | service display | environment | url\<close> of one record.\<close>

definition format_line :: "python \<Rightarrow> string \<times> resource \<Rightarrow> string" where
  "format_line py entry =
     (case entry of (name, resource) \<Rightarrow>
        let svc = dict_get (service resource) ''unknown'';
            resource_type = dict_get (rtype resource) ''unknown'';
            u = dict_get (url resource) [];
            service_display = get_service_display py svc (Some resource_type);
            env_indicator = get_environment_indicator py name
        in name @ '' | '' @ service_display @ '' | '' @ env_indicator @ '' | '' @ u)"

definition prepare_resource_data :: "python \<Rightarrow> world \<Rightarrow> cache \<Rightarrow> string option \<Rightarrow> string list" where
  "prepare_resource_data py fs resources service_filter =
     (if resources = [] then []
      else let visible = (if truthy service_filter
                          then filter_by_service py fs resources service_filter
                          else resources)
           in sort (map (format_line py) visible))"

text \<open>\<open>" ".join(words)\<close>\<close>

fun join_words :: "string list \<Rightarrow> string" where
  "join_words [] = []"
| "join_words [w] = w"
| "join_words (w # ws) = w @ '' '' @ join_words ws"

definition parse_search_query :: "python \<Rightarrow> string list \<Rightarrow> string option \<times> string" where
  "parse_search_query py args =
     (case args of
        [] \<Rightarrow> (None, [])
      | first # rest \<Rightarrow>
          let first_arg = lower py first in
          if first_arg \<in> set valid_services then (Some first_arg, join_words rest)
          else (None, join_words args))"

section \<open>Query engine: searching\<close>

definition run_fzf_search :: "python \<Rightarrow> world \<Rightarrow> string option \<Rightarrow> run" where
  "run_fzf_search py w service_filter =
     (let (loaded, resources) = load_aws_resources (resources_json w);
          resource_data = prepare_resource_data py w resources service_filter
      in if resource_data = [] then
           (case service_filter of
              None \<Rightarrow> (loaded @ [Print No_aws_resources_found], None)
            | Some sf \<Rightarrow>
                if sf \<noteq> [] then (loaded @ [Print (No_service_resources_found (upper py sf))], None)
                else (loaded @ [Print No_aws_resources_found], None))
         else
           (case service_filter of
              None \<Rightarrow> (loaded @ [Spawn_fzf Search_all_header resource_data], None)
            | Some sf \<Rightarrow>
                if sf \<noteq> [] then
                  (case map_of SERVICE_CONFIG sf of
                     None \<Rightarrow> (loaded, Some KeyError)
                   | Some (icon, color, display_name) \<Rightarrow>
                       (loaded @ [Spawn_fzf (Search_service_header display_name icon) resource_data],
                        None))
                else (loaded @ [Spawn_fzf Search_all_header resource_data], None)))"

definition run_fzf_for_matches :: "python \<Rightarrow> cache \<Rightarrow> string option \<Rightarrow> event list" where
  "run_fzf_for_matches py matches service_filter =
     (let resource_data = map (format_line py) matches;
          service_text = (case service_filter of
                            None \<Rightarrow> []
                          | Some sf \<Rightarrow> if sf \<noteq> [] then '' '' @ upper py sf else [])
      in [Spawn_fzf (Found_matches_header (length matches) service_text) resource_data])"

text \<open>The loop that prints the suggestions; \<open>resources[suggestion]\<close> and
  \<open>resource['service']\<close> raise \<open>KeyError\<close> on a missing key.\<close>

fun print_suggestions :: "python \<Rightarrow> cache \<Rightarrow> string list \<Rightarrow> run" where
  "print_suggestions py resources [] = ([], None)"
| "print_suggestions py resources (suggestion # rest) =
     (case map_of resources suggestion of
        None \<Rightarrow> ([], Some KeyError)
      | Some resource \<Rightarrow>
          (case service resource of
             None \<Rightarrow> ([], Some KeyError)
           | Some svc \<Rightarrow>
               (let (events, err) = print_suggestions py resources rest
                in (Print (Suggestion suggestion (get_service_display py svc (rtype resource))) # events,
                    err))))"

text \<open>The records \<open>search_with_query\<close> searches, and the ones whose name matches.\<close>

definition visible_resources :: "python \<Rightarrow> world \<Rightarrow> cache \<Rightarrow> string option \<Rightarrow> cache" where
  "visible_resources py w resources service_filter =
     (if truthy service_filter then filter_by_service py w resources service_filter else resources)"

definition find_matches :: "python \<Rightarrow> string \<Rightarrow> cache \<Rightarrow> cache" where
  "find_matches py query resources =
     (let query_lower = lower py query
      in filter (\<lambda>(name, resource). py_in query_lower (lower py name)) resources)"

definition search_with_query :: "python \<Rightarrow> world \<Rightarrow> string \<Rightarrow> string option \<Rightarrow> run" where
  "search_with_query py w query service_filter =
     (let (loaded, resources) = load_aws_resources (resources_json w)
      in if resources = [] then (loaded, None)
         else
           let visible = visible_resources py w resources service_filter;
               matches = find_matches py query visible
           in case matches of
                [] \<Rightarrow>
                  (let service_text = (case service_filter of
                                         None \<Rightarrow> []
                                       | Some sf \<Rightarrow> if sf \<noteq> [] then '' '' @ upper py sf else []);
                       all_names = map fst visible;
                       suggestions = get_close_matches py query all_names 3 (3 / 10);
                       (printed, err) =
                          (if suggestions \<noteq> [] then
                             (let (events, e) = print_suggestions py visible suggestions
                              in (Print Did_you_mean # events, e))
                           else ([], None))
                   in (loaded @ [Print (No_resources_matching service_text query)] @ printed, err))
              | [(name, resource)] \<Rightarrow>
                  (let u = dict_get (url resource) []
                   in if u \<noteq> [] then
                        (case service resource of
                           None \<Rightarrow> (loaded @ [Open_url u], Some KeyError)
                         | Some svc \<Rightarrow>
                             (loaded @
                              [Open_url u,
                               Print (Opening name (get_service_display py svc (rtype resource))
                                        (get_environment_indicator py name))],
                              None))
                      else (loaded @ [Print (No_url_available name)], None))
              | _ \<Rightarrow> (loaded @ run_fzf_for_matches py matches service_filter, None))"

text \<open>The manual search \<open>main\<close> falls back to when fzf is not installed.\<close>

definition manual_search :: "python \<Rightarrow> world \<Rightarrow> string option \<Rightarrow> run" where
  "manual_search py w service_filter =
     (let (loaded, resources) = load_aws_resources (resources_json w)
      in if resources \<noteq> [] then
           (case typed_query w of
              None \<Rightarrow> (loaded @ [Print Manual_search_banner, Print Goodbye], None)
            | Some query \<Rightarrow>
                if query \<noteq> [] then
                  (let (events, err) = search_with_query py w query service_filter
                   in (loaded @ [Print Manual_search_banner] @ events, err))
                else (loaded @ [Print Manual_search_banner], None))
         else (loaded @ [Print Run_populate_hint], None))"

text \<open>\<open>main\<close> on \<open>sys.argv[1:]\<close>.\<close>

definition main :: "python \<Rightarrow> world \<Rightarrow> string list \<Rightarrow> run" where
  "main py w args =
     (if args \<noteq> [] \<and> hd args \<in> set [''-h'', ''--help'', ''help''] then ([Print Help_text], None)
      else if args \<noteq> [] \<and> hd args \<in> set [''--settings'', ''-s'', ''settings'']
        then ([Settings_menu], None)
      else if args \<noteq> [] \<and> hd args \<in> set [''--config'', ''-c'', ''config'']
        then ([Edit_configuration], None)
      else
        let (service_filter, search_query) = parse_search_query py args;
            enabled_services = load_settings (settings_json w)
        in if truthy service_filter \<and> dict_get service_filter [] \<notin> set enabled_services then
             ([Print (Service_disabled (dict_get service_filter [])), Print Enable_services_hint], None)
           else
             (case (if truthy service_filter then
                      (case map_of SERVICE_CONFIG (dict_get service_filter []) of
                         None \<Rightarrow> Inl KeyError
                       | Some (icon, color, display_name) \<Rightarrow>
                           Inr [Print (Service_search_title display_name), Print Rule_line])
                    else
                      Inr [Print Finder_title, Print Rule_line,
                           if int (length SERVICE_CONFIG) - int (length enabled_services) > 0
                           then Print (Services_enabled (length enabled_services)
                                         (length SERVICE_CONFIG))
                           else Print (All_services_enabled (length SERVICE_CONFIG))]) of
                Inl e \<Rightarrow> ([], Some e)
              | Inr header \<Rightarrow>
                  (let (events, err) =
                         (if search_query \<noteq> [] then
                            search_with_query py w search_query service_filter
                          else if fzf_installed w then run_fzf_search py w service_filter
                          else
                            (let (events, err) = manual_search py w service_filter
                             in (Print Fzf_not_found # Print Falling_back # events, err)))
                   in (header @ events, err))))"

section \<open>Collector: what the SDK answers\<close>

text \<open>
  The items of the SDK's responses. A member the source reads with \<open>item['Key']\<close> is a
  plain field; a member it reads with \<open>item.get('Key', default)\<close> is optional.
\<close>

record lambda_func =
  FunctionName :: string
  FunctionArn :: string
  Runtime :: "string option"
  LastModified :: "string option"

record s3_bucket =
  Name :: string
  CreationDate :: "datetime option"

record stream_info =
  StreamARN :: "string option"
  StreamStatus :: "string option"
  Shards :: "string list option"

record table_info =
  TableArn :: "string option"
  TableStatus :: "string option"
  ItemCount :: "int option"

record db_instance =
  DBInstanceIdentifier :: string
  DBInstanceArn :: "string option"
  InstanceEngine :: "string option"
  DBInstanceStatus :: "string option"

record db_cluster =
  DBClusterIdentifier :: string
  DBClusterArn :: "string option"
  ClusterEngine :: "string option"
  ClusterStatus :: "string option"

record rest_api =
  api_name :: string
  api_id :: string
  description :: "string option"
  createdDate :: "datetime option"

text \<open>
  A paginated call: the pages it yields (a page may lack its list, which
  \<open>page.get(key, [])\<close> reads as empty) and the exception that ends the iteration, if
  one is raised; an exception raised while the client or the paginator is made is one
  raised before the first page.
\<close>

type_synonym 'a paginated = "'a list option list \<times> py_error option"

text \<open>The configuration file of the collector: its two keys, each may be absent.\<close>

record config =
  aws_region :: "string option"
  aws_profile :: "string option"

text \<open>
  Everything a collection run reads from outside: the configuration file (\<open>None\<close>
  when it is missing or not JSON), what creating the session and the identity call
  raise, the answer of every enumeration call, and what creating the data directory and
  writing the cache file raise.
\<close>

record aws =
  config_json :: "config option"
  session_error :: "string option \<Rightarrow> py_error option"
  sts_error :: "py_error option"
  lambda_list_functions :: "lambda_func paginated"
  s3_list_buckets :: "py_error + s3_bucket list option"
  sqs_list_queues :: "py_error + string list option"
  kinesis_list_streams :: "string paginated"
  kinesis_describe_stream :: "string \<Rightarrow> py_error + stream_info"
  dynamodb_list_tables :: "string paginated"
  dynamodb_describe_table :: "string \<Rightarrow> py_error + table_info"
  rds_client_error :: "py_error option"
  rds_describe_db_instances :: "db_instance paginated"
  rds_describe_db_clusters :: "db_cluster paginated"
  apigateway_get_rest_apis :: "py_error + rest_api list option"
  makedirs_error :: "py_error option"
  write_error :: "py_error option"

section \<open>Collector: dicts\<close>

text \<open>\<open>d[k] = v\<close> and \<open>d.update(e)\<close> on a dict kept as an association list in
  insertion order: a key already present keeps its place and takes the new value.\<close>

definition dict_set :: "'k \<Rightarrow> 'v \<Rightarrow> ('k \<times> 'v) list \<Rightarrow> ('k \<times> 'v) list" where
  "dict_set k v d =
     (if k \<in> fst ` set d then map (\<lambda>(k', v'). if k' = k then (k', v) else (k', v')) d
      else d @ [(k, v)])"

definition dict_update :: "('k \<times> 'v) list \<Rightarrow> ('k \<times> 'v) list \<Rightarrow> ('k \<times> 'v) list" where
  "dict_update d e = foldl (\<lambda>acc (k, v). dict_set k v acc) d e"

text \<open>All items of the pages of a paginated call, in order.\<close>

definition page_items :: "'a list option list \<Rightarrow> 'a list" where
  "page_items pages = concat (map (\<lambda>page. dict_get page []) pages)"

text \<open>\<open>try: ... return result; except ClientError: return {}\<close>, given what the body
  raised.\<close>

definition except_ClientError :: "py_error option \<Rightarrow> cache \<Rightarrow> py_error + cache" where
  "except_ClientError raised result =
     (case raised of
        None \<Rightarrow> Inr result
      | Some e \<Rightarrow> if e = ClientError then Inr [] else Inl e)"

text \<open>\<open>s.replace(old, new)\<close> for a non-empty \<open>old\<close>, and \<open>s.split('/')[-1]\<close>.\<close>

function py_replace :: "string \<Rightarrow> string \<Rightarrow> string \<Rightarrow> string" where
  "py_replace old new [] = []"
| "py_replace old new (c # cs) =
     (if old \<noteq> [] \<and> prefix old (c # cs)
      then new @ py_replace old new (drop (length old) (c # cs))
      else c # py_replace old new cs)"
  by pat_completeness auto
termination
  by (relation "measure (\<lambda>(old, new, s). length s)") auto

definition last_segment :: "string \<Rightarrow> string" where
  "last_segment s = rev (takeWhile (\<lambda>c. c \<noteq> CHR ''/'') (rev s))"

section \<open>Collector: the records of each service\<close>

definition lambda_record :: "string \<Rightarrow> lambda_func \<Rightarrow> resource" where
  "lambda_record region func =
     (let name = FunctionName func;
          arn = FunctionArn func;
          console_url = ''https://'' @ region @ ''.console.aws.amazon.com/lambda/home?region=''
                        @ region @ ''#/functions/'' @ name @ ''?tab=configuration''
      in \<lparr>service = Some ''lambda'', rtype = Some ''function'', url = Some console_url,
          extra = [(''arn'', PStr arn),
                   (''runtime'', PStr (dict_get (Runtime func) ''unknown'')),
                   (''last_modified'', PStr (dict_get (LastModified func) [])),
                   (''region'', PStr region)]\<rparr>)"

definition s3_record :: "string \<Rightarrow> s3_bucket \<Rightarrow> resource" where
  "s3_record region bucket =
     (let name = Name bucket;
          console_url = ''https://s3.console.aws.amazon.com/s3/buckets/'' @ name @ ''?region=''
                        @ region
      in \<lparr>service = Some ''s3'', rtype = Some ''bucket'', url = Some console_url,
          extra = [(''creation_date'',
                    PStr (case CreationDate bucket of None \<Rightarrow> [] | Some d \<Rightarrow> isoformat d)),
                   (''region'', PStr region)]\<rparr>)"

definition sqs_record :: "string \<Rightarrow> string \<Rightarrow> resource" where
  "sqs_record region queue_url =
     (let console_url = ''https://'' @ region @ ''.console.aws.amazon.com/sqs/v2/home?region=''
                        @ region @ ''#/queues/'' @ py_replace ''://'' ''%3A//'' queue_url
      in \<lparr>service = Some ''sqs'', rtype = Some ''queue'', url = Some console_url,
          extra = [(''queue_url'', PStr queue_url), (''region'', PStr region)]\<rparr>)"

definition stream_record :: "string \<Rightarrow> string \<Rightarrow> stream_info \<Rightarrow> resource" where
  "stream_record region stream_name info =
     (let console_url = ''https://'' @ region @ ''.console.aws.amazon.com/kinesis/home?region=''
                        @ region @ ''#/streams/details/'' @ stream_name @ ''/monitoring''
      in \<lparr>service = Some ''kinesis'', rtype = Some ''stream'', url = Some console_url,
          extra = [(''arn'', PStr (dict_get (StreamARN info) [])),
                   (''status'', PStr (dict_get (StreamStatus info) ''unknown'')),
                   (''shard_count'', PInt (int (length (dict_get (Shards info) [])))),
                   (''region'', PStr region)]\<rparr>)"

definition table_record :: "string \<Rightarrow> string \<Rightarrow> table_info \<Rightarrow> resource" where
  "table_record region table_name info =
     (let console_url = ''https://'' @ region @ ''.console.aws.amazon.com/dynamodbv2/home?region=''
                        @ region @ ''#table?name='' @ table_name
      in \<lparr>service = Some ''dynamodb'', rtype = Some ''table'', url = Some console_url,
          extra = [(''arn'', PStr (dict_get (TableArn info) [])),
                   (''status'', PStr (dict_get (TableStatus info) ''unknown'')),
                   (''item_count'', PInt (dict_get (ItemCount info) 0)),
                   (''region'', PStr region)]\<rparr>)"

definition instance_record :: "string \<Rightarrow> db_instance \<Rightarrow> resource" where
  "instance_record region inst =
     (let name = DBInstanceIdentifier inst;
          console_url = ''https://'' @ region @ ''.console.aws.amazon.com/rds/home?region=''
                        @ region @ ''#database:id='' @ name @ '';is-cluster=false''
      in \<lparr>service = Some ''rds'', rtype = Some ''instance'', url = Some console_url,
          extra = [(''arn'', PStr (dict_get (DBInstanceArn inst) [])),
                   (''engine'', PStr (dict_get (InstanceEngine inst) ''unknown'')),
                   (''status'', PStr (dict_get (DBInstanceStatus inst) ''unknown'')),
                   (''region'', PStr region)]\<rparr>)"

definition cluster_record :: "string \<Rightarrow> db_cluster \<Rightarrow> resource" where
  "cluster_record region cluster =
     (let name = DBClusterIdentifier cluster;
          console_url = ''https://'' @ region @ ''.console.aws.amazon.com/rds/home?region=''
                        @ region @ ''#database:id='' @ name @ '';is-cluster=true''
      in \<lparr>service = Some ''rds'', rtype = Some ''cluster'', url = Some console_url,
          extra = [(''arn'', PStr (dict_get (DBClusterArn cluster) [])),
                   (''engine'', PStr (dict_get (ClusterEngine cluster) ''unknown'')),
                   (''status'', PStr (dict_get (ClusterStatus cluster) ''unknown'')),
                   (''region'', PStr region)]\<rparr>)"

definition api_record :: "string \<Rightarrow> rest_api \<Rightarrow> resource" where
  "api_record region api =
     (let console_url = ''https://'' @ region @ ''.console.aws.amazon.com/apigateway/home?region=''
                        @ region @ ''#/apis/'' @ api_id api
      in \<lparr>service = Some ''apigateway'', rtype = Some ''rest_api'', url = Some console_url,
          extra = [(''api_id'', PStr (api_id api)),
                   (''description'', PStr (dict_get (description api) [])),
                   (''created_date'',
                    PStr (case createdDate api of None \<Rightarrow> [] | Some d \<Rightarrow> isoformat d)),
                   (''region'', PStr region)]\<rparr>)"

section \<open>Collector: the seven fetchers\<close>

definition fetch_lambda_functions :: "aws \<Rightarrow> string \<Rightarrow> py_error + cache" where
  "fetch_lambda_functions a region =
     (case lambda_list_functions a of (pages, raised) \<Rightarrow>
        except_ClientError raised
          (foldl (\<lambda>functions func. dict_set (FunctionName func) (lambda_record region func) functions)
             [] (page_items pages)))"

definition fetch_s3_buckets :: "aws \<Rightarrow> string \<Rightarrow> py_error + cache" where
  "fetch_s3_buckets a region =
     (case s3_list_buckets a of
        Inl e \<Rightarrow> except_ClientError (Some e) []
      | Inr response \<Rightarrow>
          Inr (foldl (\<lambda>buckets bucket. dict_set (Name bucket) (s3_record region bucket) buckets)
                 [] (dict_get response [])))"

definition fetch_sqs_queues :: "aws \<Rightarrow> string \<Rightarrow> py_error + cache" where
  "fetch_sqs_queues a region =
     (case sqs_list_queues a of
        Inl e \<Rightarrow> except_ClientError (Some e) []
      | Inr response \<Rightarrow>
          Inr (foldl (\<lambda>queues queue_url.
                        dict_set (last_segment queue_url) (sqs_record region queue_url) queues)
                 [] (dict_get response [])))"

text \<open>The loop over the stream names: a stream whose description raises
  \<open>ClientError\<close> is skipped, any other exception leaves the loop.\<close>

fun describe_streams :: "aws \<Rightarrow> string \<Rightarrow> string list \<Rightarrow> cache \<Rightarrow> py_error + cache" where
  "describe_streams a region [] streams = Inr streams"
| "describe_streams a region (stream_name # rest) streams =
     (case kinesis_describe_stream a stream_name of
        Inr info \<Rightarrow>
          describe_streams a region rest
            (dict_set stream_name (stream_record region stream_name info) streams)
      | Inl e \<Rightarrow> if e = ClientError then describe_streams a region rest streams else Inl e)"

definition fetch_kinesis_streams :: "aws \<Rightarrow> string \<Rightarrow> py_error + cache" where
  "fetch_kinesis_streams a region =
     (case kinesis_list_streams a of (pages, raised) \<Rightarrow>
        (case describe_streams a region (page_items pages) [] of
           Inl e \<Rightarrow> except_ClientError (Some e) []
         | Inr streams \<Rightarrow> except_ClientError raised streams))"

fun describe_tables :: "aws \<Rightarrow> string \<Rightarrow> string list \<Rightarrow> cache \<Rightarrow> py_error + cache" where
  "describe_tables a region [] tables = Inr tables"
| "describe_tables a region (table_name # rest) tables =
     (case dynamodb_describe_table a table_name of
        Inr info \<Rightarrow>
          describe_tables a region rest
            (dict_set table_name (table_record region table_name info) tables)
      | Inl e \<Rightarrow> if e = ClientError then describe_tables a region rest tables else Inl e)"

definition fetch_dynamodb_tables :: "aws \<Rightarrow> string \<Rightarrow> py_error + cache" where
  "fetch_dynamodb_tables a region =
     (case dynamodb_list_tables a of (pages, raised) \<Rightarrow>
        (case describe_tables a region (page_items pages) [] of
           Inl e \<Rightarrow> except_ClientError (Some e) []
         | Inr tables \<Rightarrow> except_ClientError raised tables))"

text \<open>
  \<open>fetch_rds_resources\<close>: each of the two listings has a \<open>try\<close> of its own, whose
  \<open>except ClientError\<close> keeps the records stored so far and goes on.
\<close>

definition store_instances :: "string \<Rightarrow> db_instance list \<Rightarrow> cache \<Rightarrow> cache" where
  "store_instances region instances resources =
     foldl (\<lambda>resources inst.
              dict_set (DBInstanceIdentifier inst) (instance_record region inst) resources)
       resources instances"

definition store_clusters :: "string \<Rightarrow> db_cluster list \<Rightarrow> cache \<Rightarrow> cache" where
  "store_clusters region clusters resources =
     foldl (\<lambda>resources cluster.
              dict_set (DBClusterIdentifier cluster) (cluster_record region cluster) resources)
       resources clusters"

definition fetch_rds_resources :: "aws \<Rightarrow> string \<Rightarrow> py_error + cache" where
  "fetch_rds_resources a region =
     (case rds_client_error a of
        Some e \<Rightarrow> except_ClientError (Some e) []
      | None \<Rightarrow>
          (case rds_describe_db_instances a of (instance_pages, instances_raised) \<Rightarrow>
             let with_instances = store_instances region (page_items instance_pages) []
             in if instances_raised \<noteq> None \<and> instances_raised \<noteq> Some ClientError
                then except_ClientError instances_raised []
                else
                  (case rds_describe_db_clusters a of (cluster_pages, clusters_raised) \<Rightarrow>
                     let with_clusters =
                           store_clusters region (page_items cluster_pages) with_instances
                     in if clusters_raised \<noteq> None \<and> clusters_raised \<noteq> Some ClientError
                        then except_ClientError clusters_raised []
                        else Inr with_clusters)))"

definition fetch_api_gateway_apis :: "aws \<Rightarrow> string \<Rightarrow> py_error + cache" where
  "fetch_api_gateway_apis a region =
     (case apigateway_get_rest_apis a of
        Inl e \<Rightarrow> except_ClientError (Some e) []
      | Inr response \<Rightarrow>
          Inr (foldl (\<lambda>apis api. dict_set (api_name api) (api_record region api) apis)
                 [] (dict_get response [])))"

section \<open>Collector: the run\<close>

text \<open>The loop of \<open>main\<close> over \<open>sys.argv[1:]\<close>, from the state \<open>(region, profile)\<close>;
  \<open>None\<close> when \<open>--help\<close> ends the run. An option takes the argument after it, when
  there is one, and the loop goes on with that argument.\<close>

definition region_flags :: "string list" where
  "region_flags = [''--region'', ''-r'']"

definition profile_flags :: "string list" where
  "profile_flags = [''--profile'', ''-p'']"

definition help_flags :: "string list" where
  "help_flags = [''--help'', ''-h'']"

fun parse_arguments ::
  "string list \<Rightarrow> string option \<times> string option \<Rightarrow> (string option \<times> string option) option"
where
  "parse_arguments [] state = Some state"
| "parse_arguments (arg # rest) (region, profile) =
     (if arg \<in> set region_flags \<and> rest \<noteq> []
        then parse_arguments rest (Some (hd rest), profile)
      else if arg \<in> set profile_flags \<and> rest \<noteq> []
        then parse_arguments rest (region, Some (hd rest))
      else if arg \<in> set help_flags then None
      else parse_arguments rest (region, profile))"

text \<open>\<open>load_config\<close> of the collector: the file's object, or the defaults.\<close>

definition load_config :: "config option \<Rightarrow> config" where
  "load_config f =
     (case f of
        Some c \<Rightarrow> c
      | None \<Rightarrow> \<lparr>aws_region = Some ''us-east-1'', aws_profile = None\<rparr>)"

text \<open>The region and the profile a run uses, from the arguments and the configuration.\<close>

definition run_region :: "aws \<Rightarrow> string option \<Rightarrow> string" where
  "run_region a region =
     (if truthy region then dict_get region []
      else dict_get (aws_region (load_config (config_json a))) ''us-east-1'')"

definition run_profile :: "aws \<Rightarrow> string option \<Rightarrow> string option" where
  "run_profile a profile =
     (if truthy profile then profile else aws_profile (load_config (config_json a)))"

text \<open>The seven \<open>all_resources.update(fetch(session, region))\<close> of \<open>main\<close>, in order;
  an exception a fetcher lets through ends the sequence.\<close>

definition then_update ::
  "py_error + cache \<Rightarrow> (py_error + cache) \<Rightarrow> py_error + cache" where
  "then_update so_far fetched =
     (case so_far of
        Inl e \<Rightarrow> Inl e
      | Inr all_resources \<Rightarrow>
          (case fetched of
             Inl e \<Rightarrow> Inl e
           | Inr found \<Rightarrow> Inr (dict_update all_resources found)))"

definition fetch_all :: "aws \<Rightarrow> string \<Rightarrow> py_error + cache" where
  "fetch_all a region =
     then_update (then_update (then_update (then_update (then_update (then_update (then_update
       (Inr [])
       (fetch_lambda_functions a region))
       (fetch_s3_buckets a region))
       (fetch_sqs_queues a region))
       (fetch_kinesis_streams a region))
       (fetch_dynamodb_tables a region))
       (fetch_rds_resources a region))
       (fetch_api_gateway_apis a region)"

text \<open>How \<open>main\<close> ends: with the value it returns, or with an exception nothing
  caught. \<open>sys.exit(main())\<close> turns that into the exit status of the process.\<close>

datatype outcome = Returned "nat option" | Raised py_error

fun exit_status :: "outcome \<Rightarrow> nat" where
  "exit_status (Returned None) = 0"
| "exit_status (Returned (Some n)) = n"
| "exit_status (Raised e) = 1"

text \<open>
  \<open>main\<close> of the collector on \<open>sys.argv[1:]\<close>: how it ends, and the mapping it wrote
  to the cache file, if it wrote one.
\<close>

definition populate_main :: "aws \<Rightarrow> string list \<Rightarrow> outcome \<times> cache option" where
  "populate_main a args =
     (case parse_arguments args (None, None) of
        None \<Rightarrow> (Returned None, None)
      | Some (region_arg, profile_arg) \<Rightarrow>
          let region = run_region a region_arg;
              profile = run_profile a profile_arg
          in case session_error a profile of
               Some e \<Rightarrow> (Returned (Some 1), None)
             | None \<Rightarrow>
                 (case sts_error a of
                    Some e \<Rightarrow>
                      if e \<in> set [ClientError, NoCredentialsError] then (Returned (Some 1), None)
                      else (Raised e, None)
                  | None \<Rightarrow>
                      (case fetch_all a region of
                         Inl e \<Rightarrow> (Raised e, None)
                       | Inr all_resources \<Rightarrow>
                           (case makedirs_error a of
                              Some e \<Rightarrow> (Raised e, None)
                            | None \<Rightarrow>
                                (case write_error a of
                                   Some e \<Rightarrow>
                                     if e = OSError then (Returned (Some 1), None)
                                     else (Raised e, None)
                                 | None \<Rightarrow> (Returned (Some 0), Some all_resources))))))"

section \<open>The cache file as JSON\<close>

text \<open>
  \<open>json.dump\<close> and \<open>json.load\<close> belong to the Python library. They are modelled
  from the library's documentation, on the JSON value that the text of the file denotes:
  the layout that \<open>indent=2\<close> chooses and the escapes inside a string literal are the
  same value written differently. The cache file is an object of objects whose members
  are strings and integers, so the other JSON values (arrays, \<open>true\<close>, \<open>false\<close>,
  \<open>null\<close>, numbers with a fraction) are left out.
\<close>

datatype json = JString string | JNumber int | JObject "(string \<times> json) list"

text \<open>
  The items of the dict a record is: the three keys the query tool reads, when present,
  and the service-specific keys.
\<close>

definition record_items :: "resource \<Rightarrow> (string \<times> pyval) list" where
  "record_items r =
     (case service r of None \<Rightarrow> [] | Some s \<Rightarrow> [(''service'', PStr s)])
     @ (case rtype r of None \<Rightarrow> [] | Some t \<Rightarrow> [(''type'', PStr t)])
     @ (case url r of None \<Rightarrow> [] | Some u \<Rightarrow> [(''url'', PStr u)])
     @ extra r"

text \<open>
  \<open>json.dump(all_resources, f, indent=2, default=str)\<close>: by the conversion table of the
  documentation a dict is written as an object, a str as a string and an int as a
  number; a value of any other type is handed to \<open>default\<close>, here \<open>str\<close>, and what
  that returns is written in its place.
\<close>

fun json_of_value :: "pyval \<Rightarrow> json" where
  "json_of_value (PStr s) = JString s"
| "json_of_value (PInt i) = JNumber i"
| "json_of_value (PDatetime d) = JString (str d)"

definition json_dump :: "cache \<Rightarrow> json" where
  "json_dump all_resources =
     JObject (map (\<lambda>(name, resource).
                     (name, JObject (map (\<lambda>(key, v). (key, json_of_value v))
                                       (record_items resource))))
                all_resources)"

text \<open>
  \<open>json.load(f)\<close>: an object is read as a dict, a string as a str and a number without
  fraction as an int; when a name is repeated in an object, the last of its values is
  kept. The result is \<open>None\<close> when the value is not a dict of record dicts, whose keys
  \<open>service\<close>, \<open>type\<close> and \<open>url\<close> hold strings where present and whose other keys
  hold strings or integers: what the query tool does with such a file is not modelled.
\<close>

fun value_of_json :: "json \<Rightarrow> pyval option" where
  "value_of_json (JString s) = Some (PStr s)"
| "value_of_json (JNumber i) = Some (PInt i)"
| "value_of_json (JObject members) = None"

definition dict_of_object :: "('a \<Rightarrow> 'b option) \<Rightarrow> (string \<times> 'a) list \<Rightarrow> (string \<times> 'b) list option" where
  "dict_of_object read members =
     those (map (\<lambda>(name, v). map_option (Pair name) (read v)) (dict_update [] members))"

definition str_field :: "(string \<times> pyval) list \<Rightarrow> string \<Rightarrow> string option option" where
  "str_field items key =
     (case map_of items key of
        None \<Rightarrow> Some None
      | Some (PStr s) \<Rightarrow> Some (Some s)
      | Some other \<Rightarrow> None)"

definition record_of_items :: "(string \<times> pyval) list \<Rightarrow> resource option" where
  "record_of_items items =
     (case (str_field items ''service'', str_field items ''type'', str_field items ''url'') of
        (Some s, Some t, Some u) \<Rightarrow>
          Some \<lparr>service = s, rtype = t, url = u,
                extra = filter (\<lambda>(key, v). key \<notin> set [''service'', ''type'', ''url'']) items\<rparr>
      | other \<Rightarrow> None)"

definition record_of_json :: "json \<Rightarrow> resource option" where
  "record_of_json j =
     (case j of
        JObject members \<Rightarrow>
          (case dict_of_object value_of_json members of
             Some items \<Rightarrow> record_of_items items
           | None \<Rightarrow> None)
      | other \<Rightarrow> None)"

definition json_load :: "json \<Rightarrow> cache option" where
  "json_load document =
     (case document of
        JObject members \<Rightarrow> dict_of_object record_of_json members
      | other \<Rightarrow> None)"

section \<open>Notions the statements use\<close>

text \<open>
  The identifier the console URL of a record is built from: the API id, stored under
  \<open>api_id\<close>, for an API Gateway record, and the name the record is stored under for
  every other record.
\<close>

definition record_identifier :: "string \<Rightarrow> resource \<Rightarrow> string" where
  "record_identifier name r =
     (if service r = Some ''apigateway''
      then (case map_of (extra r) ''api_id'' of Some (PStr i) \<Rightarrow> i | _ \<Rightarrow> name)
      else name)"

definition well_formed_record :: "string \<Rightarrow> string \<Rightarrow> resource \<Rightarrow> bool" where
  "well_formed_record region name r \<longleftrightarrow>
     (\<exists>s. service r = Some s \<and> s \<noteq> []) \<and> (\<exists>t. rtype r = Some t \<and> t \<noteq> [])
     \<and> (\<exists>u. url r = Some u \<and> sublist region u \<and> sublist (record_identifier name r) u)"

text \<open>
  What Python's \<open>str.lower\<close> and \<open>str.upper\<close> do to a string of ASCII characters:
  the letters \<open>A\<close> to \<open>Z\<close> (\<open>a\<close> to \<open>z\<close>) are replaced by \<open>a\<close> to \<open>z\<close>
  (\<open>A\<close> to \<open>Z\<close>) and every other character is kept. \<open>python_on_ascii py\<close> says
  that the library \<open>py\<close> does so; it says nothing of a string that holds a character
  beyond ASCII, which the library folds by the Unicode tables.
\<close>

definition ascii_only :: "string \<Rightarrow> bool" where
  "ascii_only s = list_all (\<lambda>c. (of_char c :: nat) < 128) s"

definition ascii_lower :: "string \<Rightarrow> string" where
  "ascii_lower s =
     map (\<lambda>c. if CHR ''A'' \<le> c \<and> c \<le> CHR ''Z'' then char_of (of_char c + (32::nat)) else c) s"

definition ascii_upper :: "string \<Rightarrow> string" where
  "ascii_upper s =
     map (\<lambda>c. if CHR ''a'' \<le> c \<and> c \<le> CHR ''z'' then char_of (of_char c - (32::nat)) else c) s"

definition python_on_ascii :: "python \<Rightarrow> bool" where
  "python_on_ascii py \<longleftrightarrow>
     (\<forall>s. ascii_only s \<longrightarrow> lower py s = ascii_lower s \<and> upper py s = ascii_upper s)"

text \<open>The exception a call raised, and the two cases every fetcher lives with: nothing
  raised, or \<open>ClientError\<close>.\<close>

definition raised_by :: "py_error + 'a \<Rightarrow> py_error option" where
  "raised_by answer = (case answer of Inl e \<Rightarrow> Some e | Inr x \<Rightarrow> None)"

definition tolerated :: "py_error option \<Rightarrow> bool" where
  "tolerated e = (e = None \<or> e = Some ClientError)"

text \<open>No enumeration call of the run raises anything but \<open>ClientError\<close>: the listings,
  and the description of every stream and table that is listed.\<close>

definition raises_only_ClientError :: "aws \<Rightarrow> bool" where
  "raises_only_ClientError a \<longleftrightarrow>
     tolerated (snd (lambda_list_functions a))
     \<and> tolerated (raised_by (s3_list_buckets a))
     \<and> tolerated (raised_by (sqs_list_queues a))
     \<and> tolerated (snd (kinesis_list_streams a))
     \<and> list_all (\<lambda>n. tolerated (raised_by (kinesis_describe_stream a n)))
           (page_items (fst (kinesis_list_streams a)))
     \<and> tolerated (snd (dynamodb_list_tables a))
     \<and> list_all (\<lambda>n. tolerated (raised_by (dynamodb_describe_table a n)))
           (page_items (fst (dynamodb_list_tables a)))
     \<and> tolerated (rds_client_error a)
     \<and> tolerated (snd (rds_describe_db_instances a))
     \<and> tolerated (snd (rds_describe_db_clusters a))
     \<and> tolerated (raised_by (apigateway_get_rest_apis a))"

text \<open>
  An enumeration call of the run raises \<open>e\<close>: one of the listings, the description of
  a stream or a table that is listed, or the creation of the RDS client.
\<close>

definition enumeration_raises :: "aws \<Rightarrow> py_error \<Rightarrow> bool" where
  "enumeration_raises a e \<longleftrightarrow>
     snd (lambda_list_functions a) = Some e
     \<or> s3_list_buckets a = Inl e
     \<or> sqs_list_queues a = Inl e
     \<or> snd (kinesis_list_streams a) = Some e
     \<or> list_ex (\<lambda>n. kinesis_describe_stream a n = Inl e) (page_items (fst (kinesis_list_streams a)))
     \<or> snd (dynamodb_list_tables a) = Some e
     \<or> list_ex (\<lambda>n. dynamodb_describe_table a n = Inl e) (page_items (fst (dynamodb_list_tables a)))
     \<or> rds_client_error a = Some e
     \<or> (rds_client_error a = None
          \<and> (snd (rds_describe_db_instances a) = Some e \<or> snd (rds_describe_db_clusters a) = Some e))
     \<or> apigateway_get_rest_apis a = Inl e"

text \<open>
  The record \<open>r\<close> under the name \<open>name\<close> is the record the collector builds for an
  item that one of the services lists: a function, a bucket, a queue URL, a stream or a
  table with its description, a DB instance, a DB cluster or a REST API.
\<close>

definition listed_record :: "aws \<Rightarrow> string \<Rightarrow> string \<Rightarrow> resource \<Rightarrow> bool" where
  "listed_record a region name r \<longleftrightarrow>
     list_ex (\<lambda>func. name = FunctionName func \<and> r = lambda_record region func)
       (page_items (fst (lambda_list_functions a)))
     \<or> (case s3_list_buckets a of
           Inr response \<Rightarrow>
             list_ex (\<lambda>bucket. name = Name bucket \<and> r = s3_record region bucket)
               (dict_get response [])
         | Inl e \<Rightarrow> False)
     \<or> (case sqs_list_queues a of
           Inr response \<Rightarrow>
             list_ex (\<lambda>queue_url. name = last_segment queue_url \<and> r = sqs_record region queue_url)
               (dict_get response [])
         | Inl e \<Rightarrow> False)
     \<or> (name \<in> set (page_items (fst (kinesis_list_streams a)))
          \<and> (case kinesis_describe_stream a name of
                Inr info \<Rightarrow> r = stream_record region name info
              | Inl e \<Rightarrow> False))
     \<or> (name \<in> set (page_items (fst (dynamodb_list_tables a)))
          \<and> (case dynamodb_describe_table a name of
                Inr info \<Rightarrow> r = table_record region name info
              | Inl e \<Rightarrow> False))
     \<or> list_ex (\<lambda>inst. name = DBInstanceIdentifier inst \<and> r = instance_record region inst)
          (page_items (fst (rds_describe_db_instances a)))
     \<or> list_ex (\<lambda>cluster. name = DBClusterIdentifier cluster \<and> r = cluster_record region cluster)
          (page_items (fst (rds_describe_db_clusters a)))
     \<or> (case apigateway_get_rest_apis a of
           Inr response \<Rightarrow>
             list_ex (\<lambda>api. name = api_name api \<and> r = api_record region api) (dict_get response [])
         | Inl e \<Rightarrow> False)"

text \<open>A value that \<open>json.dump\<close> writes without calling \<open>default\<close>: a str or an int.\<close>

fun json_native :: "pyval \<Rightarrow> bool" where
  "json_native (PStr s) = True"
| "json_native (PInt i) = True"
| "json_native (PDatetime d) = False"

text \<open>
  A record that \<open>json.dump\<close> and \<open>json.load\<close> give back as it is: its keys are
  different from each other, none of its service-specific keys is \<open>service\<close>,
  \<open>type\<close> or \<open>url\<close>, and every value is a str or an int.
\<close>

definition plain_record :: "resource \<Rightarrow> bool" where
  "plain_record r \<longleftrightarrow>
     distinct (map fst (record_items r))
     \<and> list_all (\<lambda>(key, v). key \<notin> set [''service'', ''type'', ''url'']) (extra r)
     \<and> list_all (\<lambda>(key, v). json_native v) (record_items r)"

section \<open>Example inputs\<close>

text \<open>
  A library for the examples, which hold ASCII characters only: the two case mappings
  fold the ASCII letters and \<open>get_close_matches\<close> returns the first \<open>n\<close> candidates.
  The cache of the two \<open>orders\<close> functions, the same cache with the first record
  only, a cache whose only record has no \<open>url\<close>, and the world that holds a cache and
  the list of enabled services in its settings file.
\<close>

definition ascii_python :: python where
  "ascii_python =
     \<lparr>lower = ascii_lower, upper = ascii_upper,
      get_close_matches = (\<lambda>word possibilities n cutoff. take n possibilities)\<rparr>"

definition orders_prod_cache :: cache where
  "orders_prod_cache =
     [(''orders-prod'', \<lparr>service = Some ''lambda'', rtype = Some ''function'',
                          url = Some ''https://x/orders-prod'', extra = []\<rparr>)]"

definition scenario_cache :: cache where
  "scenario_cache =
     orders_prod_cache @
     [(''orders-dev'', \<lparr>service = Some ''lambda'', rtype = Some ''function'',
                         url = Some ''https://x/orders-dev'', extra = []\<rparr>)]"

definition scenario_world :: "string list \<Rightarrow> cache \<Rightarrow> world" where
  "scenario_world enabled c =
     \<lparr>settings_json = Settings (Some enabled), resources_json = Cache c,
      fzf_installed = True, typed_query = None\<rparr>"

definition orphan_cache :: cache where
  "orphan_cache =
     [(''orphan-queue'', \<lparr>service = Some ''sqs'', rtype = Some ''queue'', url = None, extra = []\<rparr>)]"

text \<open>
  Accounts for the collector: one that lists nothing, one where a Lambda function and an
  S3 bucket share the name \<open>orders\<close>, one where listing the RDS instances raises
  \<open>ClientError\<close> while a cluster is listed, one where both RDS listings raise
  \<open>ClientError\<close>, the first of them after a page with one instance, and one with a
  DynamoDB table whose description has none of the optional members.
\<close>

definition empty_account :: aws where
  "empty_account =
     \<lparr>config_json = None, session_error = (\<lambda>profile. None), sts_error = None,
      lambda_list_functions = ([], None), s3_list_buckets = Inr (Some []),
      sqs_list_queues = Inr None, kinesis_list_streams = ([], None),
      kinesis_describe_stream = (\<lambda>stream_name. Inl ClientError),
      dynamodb_list_tables = ([], None),
      dynamodb_describe_table = (\<lambda>table_name. Inl ClientError),
      rds_client_error = None, rds_describe_db_instances = ([], None),
      rds_describe_db_clusters = ([], None), apigateway_get_rest_apis = Inr (Some []),
      makedirs_error = None, write_error = None\<rparr>"

definition orders_function :: lambda_func where
  "orders_function =
     \<lparr>FunctionName = ''orders'', FunctionArn = ''arn:aws:lambda:us-east-1:1:function:orders'',
      Runtime = Some ''python3.12'', LastModified = None\<rparr>"

definition orders_bucket :: s3_bucket where
  "orders_bucket = \<lparr>Name = ''orders'', CreationDate = None\<rparr>"

definition collision_account :: aws where
  "collision_account =
     empty_account\<lparr>lambda_list_functions := ([Some [orders_function]], None),
                   s3_list_buckets := Inr (Some [orders_bucket])\<rparr>"

definition billing_cluster :: db_cluster where
  "billing_cluster =
     \<lparr>DBClusterIdentifier = ''billing'', DBClusterArn = None, ClusterEngine = Some ''aurora'',
      ClusterStatus = Some ''available''\<rparr>"

definition rds_denied_account :: aws where
  "rds_denied_account =
     empty_account\<lparr>rds_describe_db_instances := ([], Some ClientError),
                   rds_describe_db_clusters := ([Some [billing_cluster]], None)\<rparr>"

definition ledger_instance :: db_instance where
  "ledger_instance =
     \<lparr>DBInstanceIdentifier = ''ledger'', DBInstanceArn = None, InstanceEngine = Some ''postgres'',
      DBInstanceStatus = Some ''available''\<rparr>"

definition rds_throttled_account :: aws where
  "rds_throttled_account =
     empty_account\<lparr>rds_describe_db_instances := ([Some [ledger_instance]], Some ClientError),
                   rds_describe_db_clusters := ([], Some ClientError)\<rparr>"

definition bare_table :: table_info where
  "bare_table = \<lparr>TableArn = None, TableStatus = None, ItemCount = None\<rparr>"

definition bare_table_account :: aws where
  "bare_table_account =
     empty_account\<lparr>dynamodb_list_tables := ([Some [''users'']], None),
                   dynamodb_describe_table := (\<lambda>table_name. Inr bare_table)\<rparr>"


text \<open>
  Three more accounts: one whose identity call finds no credentials, the account with
  the two \<open>orders\<close> resources where listing the Lambda functions raises
  \<open>ClientError\<close> after the first page, and one where writing the cache file raises
  \<open>OSError\<close>.
\<close>

definition no_credentials_account :: aws where
  "no_credentials_account = empty_account\<lparr>sts_error := Some NoCredentialsError\<rparr>"

definition lambda_down_account :: aws where
  "lambda_down_account =
     collision_account\<lparr>lambda_list_functions := ([Some [orders_function]], Some ClientError)\<rparr>"

definition disk_full_account :: aws where
  "disk_full_account = empty_account\<lparr>write_error := Some OSError\<rparr>"

text \<open>
  Three more accounts: one where listing the S3 buckets raises an exception that is not
  \<open>ClientError\<close>, one with a REST API whose name is not its id, and one with an S3
  bucket that has a creation date.
\<close>

definition s3_unreachable_account :: aws where
  "s3_unreachable_account = empty_account\<lparr>s3_list_buckets := Inl Other_exception\<rparr>"

definition orders_api :: rest_api where
  "orders_api =
     \<lparr>api_name = ''orders-api'', api_id = ''a1b2c3d4e5'', description = None, createdDate = None\<rparr>"

definition orders_api_account :: aws where
  "orders_api_account = empty_account\<lparr>apigateway_get_rest_apis := Inr (Some [orders_api])\<rparr>"

definition dated_bucket :: s3_bucket where
  "dated_bucket =
     \<lparr>Name = ''logs'', CreationDate = Some (Datetime ''2024-01-02T03:04:05+00:00'')\<rparr>"

definition dated_account :: aws where
  "dated_account = empty_account\<lparr>s3_list_buckets := Inr (Some [dated_bucket])\<rparr>"


section \<open>Facts about strings\<close>

lemma py_in_iff: "py_in sub s \<longleftrightarrow> (\<exists>us vs. s = us @ sub @ vs)"
proof (induction s)
  case Nil
  then show ?case by auto
next
  case (Cons c cs)
  have "(\<exists>us vs. c # cs = us @ sub @ vs) \<longleftrightarrow> sublist sub (c # cs)"
    by (simp add: sublist_def)
  also have "\<dots> \<longleftrightarrow> prefix sub (c # cs) \<or> sublist sub cs"
    by (rule sublist_Cons_right)
  also have "\<dots> \<longleftrightarrow> prefix sub (c # cs) \<or> py_in sub cs"
    using Cons.IH by (simp add: sublist_def)
  finally show ?case by simp
qed

lemma py_in_sublist: "py_in sub s \<longleftrightarrow> sublist sub s"
  by (simp add: py_in_iff sublist_def)

lemma sort_eq_Nil: "sort xs = [] \<longleftrightarrow> xs = []"
  by (metis length_sort length_0_conv)

lemma lower_on_ascii:
  "python_on_ascii py \<Longrightarrow> ascii_only s \<and> ascii_lower s = t \<Longrightarrow> lower py s = t"
  by (simp add: python_on_ascii_def)

lemma upper_on_ascii:
  "python_on_ascii py \<Longrightarrow> ascii_only s \<and> ascii_upper s = t \<Longrightarrow> upper py s = t"
  by (simp add: python_on_ascii_def)

lemma ascii_python_on_ascii: "python_on_ascii ascii_python"
  by (simp add: python_on_ascii_def ascii_python_def)

section \<open>Facts about the query engine\<close>

lemma any_in_sublist: "any_in markers s \<longleftrightarrow> (\<exists>m\<in>set markers. sublist m s)"
  by (simp add: any_in_def list_ex_iff py_in_sublist)

lemma env_distinct: "distinct [env_PROD, env_STAGE, env_DEV, env_TEST, env_OTHER]"
  by (simp add: env_PROD_def env_STAGE_def env_DEV_def env_TEST_def env_OTHER_def)

lemma get_environment_indicator_sublist:
  "get_environment_indicator py n =
     (if sublist ''prod'' (lower py n) \<or> sublist ''production'' (lower py n) then env_PROD
      else if sublist ''stag'' (lower py n) \<or> sublist ''staging'' (lower py n)
              \<or> sublist ''stage'' (lower py n) then env_STAGE
      else if sublist ''dev'' (lower py n) \<or> sublist ''development'' (lower py n) then env_DEV
      else if sublist ''test'' (lower py n) \<or> sublist ''testing'' (lower py n) then env_TEST
      else env_OTHER)"
  unfolding get_environment_indicator_def Let_def any_in_sublist by simp

lemma find_matches_sublist:
  "find_matches py query resources =
     filter (\<lambda>(name, resource). sublist (lower py query) (lower py name)) resources"
  by (simp add: find_matches_def Let_def py_in_sublist)

lemma valid_services_cases:
  "t \<in> set valid_services \<Longrightarrow>
     t = ''lambda'' \<or> t = ''s3'' \<or> t = ''sqs'' \<or> t = ''kinesis'' \<or> t = ''dynamodb''
     \<or> t = ''rds'' \<or> t = ''apigateway''"
  by (simp add: valid_services_def SERVICE_CONFIG_def)

lemma valid_services_ascii_all:
  "list_all (\<lambda>t. ascii_only t \<and> ascii_lower t = t) valid_services"
  by code_simp

lemma valid_service_lower:
  "python_on_ascii py \<Longrightarrow> t \<in> set valid_services \<Longrightarrow> lower py t = t"
  using valid_services_ascii_all by (simp add: list_all_iff lower_on_ascii)

lemma valid_service_nonempty: "t \<in> set valid_services \<Longrightarrow> t \<noteq> []"
  by (drule valid_services_cases) auto

lemma service_only_enabled_only:
  "lower py t \<in> E \<Longrightarrow>
     service_only py t (enabled_only py E resources) = service_only py t resources"
  unfolding service_only_def enabled_only_def filter_filter
  by (rule filter_cong) auto

lemma service_only_disabled:
  "lower py t \<notin> E \<Longrightarrow> service_only py t (enabled_only py E resources) = []"
  unfolding service_only_def enabled_only_def filter_filter
  by (auto simp: filter_empty_conv)

lemma parse_search_query_service:
  "python_on_ascii py \<Longrightarrow> t \<in> set valid_services \<Longrightarrow>
     parse_search_query py (t # terms) = (Some t, join_words terms)"
  by (simp add: parse_search_query_def Let_def valid_service_lower)

lemma valid_service_no_flag:
  "t \<in> set valid_services \<Longrightarrow>
     t \<notin> set [''-h'', ''--help'', ''help''] \<and> t \<notin> set [''--settings'', ''-s'', ''settings'']
     \<and> t \<notin> set [''--config'', ''-c'', ''config'']"
  by (drule valid_services_cases) (elim disjE; simp)

lemma main_disabled:
  assumes "python_on_ascii py"
    and "t \<in> set valid_services" "t \<notin> set (load_settings (settings_json w))"
  shows "main py w (t # terms) = ([Print (Service_disabled t), Print Enable_services_hint], None)"
proof -
  have "truthy (Some t)" using valid_service_nonempty[OF assms(2)] by (simp add: truthy_def)
  then show ?thesis
    using valid_service_no_flag[OF assms(2)] assms(3)
    unfolding main_def parse_search_query_service[OF assms(1,2)]
    by (simp add: dict_get_def)
qed

lemma visible_resources_Nil: "visible_resources py w [] sf = []"
  by (simp add: visible_resources_def filter_by_service_def enabled_only_def service_only_def
        Let_def split: option.splits)

lemma search_with_query_none:
  assumes "resources_json w = Cache c" "c \<noteq> []"
    and "find_matches py query (visible_resources py w c sf) = []"
  shows "search_with_query py w query sf =
     (let service_text = (case sf of None \<Rightarrow> []
                          | Some t \<Rightarrow> if t \<noteq> [] then '' '' @ upper py t else []);
          suggestions = get_close_matches py query (map fst (visible_resources py w c sf)) 3 (3 / 10);
          (printed, err) =
             (if suggestions \<noteq> [] then
                (let (events, e) = print_suggestions py (visible_resources py w c sf) suggestions
                 in (Print Did_you_mean # events, e))
              else ([], None))
      in ([Print (No_resources_matching service_text query)] @ printed, err))"
  using assms by (simp add: search_with_query_def load_aws_resources_def Let_def)

lemma search_with_query_one:
  assumes "resources_json w = Cache c" "c \<noteq> []"
    and "find_matches py query (visible_resources py w c sf) = [(name, resource)]"
  shows "search_with_query py w query sf =
     (let u = dict_get (url resource) []
      in if u \<noteq> [] then
           (case service resource of
              None \<Rightarrow> ([Open_url u], Some KeyError)
            | Some svc \<Rightarrow>
                ([Open_url u,
                  Print (Opening name (get_service_display py svc (rtype resource))
                           (get_environment_indicator py name))],
                 None))
         else ([Print (No_url_available name)], None))"
  using assms
  by (simp add: search_with_query_def load_aws_resources_def Let_def split: option.splits)

lemma search_with_query_many:
  assumes "resources_json w = Cache c" "c \<noteq> []"
    and "find_matches py query (visible_resources py w c sf) = x # y # zs"
  shows "search_with_query py w query sf = (run_fzf_for_matches py (x # y # zs) sf, None)"
  using assms by (cases x) (simp add: search_with_query_def load_aws_resources_def Let_def)

lemma main_unscoped:
  assumes "parse_search_query py args = (None, search_query)"
    and "args = [] \<or> hd args \<notin> set [''-h'', ''--help'', ''help'', ''--settings'', ''-s'', ''settings'',
                                       ''--config'', ''-c'', ''config'']"
    and "load_settings (settings_json w) = [''s3'']"
  shows "main py w args =
     (let (events, err) =
            (if search_query \<noteq> [] then search_with_query py w search_query None
             else if fzf_installed w then run_fzf_search py w None
             else (let (events, err) = manual_search py w None
                   in (Print Fzf_not_found # Print Falling_back # events, err)))
      in ([Print Finder_title, Print Rule_line, Print (Services_enabled 1 7)] @ events, err))"
proof -
  have n: "length SERVICE_CONFIG = 7"
    by (simp add: SERVICE_CONFIG_def)
  show ?thesis
    using assms(2) unfolding main_def assms(1) assms(3) n
    by (auto simp: truthy_def Let_def split: prod.splits)
qed

lemma scenario_names_lower:
  assumes "python_on_ascii py"
  shows "lower py ''orders'' = ''orders''" "lower py ''order-prod'' = ''order-prod''"
    "lower py ''orders-prod'' = ''orders-prod''" "lower py ''orders-dev'' = ''orders-dev''"
  by (rule lower_on_ascii[OF assms], code_simp)+


section \<open>The environment tag\<close>

text \<open>
  C4. For every record name the environment tag comes from substring tests on the
  lower-cased name, in the order prod/production, then stag/staging/stage, then
  dev/development, then test/testing, and OTHER when none occurs. The first category
  that occurs wins: a name that contains both \<open>prod\<close> and \<open>test\<close> is tagged PROD and
  not TEST, as \<open>prod-test-runner\<close> is. Two names with the same lower-cased form get the
  same tag, and the five tags are different strings.
\<close>

theorem environment_tag_precedence:
  "get_environment_indicator py name =
     (if sublist ''prod'' (lower py name) \<or> sublist ''production'' (lower py name) then env_PROD
      else if sublist ''stag'' (lower py name) \<or> sublist ''staging'' (lower py name)
              \<or> sublist ''stage'' (lower py name) then env_STAGE
      else if sublist ''dev'' (lower py name) \<or> sublist ''development'' (lower py name) then env_DEV
      else if sublist ''test'' (lower py name) \<or> sublist ''testing'' (lower py name) then env_TEST
      else env_OTHER)
   \<and> (sublist ''prod'' (lower py name) \<and> sublist ''test'' (lower py name) \<longrightarrow>
        get_environment_indicator py name = env_PROD \<and> get_environment_indicator py name \<noteq> env_TEST)
   \<and> (python_on_ascii py \<longrightarrow> get_environment_indicator py ''prod-test-runner'' = env_PROD)
   \<and> (lower py name = lower py name' \<longrightarrow>
        get_environment_indicator py name = get_environment_indicator py name')
   \<and> distinct [env_PROD, env_STAGE, env_DEV, env_TEST, env_OTHER]"
proof -
  have ex: "get_environment_indicator py ''prod-test-runner'' = env_PROD" if "python_on_ascii py"
  proof -
    have "lower py ''prod-test-runner'' = ''prod-test-runner''"
      by (rule lower_on_ascii[OF that]) code_simp
    moreover have "sublist ''prod'' ''prod-test-runner''"
      by code_simp
    ultimately show ?thesis
      by (simp add: get_environment_indicator_sublist)
  qed
  have prod: "get_environment_indicator py name = env_PROD \<and> get_environment_indicator py name \<noteq> env_TEST"
    if "sublist ''prod'' (lower py name)"
    using that env_distinct by (simp add: get_environment_indicator_sublist)
  have ci: "get_environment_indicator py name = get_environment_indicator py name'"
    if "lower py name = lower py name'"
    using that by (simp add: get_environment_indicator_sublist)
  show ?thesis using get_environment_indicator_sublist[of py name] prod ex ci env_distinct by blast
qed


theorem environment_tag_precedence_witness:
  "python_on_ascii ascii_python
   \<and> sublist ''prod'' (lower ascii_python ''Prod-Test-Runner'')
   \<and> sublist ''test'' (lower ascii_python ''Prod-Test-Runner'')
   \<and> get_environment_indicator ascii_python ''Prod-Test-Runner'' = env_PROD
   \<and> get_environment_indicator ascii_python ''Prod-Test-Runner'' \<noteq> env_TEST
   \<and> get_environment_indicator ascii_python ''prod-test-runner'' = env_PROD
   \<and> lower ascii_python ''Prod-Test-Runner'' = lower ascii_python ''prod-test-runner''
   \<and> get_environment_indicator ascii_python ''Prod-Test-Runner''
       = get_environment_indicator ascii_python ''prod-test-runner''"
proof -
  have h1: "sublist ''prod'' (lower ascii_python ''Prod-Test-Runner'')" by code_simp
  have h2: "sublist ''test'' (lower ascii_python ''Prod-Test-Runner'')" by code_simp
  have h3: "lower ascii_python ''Prod-Test-Runner'' = lower ascii_python ''prod-test-runner''"
    by code_simp
  from environment_tag_precedence[of ascii_python "''Prod-Test-Runner''" "''prod-test-runner''"]
    ascii_python_on_ascii h1 h2 h3
  show ?thesis by blast
qed


section \<open>Substring matching\<close>

text \<open>
  C5. For every search term and every cache, whatever characters they hold, the records
  that match are exactly the records searched whose name, lower-cased by Python's
  \<open>str.lower\<close>, contains the term lower-cased the same way, each once and in the
  order of the cache; so the term \<open>PROD\<close> matches every name whose lower-cased form
  contains \<open>prod\<close>. When two or more records match, the lines of all of them are
  handed to fzf.
\<close>

theorem substring_matching_total:
  "find_matches py query resources
     = filter (\<lambda>(name, resource). sublist (lower py query) (lower py name)) resources
   \<and> ((name, resource) \<in> set (find_matches py query resources) \<longleftrightarrow>
        (name, resource) \<in> set resources \<and> sublist (lower py query) (lower py name))
   \<and> (python_on_ascii py \<and> (name, resource) \<in> set resources \<and> sublist ''prod'' (lower py name) \<longrightarrow>
        (name, resource) \<in> set (find_matches py ''PROD'' resources))
   \<and> (resources_json w = Cache c
        \<and> 2 \<le> length (find_matches py query (visible_resources py w c sf)) \<longrightarrow>
        (\<exists>header. search_with_query py w query sf
           = ([Spawn_fzf header
                 (map (format_line py) (find_matches py query (visible_resources py w c sf)))],
              None)))"
proof (intro conjI impI)
  show "find_matches py query resources
     = filter (\<lambda>(name, resource). sublist (lower py query) (lower py name)) resources"
    by (rule find_matches_sublist)
  show "(name, resource) \<in> set (find_matches py query resources) \<longleftrightarrow>
        (name, resource) \<in> set resources \<and> sublist (lower py query) (lower py name)"
    by (auto simp: find_matches_sublist)
next
  assume a: "python_on_ascii py \<and> (name, resource) \<in> set resources
               \<and> sublist ''prod'' (lower py name)"
  then have "python_on_ascii py" by simp
  then have "lower py ''PROD'' = ''prod''"
    by (rule lower_on_ascii) code_simp
  with a show "(name, resource) \<in> set (find_matches py ''PROD'' resources)"
    by (simp add: find_matches_sublist)
next
  assume a: "resources_json w = Cache c
               \<and> 2 \<le> length (find_matches py query (visible_resources py w c sf))"
  then have "c \<noteq> []" by (auto simp: visible_resources_Nil find_matches_def)
  moreover obtain x y zs where m: "find_matches py query (visible_resources py w c sf) = x # y # zs"
    using a by (auto simp: numeral_2_eq_2 Suc_le_length_iff)
  ultimately show "\<exists>header. search_with_query py w query sf
           = ([Spawn_fzf header
                 (map (format_line py) (find_matches py query (visible_resources py w c sf)))],
              None)"
    using a by (simp add: search_with_query_many run_fzf_for_matches_def Let_def)
qed

theorem substring_matching_total_witness:
  "python_on_ascii ascii_python
   \<and> (''orders-prod'', snd (hd scenario_cache)) \<in> set scenario_cache
   \<and> sublist ''prod'' (lower ascii_python ''orders-prod'')
   \<and> (''orders-prod'', snd (hd scenario_cache)) \<in> set (find_matches ascii_python ''PROD'' scenario_cache)
   \<and> resources_json (scenario_world valid_services scenario_cache) = Cache scenario_cache
   \<and> 2 \<le> length (find_matches ascii_python ''Orders''
               (visible_resources ascii_python (scenario_world valid_services scenario_cache)
                  scenario_cache None))
   \<and> (\<exists>header. search_with_query ascii_python
          (scenario_world valid_services scenario_cache) ''Orders'' None
        = ([Spawn_fzf header (map (format_line ascii_python) (find_matches ascii_python ''Orders''
              (visible_resources ascii_python (scenario_world valid_services scenario_cache)
                 scenario_cache None)))],
           None))"
proof -
  let ?w = "scenario_world valid_services scenario_cache"
  have h1: "(''orders-prod'', snd (hd scenario_cache)) \<in> set scenario_cache" by code_simp
  have h2: "sublist ''prod'' (lower ascii_python ''orders-prod'')" by code_simp
  have h3: "resources_json ?w = Cache scenario_cache" by (simp add: scenario_world_def)
  have h4: "2 \<le> length (find_matches ascii_python ''Orders''
                         (visible_resources ascii_python ?w scenario_cache None))"
    by code_simp
  from substring_matching_total[where py = ascii_python and query = "''Orders''"
      and resources = scenario_cache
      and name = "''orders-prod''" and resource = "snd (hd scenario_cache)" and w = ?w
      and c = scenario_cache and sf = None] ascii_python_on_ascii h1 h2 h3 h4
  show ?thesis by blast
qed


section \<open>A single match without a URL\<close>

text \<open>
  C10. When a search has exactly one match and that record's \<open>url\<close> is missing or
  empty, the run prints that no URL is available for the record, by its name, and does
  nothing else: it opens nothing and spawns no fzf.
\<close>

theorem single_match_without_url:
  assumes "resources_json w = Cache c"
    and "find_matches py query (visible_resources py w c service_filter) = [(name, resource)]"
    and "url resource = None \<or> url resource = Some []"
  shows "search_with_query py w query service_filter
           = ([Print (No_url_available name)], None)"
proof -
  have "c \<noteq> []"
    using assms(2) by (auto simp: visible_resources_Nil find_matches_def)
  moreover have "dict_get (url resource) [] = []"
    using assms(3) by (auto simp: dict_get_def)
  ultimately show ?thesis
    using assms(1,2) by (simp add: search_with_query_one)
qed


theorem single_match_without_url_witness:
  "resources_json (scenario_world valid_services orphan_cache) = Cache orphan_cache
   \<and> find_matches ascii_python ''ORPHAN''
       (visible_resources ascii_python (scenario_world valid_services orphan_cache) orphan_cache
          (Some ''sqs''))
       = [(''orphan-queue'', snd (hd orphan_cache))]
   \<and> url (snd (hd orphan_cache)) = None
   \<and> search_with_query ascii_python (scenario_world valid_services orphan_cache)
        ''ORPHAN'' (Some ''sqs'')
       = ([Print (No_url_available ''orphan-queue'')], None)"
proof -
  let ?w = "scenario_world valid_services orphan_cache"
  have h1: "resources_json ?w = Cache orphan_cache" by (simp add: scenario_world_def)
  have h2: "find_matches ascii_python ''ORPHAN''
              (visible_resources ascii_python ?w orphan_cache (Some ''sqs''))
              = [(''orphan-queue'', snd (hd orphan_cache))]"
    by code_simp
  have h3: "url (snd (hd orphan_cache)) = None" by code_simp
  from single_match_without_url[OF h1 h2 disjI1[OF h3]] h1 h2 h3
  show ?thesis by blast
qed

section \<open>The two stages of the filter\<close>

text \<open>
  C2. For a service tag \<open>t\<close> of \<open>SERVICE_CONFIG\<close>: when \<open>t\<close> is enabled, keeping the
  records of enabled services and then the records of \<open>t\<close> gives the same records as
  keeping the records of \<open>t\<close> alone, and that is what \<open>filter_by_service\<close> returns.
  When \<open>t\<close> is not enabled, \<open>filter_by_service\<close> returns no record, no search term
  has a match among them, and \<open>main\<close> called with \<open>t\<close> and any search terms only prints
  that the service is disabled. The seven tags are lower-case ASCII, which
  \<open>str.lower\<close> leaves as they are.
\<close>

theorem filter_order_independent:
  assumes "python_on_ascii py" and "t \<in> set valid_services"
  shows "(t \<in> set (load_settings (settings_json w)) \<longrightarrow>
            service_only py t (enabled_only py (set (load_settings (settings_json w))) resources)
              = service_only py t resources
          \<and> filter_by_service py w resources (Some t) = service_only py t resources)
       \<and> (t \<notin> set (load_settings (settings_json w)) \<longrightarrow>
            filter_by_service py w resources (Some t) = []
          \<and> find_matches py query (visible_resources py w resources (Some t)) = []
          \<and> main py w (t # terms)
              = ([Print (Service_disabled t), Print Enable_services_hint], None))"
proof -
  have l: "lower py t = t" and ne: "t \<noteq> []"
    using assms by (simp_all add: valid_service_lower valid_service_nonempty)
  have fbs: "filter_by_service py w resources (Some t)
               = service_only py t (enabled_only py (set (load_settings (settings_json w))) resources)"
    using ne by (simp add: filter_by_service_def Let_def)
  have vis: "visible_resources py w resources (Some t) = filter_by_service py w resources (Some t)"
    using ne by (simp add: visible_resources_def truthy_def)
  show ?thesis
  proof (intro conjI impI)
    assume "t \<in> set (load_settings (settings_json w))"
    then have "lower py t \<in> set (load_settings (settings_json w))" by (simp add: l)
    then show "service_only py t (enabled_only py (set (load_settings (settings_json w))) resources)
                 = service_only py t resources"
      by (rule service_only_enabled_only)
    then show "filter_by_service py w resources (Some t) = service_only py t resources"
      by (simp add: fbs)
  next
    assume off: "t \<notin> set (load_settings (settings_json w))"
    then have "lower py t \<notin> set (load_settings (settings_json w))" by (simp add: l)
    then show e: "filter_by_service py w resources (Some t) = []"
      unfolding fbs by (rule service_only_disabled)
    show "find_matches py query (visible_resources py w resources (Some t)) = []"
      by (simp add: vis e find_matches_def)
    show "main py w (t # terms)
            = ([Print (Service_disabled t), Print Enable_services_hint], None)"
      using assms off by (rule main_disabled)
  qed
qed

theorem filter_order_independent_witness:
  "python_on_ascii ascii_python
   \<and> ''lambda'' \<in> set valid_services
   \<and> ''lambda'' \<in> set (load_settings (settings_json (scenario_world [''lambda'', ''s3''] scenario_cache)))
   \<and> filter_by_service ascii_python (scenario_world [''lambda'', ''s3''] scenario_cache) scenario_cache
         (Some ''lambda'')
       = service_only ascii_python ''lambda'' scenario_cache
   \<and> ''lambda'' \<notin> set (load_settings (settings_json (scenario_world [''s3''] scenario_cache)))
   \<and> filter_by_service ascii_python (scenario_world [''s3''] scenario_cache) scenario_cache
         (Some ''lambda'') = []
   \<and> find_matches ascii_python ''orders''
         (visible_resources ascii_python (scenario_world [''s3''] scenario_cache) scenario_cache
            (Some ''lambda'')) = []
   \<and> main ascii_python (scenario_world [''s3''] scenario_cache) [''lambda'', ''orders'']
       = ([Print (Service_disabled ''lambda''), Print Enable_services_hint], None)"
proof -
  have v: "''lambda'' \<in> set valid_services" by code_simp
  have on: "''lambda'' \<in> set (load_settings (settings_json (scenario_world [''lambda'', ''s3''] scenario_cache)))"
    by code_simp
  have off: "''lambda'' \<notin> set (load_settings (settings_json (scenario_world [''s3''] scenario_cache)))"
    by code_simp
  from filter_order_independent[OF ascii_python_on_ascii v,
      of "scenario_world [''lambda'', ''s3''] scenario_cache" scenario_cache] on
  have a: "filter_by_service ascii_python (scenario_world [''lambda'', ''s3''] scenario_cache)
             scenario_cache (Some ''lambda'')
       = service_only ascii_python ''lambda'' scenario_cache"
    by blast
  from filter_order_independent[OF ascii_python_on_ascii v,
      of "scenario_world [''s3''] scenario_cache" scenario_cache "''orders''" "[''orders'']"] off
  have b: "filter_by_service ascii_python (scenario_world [''s3''] scenario_cache) scenario_cache
             (Some ''lambda'') = []
     \<and> find_matches ascii_python ''orders''
         (visible_resources ascii_python (scenario_world [''s3''] scenario_cache) scenario_cache
            (Some ''lambda'')) = []
     \<and> main ascii_python (scenario_world [''s3''] scenario_cache) [''lambda'', ''orders'']
       = ([Print (Service_disabled ''lambda''), Print Enable_services_hint], None)"
    by blast
  from ascii_python_on_ascii v on a off b show ?thesis by blast
qed


section \<open>Searches without a service argument\<close>

text \<open>
  C1. The claim is that a record of a service that is not enabled is never matched and
  never formatted for fzf. With only \<open>s3\<close> enabled and a cache of two Lambda functions,
  the search for \<open>orders\<close> without a service argument hands both functions to fzf, and
  the interactive mode formats both: \<open>search_with_query\<close> and
  \<open>prepare_resource_data\<close> call \<open>filter_by_service\<close> only when a service argument is
  given.
\<close>

theorem disabled_service_visible_without_filter:
  assumes "python_on_ascii py"
  shows "map (\<lambda>(name, resource). service resource) scenario_cache = [Some ''lambda'', Some ''lambda'']
   \<and> main py (scenario_world [''s3''] scenario_cache) [''orders'']
       = ([Print Finder_title, Print Rule_line, Print (Services_enabled 1 7),
           Spawn_fzf (Found_matches_header 2 []) (map (format_line py) scenario_cache)], None)
   \<and> main py (scenario_world [''s3''] scenario_cache) []
       = ([Print Finder_title, Print Rule_line, Print (Services_enabled 1 7),
           Spawn_fzf Search_all_header (sort (map (format_line py) scenario_cache))], None)"
proof (intro conjI)
  let ?w = "scenario_world [''s3''] scenario_cache"
  note low = scenario_names_lower[OF assms]
  show "map (\<lambda>(name, resource). service resource) scenario_cache = [Some ''lambda'', Some ''lambda'']"
    by code_simp
  have rj: "resources_json ?w = Cache scenario_cache"
    by (simp add: scenario_world_def)
  have e: "load_settings (settings_json ?w) = [''s3'']"
    by (simp add: scenario_world_def load_settings_def)
  have fzf: "fzf_installed ?w"
    by (simp add: scenario_world_def)
  have ne: "scenario_cache \<noteq> []"
    by (simp add: scenario_cache_def)
  have two: "\<exists>x y. scenario_cache = [x, y]"
    by (simp add: scenario_cache_def orders_prod_cache_def)
  have vis: "visible_resources py ?w scenario_cache None = scenario_cache"
    by (simp add: visible_resources_def truthy_def)
  have sub: "py_in ''orders'' ''orders-prod''" "py_in ''orders'' ''orders-dev''"
    by code_simp+
  have fm: "find_matches py ''orders'' scenario_cache = scenario_cache"
    by (simp add: find_matches_def scenario_cache_def orders_prod_cache_def low sub)
  have nv: "''orders'' \<notin> set valid_services"
    by code_simp
  have p: "parse_search_query py [''orders''] = (None, ''orders'')"
    by (simp add: parse_search_query_def low nv)
  from two obtain x y where xy: "scenario_cache = [x, y]"
    by (elim exE)
  have s: "search_with_query py ?w ''orders'' None
             = ([Spawn_fzf (Found_matches_header 2 []) (map (format_line py) scenario_cache)], None)"
  proof -
    have len: "length scenario_cache = 2"
      by (simp add: scenario_cache_def orders_prod_cache_def)
    have "search_with_query py ?w ''orders'' None = (run_fzf_for_matches py [x, y] None, None)"
      using search_with_query_many[OF rj ne, of py "''orders''" None x y "[]"] fm vis xy
      by simp
    then show ?thesis
      unfolding xy[symmetric] by (simp add: run_fzf_for_matches_def len)
  qed
  show "main py ?w [''orders'']
       = ([Print Finder_title, Print Rule_line, Print (Services_enabled 1 7),
           Spawn_fzf (Found_matches_header 2 []) (map (format_line py) scenario_cache)], None)"
    using main_unscoped[OF p _ e] by (simp add: s)
  have p0: "parse_search_query py [] = (None, [])"
    by (simp add: parse_search_query_def)
  have "sort (map (format_line py) scenario_cache) \<noteq> []"
    using ne by (simp add: sort_eq_Nil)
  then have r: "run_fzf_search py ?w None
             = ([Spawn_fzf Search_all_header (sort (map (format_line py) scenario_cache))], None)"
    using ne
    by (simp add: run_fzf_search_def rj load_aws_resources_def prepare_resource_data_def truthy_def)
  show "main py ?w []
       = ([Print Finder_title, Print Rule_line, Print (Services_enabled 1 7),
           Spawn_fzf Search_all_header (sort (map (format_line py) scenario_cache))], None)"
    using main_unscoped[OF p0 _ e] fzf by (simp add: r)
qed

theorem disabled_service_visible_without_filter_witness:
  "python_on_ascii ascii_python
   \<and> main ascii_python (scenario_world [''s3''] scenario_cache) [''orders'']
       = ([Print Finder_title, Print Rule_line, Print (Services_enabled 1 7),
           Spawn_fzf (Found_matches_header 2 []) (map (format_line ascii_python) scenario_cache)], None)
   \<and> main ascii_python (scenario_world [''s3''] scenario_cache) []
       = ([Print Finder_title, Print Rule_line, Print (Services_enabled 1 7),
           Spawn_fzf Search_all_header (sort (map (format_line ascii_python) scenario_cache))], None)"
  using disabled_service_visible_without_filter[OF ascii_python_on_ascii] ascii_python_on_ascii
  by blast


text \<open>
  C3. The claim is that the suggestions never name a record of a service that is not
  enabled. With only \<open>s3\<close> enabled and a cache that holds the Lambda function
  \<open>orders-prod\<close>, the search for \<open>order-prod\<close> without a service argument has no match,
  offers \<open>orders-prod\<close> to \<open>get_close_matches\<close> as the only candidate and prints it as
  a suggestion when that returns it.
\<close>

theorem disabled_service_suggested_without_filter:
  assumes "python_on_ascii py"
    and "get_close_matches py ''order-prod'' [''orders-prod''] 3 (3 / 10) = [''orders-prod'']"
  shows "main py (scenario_world [''s3''] orders_prod_cache) [''order-prod'']
           = ([Print Finder_title, Print Rule_line, Print (Services_enabled 1 7),
               Print (No_resources_matching [] ''order-prod''), Print Did_you_mean,
               Print (Suggestion ''orders-prod'' (get_service_display py ''lambda'' (Some ''function'')))],
              None)"
proof -
  let ?w = "scenario_world [''s3''] orders_prod_cache"
  let ?shown = "Print (Suggestion ''orders-prod'' (get_service_display py ''lambda'' (Some ''function'')))"
  note low = scenario_names_lower[OF assms(1)]
  have rj: "resources_json ?w = Cache orders_prod_cache"
    by (simp add: scenario_world_def)
  have ne: "orders_prod_cache \<noteq> []"
    by (simp add: orders_prod_cache_def)
  have vis: "visible_resources py ?w orders_prod_cache None = orders_prod_cache"
    by (simp add: visible_resources_def truthy_def)
  have sub: "\<not> py_in ''order-prod'' ''orders-prod''"
    by code_simp
  have fm: "find_matches py ''order-prod'' orders_prod_cache = []"
    by (simp add: find_matches_def orders_prod_cache_def low sub)
  have names: "map fst orders_prod_cache = [''orders-prod'']"
    by code_simp
  have ps: "print_suggestions py orders_prod_cache [''orders-prod''] = ([?shown], None)"
    by (simp add: orders_prod_cache_def)
  have s: "search_with_query py ?w ''order-prod'' None
             = ([Print (No_resources_matching [] ''order-prod''), Print Did_you_mean, ?shown], None)"
    using search_with_query_none[OF rj ne, of py "''order-prod''" None]
      fm vis names ps assms(2) by (simp add: Let_def)
  have nv: "''order-prod'' \<notin> set valid_services"
    by code_simp
  have p: "parse_search_query py [''order-prod''] = (None, ''order-prod'')"
    by (simp add: parse_search_query_def low nv)
  have e: "load_settings (settings_json ?w) = [''s3'']"
    by (simp add: scenario_world_def load_settings_def)
  show ?thesis
    using main_unscoped[OF p _ e] by (simp add: s)
qed


theorem disabled_service_suggested_without_filter_witness:
  "python_on_ascii ascii_python
   \<and> get_close_matches ascii_python ''order-prod'' [''orders-prod''] 3 (3 / 10) = [''orders-prod'']
   \<and> main ascii_python (scenario_world [''s3''] orders_prod_cache) [''order-prod'']
       = ([Print Finder_title, Print Rule_line, Print (Services_enabled 1 7),
           Print (No_resources_matching [] ''order-prod''), Print Did_you_mean,
           Print (Suggestion ''orders-prod''
                    (get_service_display ascii_python ''lambda'' (Some ''function'')))],
          None)"
proof -
  have h: "get_close_matches ascii_python ''order-prod'' [''orders-prod''] 3 (3 / 10) = [''orders-prod'']"
    by (simp add: ascii_python_def)
  from disabled_service_suggested_without_filter[OF ascii_python_on_ascii h] ascii_python_on_ascii h
  show ?thesis by blast
qed

section \<open>Facts about dicts\<close>

lemma dict_set_entries:
  "(n, r) \<in> set (dict_set k v d) \<Longrightarrow> (n, r) \<in> set d \<or> (n = k \<and> r = v)"
  by (auto simp: dict_set_def split: if_splits)

lemma dict_set_keys: "fst ` set (dict_set k v d) = insert k (fst ` set d)"
  by (force simp: dict_set_def image_iff split: if_splits)

lemma dict_set_map_fst:
  "map fst (dict_set k v d) = (if k \<in> fst ` set d then map fst d else map fst d @ [k])"
proof -
  have "map fst (map (\<lambda>(k', v'). if k' = k then (k', v) else (k', v')) d) = map fst d"
    by (induction d) auto
  then show ?thesis by (simp add: dict_set_def)
qed

lemma dict_set_distinct: "distinct (map fst d) \<Longrightarrow> distinct (map fst (dict_set k v d))"
  by (simp add: dict_set_map_fst)

lemma map_of_dict_set: "map_of (dict_set k v d) = (map_of d)(k \<mapsto> v)"
proof (cases "k \<in> fst ` set d")
  case True
  have "map_of (map (\<lambda>(k', v'). if k' = k then (k', v) else (k', v')) d) x
          = (if x = k then (case map_of d k of None \<Rightarrow> None | Some u \<Rightarrow> Some v)
             else map_of d x)" for x
    by (induction d) auto
  moreover from True obtain u where "map_of d k = Some u"
    by (metis map_of_eq_None_iff not_None_eq)
  ultimately show ?thesis using True by (auto simp: dict_set_def fun_eq_iff)
next
  case False
  then have "map_of d k = None" by (simp add: map_of_eq_None_iff)
  with False show ?thesis
    by (auto simp: dict_set_def fun_eq_iff map_add_def split: option.splits)
qed

lemma foldl_dict_set_entries:
  "(n, r) \<in> set (foldl (\<lambda>acc x. dict_set (key x) (val x) acc) d xs) \<Longrightarrow>
     (n, r) \<in> set d \<or> (\<exists>x\<in>set xs. n = key x \<and> r = val x)"
  by (induction xs arbitrary: d) (auto dest!: dict_set_entries)

lemma foldl_dict_set_keys:
  "fst ` set (foldl (\<lambda>acc x. dict_set (key x) (val x) acc) d xs) = fst ` set d \<union> key ` set xs"
  by (induction xs arbitrary: d) (auto simp: dict_set_keys)

lemma foldl_dict_set_distinct:
  "distinct (map fst d) \<Longrightarrow>
     distinct (map fst (foldl (\<lambda>acc x. dict_set (key x) (val x) acc) d xs))"
  by (induction xs arbitrary: d) (auto simp: dict_set_distinct)

lemma map_of_foldl_dict_set:
  "map_of (foldl (\<lambda>acc x. dict_set (key x) (val x) acc) d xs)
     = map_of d ++ map_of (rev (map (\<lambda>x. (key x, val x)) xs))"
proof (induction xs arbitrary: d)
  case Nil
  then show ?case by simp
next
  case (Cons x xs)
  show ?case
    by (simp add: Cons.IH map_of_dict_set fun_eq_iff map_add_def split: option.splits)
qed

lemma dict_update_fold:
  "dict_update d e = foldl (\<lambda>acc x. dict_set (fst x) (snd x) acc) d e"
  by (simp add: dict_update_def case_prod_unfold)

lemma dict_update_entries:
  "(n, r) \<in> set (dict_update d e) \<Longrightarrow> (n, r) \<in> set d \<or> (n, r) \<in> set e"
  unfolding dict_update_fold by (drule foldl_dict_set_entries) auto

lemma dict_update_keys: "fst ` set (dict_update d e) = fst ` set d \<union> fst ` set e"
  unfolding dict_update_fold by (rule foldl_dict_set_keys)

lemma dict_update_distinct:
  "distinct (map fst d) \<Longrightarrow> distinct (map fst (dict_update d e))"
  unfolding dict_update_fold by (rule foldl_dict_set_distinct)

lemma map_of_rev_distinct: "distinct (map fst e) \<Longrightarrow> map_of (rev e) = map_of e"
  by (rule map_of_inject_set[THEN iffD2]) (simp_all add: rev_map[symmetric])

lemma map_of_dict_update:
  "distinct (map fst e) \<Longrightarrow>
     map_of (dict_update d e) n = (case map_of e n of Some r \<Rightarrow> Some r | None \<Rightarrow> map_of d n)"
  unfolding dict_update_fold
  by (simp add: map_of_foldl_dict_set map_of_rev_distinct map_add_def)

section \<open>Facts about the console URLs\<close>

lemma py_replace_keeps_tail:
  assumes "old \<noteq> []" "last old \<notin> set t"
  shows "py_replace old new (s @ t) = py_replace old new s @ t"
proof -
  have no_span: "prefix old (u @ t) \<longleftrightarrow> prefix old u" for u
  proof
    assume p: "prefix old (u @ t)"
    show "prefix old u"
    proof (rule ccontr)
      assume n: "\<not> prefix old u"
      from p obtain w where w: "u @ t = old @ w" by (auto simp: prefix_def)
      from n w obtain v where "old = u @ v" "v \<noteq> []" "t = v @ w"
        by (auto simp: append_eq_append_conv2 prefix_def)
      then have "last old \<in> set t" by simp
      with assms(2) show False by simp
    qed
  next
    assume "prefix old u"
    then show "prefix old (u @ t)" by (rule prefix_prefix)
  qed
  have tail: "py_replace old new u = u" if "set u \<subseteq> set t" for u
    using that
  proof (induction u)
    case Nil
    then show ?case by simp
  next
    case (Cons c cs)
    have "\<not> prefix old (c # cs)"
    proof
      assume "prefix old (c # cs)"
      then have "set old \<subseteq> set (c # cs)" by (rule set_mono_prefix)
      moreover have "last old \<in> set old" using assms(1) by simp
      ultimately show False using Cons.prems assms(2) by auto
    qed
    with Cons show ?case by simp
  qed
  show ?thesis
  proof (induction "length s" arbitrary: s rule: less_induct)
    case less
    show ?case
    proof (cases s)
      case Nil
      then show ?thesis by (simp add: tail)
    next
      case (Cons c cs)
      show ?thesis
      proof (cases "prefix old (c # cs)")
        case True
        then have le: "length old \<le> length (c # cs)" by (rule prefix_length_le)
        have "length (drop (length old) (c # cs)) < length s"
          using assms(1) Cons by simp
        then have "py_replace old new (drop (length old) (c # cs) @ t)
                     = py_replace old new (drop (length old) (c # cs)) @ t"
          by (rule less)
        moreover have "drop (length old) (c # cs @ t) = drop (length old) (c # cs) @ t"
          using le drop_append[of "length old" "c # cs" t] by simp
        moreover have "prefix old (c # cs @ t)"
          using True no_span[of "c # cs"] by simp
        ultimately show ?thesis using True assms(1) Cons by simp
      next
        case False
        then have "\<not> prefix old (c # cs @ t)"
          using no_span[of "c # cs"] by simp
        moreover have "py_replace old new (cs @ t) = py_replace old new cs @ t"
          using Cons by (intro less) simp
        ultimately show ?thesis using False Cons by simp
      qed
    qed
  qed
qed

lemma last_segment_split:
  "\<exists>pre. s = pre @ last_segment s \<and> CHR ''/'' \<notin> set (last_segment s)"
proof -
  have "rev s = takeWhile (\<lambda>c. c \<noteq> CHR ''/'') (rev s) @ dropWhile (\<lambda>c. c \<noteq> CHR ''/'') (rev s)"
    by simp
  then have "s = rev (dropWhile (\<lambda>c. c \<noteq> CHR ''/'') (rev s)) @ last_segment s"
    unfolding last_segment_def by (metis rev_append rev_rev_ident)
  moreover have "CHR ''/'' \<notin> set (last_segment s)"
    unfolding last_segment_def by (auto dest: set_takeWhileD)
  ultimately show ?thesis by blast
qed

lemma queue_name_in_escaped_url:
  "suffix (last_segment queue_url) (py_replace ''://'' ''%3A//'' queue_url)"
proof -
  obtain pre where s: "queue_url = pre @ last_segment queue_url"
    and n: "CHR ''/'' \<notin> set (last_segment queue_url)"
    using last_segment_split by blast
  have "py_replace ''://'' ''%3A//'' (pre @ last_segment queue_url)
          = py_replace ''://'' ''%3A//'' pre @ last_segment queue_url"
    by (rule py_replace_keeps_tail) (use n in simp_all)
  then show ?thesis using s by (metis suffixI)
qed

lemma sublist_in_tail: "sublist x t \<Longrightarrow> sublist x (s @ t)"
  by (metis sublist_order.order_trans sublist_append_leftI)

lemma sublist_2nd: "sublist x (a @ x @ b)"
  by simp

lemma sublist_4th: "sublist x (a @ b @ c @ x @ d)"
  by (intro sublist_in_tail sublist_append_rightI)

lemma sublist_6th: "sublist x (a @ b @ c @ d @ e @ x @ f)"
  by (intro sublist_in_tail sublist_append_rightI)

lemma sublist_last4: "sublist x (a @ b @ c @ x)"
  by (intro sublist_in_tail) simp

lemma sublist_last6: "sublist x (a @ b @ c @ d @ e @ x)"
  by (intro sublist_in_tail) simp

lemma well_formed_recordI:
  assumes "service r = Some s" "s \<noteq> []" "rtype r = Some t" "t \<noteq> []" "url r = Some u"
    and "sublist region u" "record_identifier name r = i" "sublist i u"
  shows "well_formed_record region name r"
  using assms unfolding well_formed_record_def by auto

lemma lambda_record_well_formed:
  "well_formed_record region (FunctionName func) (lambda_record region func)"
proof (rule well_formed_recordI)
  show "service (lambda_record region func) = Some ''lambda''"
    by (simp add: lambda_record_def Let_def)
  show "rtype (lambda_record region func) = Some ''function''"
    by (simp add: lambda_record_def Let_def)
  show "url (lambda_record region func) = Some (''https://'' @ region @ ''.console.aws.amazon.com/lambda/home?region='' @ region @ ''#/functions/'' @ FunctionName func @ ''?tab=configuration'')"
    by (simp add: lambda_record_def Let_def)
  show "sublist region (''https://'' @ region @ ''.console.aws.amazon.com/lambda/home?region='' @ region @ ''#/functions/'' @ FunctionName func @ ''?tab=configuration'')"
    by (rule sublist_2nd)
  show "record_identifier (FunctionName func) (lambda_record region func) = FunctionName func"
    by (simp add: record_identifier_def lambda_record_def Let_def)
  show "sublist (FunctionName func) (''https://'' @ region @ ''.console.aws.amazon.com/lambda/home?region='' @ region @ ''#/functions/'' @ FunctionName func @ ''?tab=configuration'')"
    by (rule sublist_6th)
qed simp_all

lemma s3_record_well_formed:
  "well_formed_record region (Name bucket) (s3_record region bucket)"
proof (rule well_formed_recordI)
  show "service (s3_record region bucket) = Some ''s3''"
    by (simp add: s3_record_def Let_def)
  show "rtype (s3_record region bucket) = Some ''bucket''"
    by (simp add: s3_record_def Let_def)
  show "url (s3_record region bucket) = Some (''https://s3.console.aws.amazon.com/s3/buckets/'' @ Name bucket @ ''?region='' @ region)"
    by (simp add: s3_record_def Let_def)
  show "sublist region (''https://s3.console.aws.amazon.com/s3/buckets/'' @ Name bucket @ ''?region='' @ region)"
    by (rule sublist_last4)
  show "record_identifier (Name bucket) (s3_record region bucket) = Name bucket"
    by (simp add: record_identifier_def s3_record_def Let_def)
  show "sublist (Name bucket) (''https://s3.console.aws.amazon.com/s3/buckets/'' @ Name bucket @ ''?region='' @ region)"
    by (rule sublist_2nd)
qed simp_all

lemma sqs_record_well_formed:
  "well_formed_record region (last_segment queue_url) (sqs_record region queue_url)"
proof (rule well_formed_recordI)
  show "service (sqs_record region queue_url) = Some ''sqs''"
    by (simp add: sqs_record_def Let_def)
  show "rtype (sqs_record region queue_url) = Some ''queue''"
    by (simp add: sqs_record_def Let_def)
  show "url (sqs_record region queue_url) = Some (''https://'' @ region @ ''.console.aws.amazon.com/sqs/v2/home?region='' @ region @ ''#/queues/'' @ py_replace ''://'' ''%3A//'' queue_url)"
    by (simp add: sqs_record_def Let_def)
  show "sublist region (''https://'' @ region @ ''.console.aws.amazon.com/sqs/v2/home?region='' @ region @ ''#/queues/'' @ py_replace ''://'' ''%3A//'' queue_url)"
    by (rule sublist_2nd)
  show "record_identifier (last_segment queue_url) (sqs_record region queue_url) = last_segment queue_url"
    by (simp add: record_identifier_def sqs_record_def Let_def)
  show "sublist (last_segment queue_url) (''https://'' @ region @ ''.console.aws.amazon.com/sqs/v2/home?region='' @ region @ ''#/queues/'' @ py_replace ''://'' ''%3A//'' queue_url)"
    by (intro sublist_in_tail suffix_imp_sublist queue_name_in_escaped_url)
qed simp_all

lemma stream_record_well_formed:
  "well_formed_record region (stream_name) (stream_record region stream_name info)"
proof (rule well_formed_recordI)
  show "service (stream_record region stream_name info) = Some ''kinesis''"
    by (simp add: stream_record_def Let_def)
  show "rtype (stream_record region stream_name info) = Some ''stream''"
    by (simp add: stream_record_def Let_def)
  show "url (stream_record region stream_name info) = Some (''https://'' @ region @ ''.console.aws.amazon.com/kinesis/home?region='' @ region @ ''#/streams/details/'' @ stream_name @ ''/monitoring'')"
    by (simp add: stream_record_def Let_def)
  show "sublist region (''https://'' @ region @ ''.console.aws.amazon.com/kinesis/home?region='' @ region @ ''#/streams/details/'' @ stream_name @ ''/monitoring'')"
    by (rule sublist_2nd)
  show "record_identifier (stream_name) (stream_record region stream_name info) = stream_name"
    by (simp add: record_identifier_def stream_record_def Let_def)
  show "sublist (stream_name) (''https://'' @ region @ ''.console.aws.amazon.com/kinesis/home?region='' @ region @ ''#/streams/details/'' @ stream_name @ ''/monitoring'')"
    by (rule sublist_6th)
qed simp_all

lemma table_record_well_formed:
  "well_formed_record region (table_name) (table_record region table_name info)"
proof (rule well_formed_recordI)
  show "service (table_record region table_name info) = Some ''dynamodb''"
    by (simp add: table_record_def Let_def)
  show "rtype (table_record region table_name info) = Some ''table''"
    by (simp add: table_record_def Let_def)
  show "url (table_record region table_name info) = Some (''https://'' @ region @ ''.console.aws.amazon.com/dynamodbv2/home?region='' @ region @ ''#table?name='' @ table_name)"
    by (simp add: table_record_def Let_def)
  show "sublist region (''https://'' @ region @ ''.console.aws.amazon.com/dynamodbv2/home?region='' @ region @ ''#table?name='' @ table_name)"
    by (rule sublist_2nd)
  show "record_identifier (table_name) (table_record region table_name info) = table_name"
    by (simp add: record_identifier_def table_record_def Let_def)
  show "sublist (table_name) (''https://'' @ region @ ''.console.aws.amazon.com/dynamodbv2/home?region='' @ region @ ''#table?name='' @ table_name)"
    by (rule sublist_last6)
qed simp_all

lemma instance_record_well_formed:
  "well_formed_record region (DBInstanceIdentifier inst) (instance_record region inst)"
proof (rule well_formed_recordI)
  show "service (instance_record region inst) = Some ''rds''"
    by (simp add: instance_record_def Let_def)
  show "rtype (instance_record region inst) = Some ''instance''"
    by (simp add: instance_record_def Let_def)
  show "url (instance_record region inst) = Some (''https://'' @ region @ ''.console.aws.amazon.com/rds/home?region='' @ region @ ''#database:id='' @ DBInstanceIdentifier inst @ '';is-cluster=false'')"
    by (simp add: instance_record_def Let_def)
  show "sublist region (''https://'' @ region @ ''.console.aws.amazon.com/rds/home?region='' @ region @ ''#database:id='' @ DBInstanceIdentifier inst @ '';is-cluster=false'')"
    by (rule sublist_2nd)
  show "record_identifier (DBInstanceIdentifier inst) (instance_record region inst) = DBInstanceIdentifier inst"
    by (simp add: record_identifier_def instance_record_def Let_def)
  show "sublist (DBInstanceIdentifier inst) (''https://'' @ region @ ''.console.aws.amazon.com/rds/home?region='' @ region @ ''#database:id='' @ DBInstanceIdentifier inst @ '';is-cluster=false'')"
    by (rule sublist_6th)
qed simp_all

lemma cluster_record_well_formed:
  "well_formed_record region (DBClusterIdentifier cluster) (cluster_record region cluster)"
proof (rule well_formed_recordI)
  show "service (cluster_record region cluster) = Some ''rds''"
    by (simp add: cluster_record_def Let_def)
  show "rtype (cluster_record region cluster) = Some ''cluster''"
    by (simp add: cluster_record_def Let_def)
  show "url (cluster_record region cluster) = Some (''https://'' @ region @ ''.console.aws.amazon.com/rds/home?region='' @ region @ ''#database:id='' @ DBClusterIdentifier cluster @ '';is-cluster=true'')"
    by (simp add: cluster_record_def Let_def)
  show "sublist region (''https://'' @ region @ ''.console.aws.amazon.com/rds/home?region='' @ region @ ''#database:id='' @ DBClusterIdentifier cluster @ '';is-cluster=true'')"
    by (rule sublist_2nd)
  show "record_identifier (DBClusterIdentifier cluster) (cluster_record region cluster) = DBClusterIdentifier cluster"
    by (simp add: record_identifier_def cluster_record_def Let_def)
  show "sublist (DBClusterIdentifier cluster) (''https://'' @ region @ ''.console.aws.amazon.com/rds/home?region='' @ region @ ''#database:id='' @ DBClusterIdentifier cluster @ '';is-cluster=true'')"
    by (rule sublist_6th)
qed simp_all

lemma api_record_well_formed:
  "well_formed_record region (api_name api) (api_record region api)"
proof (rule well_formed_recordI)
  show "service (api_record region api) = Some ''apigateway''"
    by (simp add: api_record_def Let_def)
  show "rtype (api_record region api) = Some ''rest_api''"
    by (simp add: api_record_def Let_def)
  show "url (api_record region api) = Some (''https://'' @ region @ ''.console.aws.amazon.com/apigateway/home?region='' @ region @ ''#/apis/'' @ api_id api)"
    by (simp add: api_record_def Let_def)
  show "sublist region (''https://'' @ region @ ''.console.aws.amazon.com/apigateway/home?region='' @ region @ ''#/apis/'' @ api_id api)"
    by (rule sublist_2nd)
  show "record_identifier (api_name api) (api_record region api) = api_id api"
    by (simp add: record_identifier_def api_record_def Let_def)
  show "sublist (api_id api) (''https://'' @ region @ ''.console.aws.amazon.com/apigateway/home?region='' @ region @ ''#/apis/'' @ api_id api)"
    by (rule sublist_last6)
qed simp_all

section \<open>Facts about the fetchers\<close>

lemma except_ClientError_Inr:
  "except_ClientError raised result = Inr c \<Longrightarrow> c = [] \<or> (raised = None \<and> c = result)"
  by (auto simp: except_ClientError_def split: option.splits if_splits)

lemma foldl_dict_set_well_formed:
  assumes "(n, r) \<in> set (foldl (\<lambda>acc x. dict_set (key x) (val x) acc) [] xs)"
    and "\<And>x. well_formed_record region (key x) (val x)"
  shows "well_formed_record region n r"
  using foldl_dict_set_entries[OF assms(1)] assms(2) by auto

lemma describe_streams_entries:
  "describe_streams a region names acc = Inr c \<Longrightarrow> (n, r) \<in> set c \<Longrightarrow>
     (n, r) \<in> set acc \<or> (\<exists>info. r = stream_record region n info)"
proof (induction names arbitrary: acc)
  case Nil
  then show ?case by simp
next
  case (Cons x xs)
  then show ?case
    by (auto split: sum.splits if_splits dest!: dict_set_entries)
qed

lemma describe_streams_distinct:
  "describe_streams a region names acc = Inr c \<Longrightarrow> distinct (map fst acc) \<Longrightarrow>
     distinct (map fst c)"
proof (induction names arbitrary: acc)
  case Nil
  then show ?case by simp
next
  case (Cons x xs)
  then show ?case
    by (auto split: sum.splits if_splits intro: dict_set_distinct)
qed

lemma describe_tables_entries:
  "describe_tables a region names acc = Inr c \<Longrightarrow> (n, r) \<in> set c \<Longrightarrow>
     (n, r) \<in> set acc \<or> (\<exists>info. r = table_record region n info)"
proof (induction names arbitrary: acc)
  case Nil
  then show ?case by simp
next
  case (Cons x xs)
  then show ?case
    by (auto split: sum.splits if_splits dest!: dict_set_entries)
qed

lemma describe_tables_distinct:
  "describe_tables a region names acc = Inr c \<Longrightarrow> distinct (map fst acc) \<Longrightarrow>
     distinct (map fst c)"
proof (induction names arbitrary: acc)
  case Nil
  then show ?case by simp
next
  case (Cons x xs)
  then show ?case
    by (auto split: sum.splits if_splits intro: dict_set_distinct)
qed

lemma fetch_lambda_functions_ok:
  assumes "fetch_lambda_functions a region = Inr c"
  shows "distinct (map fst c)" and "(n, r) \<in> set c \<Longrightarrow> well_formed_record region n r"
proof -
  obtain pages raised where l: "lambda_list_functions a = (pages, raised)"
    by (cases "lambda_list_functions a")
  let ?built = "foldl (\<lambda>functions func. dict_set (FunctionName func) (lambda_record region func) functions)
                  [] (page_items pages)"
  from assms l have c: "c = [] \<or> c = ?built"
    by (auto simp: fetch_lambda_functions_def dest: except_ClientError_Inr)
  have "distinct (map fst ?built)" by (rule foldl_dict_set_distinct) simp
  with c show "distinct (map fst c)" by auto
  show "well_formed_record region n r" if "(n, r) \<in> set c"
    using c that foldl_dict_set_well_formed[of n r FunctionName "lambda_record region" _ region]
      lambda_record_well_formed by auto
qed

lemma fetch_s3_buckets_ok:
  assumes "fetch_s3_buckets a region = Inr c"
  shows "distinct (map fst c)" and "(n, r) \<in> set c \<Longrightarrow> well_formed_record region n r"
proof -
  obtain response where c: "c = [] \<or> c = foldl (\<lambda>buckets bucket.
       dict_set (Name bucket) (s3_record region bucket) buckets) [] (dict_get response [])"
    using assms
    by (auto simp: fetch_s3_buckets_def split: sum.splits dest: except_ClientError_Inr)
  have "distinct (map fst (foldl (\<lambda>buckets bucket.
       dict_set (Name bucket) (s3_record region bucket) buckets) [] (dict_get response [])))"
    by (rule foldl_dict_set_distinct) simp
  with c show "distinct (map fst c)" by auto
  show "well_formed_record region n r" if "(n, r) \<in> set c"
    using c that foldl_dict_set_well_formed[of n r Name "s3_record region" _ region]
      s3_record_well_formed by auto
qed

lemma fetch_sqs_queues_ok:
  assumes "fetch_sqs_queues a region = Inr c"
  shows "distinct (map fst c)" and "(n, r) \<in> set c \<Longrightarrow> well_formed_record region n r"
proof -
  obtain response where c: "c = [] \<or> c = foldl (\<lambda>queues queue_url.
       dict_set (last_segment queue_url) (sqs_record region queue_url) queues) []
         (dict_get response [])"
    using assms
    by (auto simp: fetch_sqs_queues_def split: sum.splits dest: except_ClientError_Inr)
  have "distinct (map fst (foldl (\<lambda>queues queue_url.
       dict_set (last_segment queue_url) (sqs_record region queue_url) queues) []
         (dict_get response [])))"
    by (rule foldl_dict_set_distinct) simp
  with c show "distinct (map fst c)" by auto
  show "well_formed_record region n r" if "(n, r) \<in> set c"
    using c that foldl_dict_set_well_formed[of n r last_segment "sqs_record region" _ region]
      sqs_record_well_formed by auto
qed

lemma fetch_kinesis_streams_ok:
  assumes "fetch_kinesis_streams a region = Inr c"
  shows "distinct (map fst c)" and "(n, r) \<in> set c \<Longrightarrow> well_formed_record region n r"
proof -
  obtain pages raised where l: "kinesis_list_streams a = (pages, raised)"
    by (cases "kinesis_list_streams a")
  from assms l have c: "c = [] \<or> describe_streams a region (page_items pages) [] = Inr c"
    by (auto simp: fetch_kinesis_streams_def split: sum.splits dest: except_ClientError_Inr)
  then show "distinct (map fst c)"
    by (auto dest: describe_streams_distinct)
  show "well_formed_record region n r" if "(n, r) \<in> set c"
    using c that stream_record_well_formed by (auto dest: describe_streams_entries)
qed

lemma fetch_dynamodb_tables_ok:
  assumes "fetch_dynamodb_tables a region = Inr c"
  shows "distinct (map fst c)" and "(n, r) \<in> set c \<Longrightarrow> well_formed_record region n r"
proof -
  obtain pages raised where l: "dynamodb_list_tables a = (pages, raised)"
    by (cases "dynamodb_list_tables a")
  from assms l have c: "c = [] \<or> describe_tables a region (page_items pages) [] = Inr c"
    by (auto simp: fetch_dynamodb_tables_def split: sum.splits dest: except_ClientError_Inr)
  then show "distinct (map fst c)"
    by (auto dest: describe_tables_distinct)
  show "well_formed_record region n r" if "(n, r) \<in> set c"
    using c that table_record_well_formed by (auto dest: describe_tables_entries)
qed

lemma fetch_rds_resources_cases:
  assumes "fetch_rds_resources a region = Inr c"
  shows "c = [] \<or> c = store_clusters region (page_items (fst (rds_describe_db_clusters a)))
                          (store_instances region (page_items (fst (rds_describe_db_instances a))) [])"
  using assms
  by (auto simp: fetch_rds_resources_def Let_def
      split: option.splits prod.splits if_splits dest: except_ClientError_Inr)

lemma rds_listed_ok:
  shows "distinct (map fst (store_clusters region clusters (store_instances region instances [])))"
    and "(n, r) \<in> set (store_clusters region clusters (store_instances region instances []))
         \<Longrightarrow> well_formed_record region n r"
proof -
  show "distinct (map fst (store_clusters region clusters (store_instances region instances [])))"
    unfolding store_clusters_def store_instances_def by (intro foldl_dict_set_distinct) simp
  assume "(n, r) \<in> set (store_clusters region clusters (store_instances region instances []))"
  then have "(\<exists>x. n = DBClusterIdentifier x \<and> r = cluster_record region x)
             \<or> (\<exists>x. n = DBInstanceIdentifier x \<and> r = instance_record region x)"
    unfolding store_clusters_def store_instances_def
    by (auto dest!: foldl_dict_set_entries)
  then show "well_formed_record region n r"
    using cluster_record_well_formed instance_record_well_formed by auto
qed

lemma fetch_rds_resources_ok:
  assumes "fetch_rds_resources a region = Inr c"
  shows "distinct (map fst c)" and "(n, r) \<in> set c \<Longrightarrow> well_formed_record region n r"
  using fetch_rds_resources_cases[OF assms] rds_listed_ok(1) rds_listed_ok(2)[of n r] by auto

lemma fetch_api_gateway_apis_ok:
  assumes "fetch_api_gateway_apis a region = Inr c"
  shows "distinct (map fst c)" and "(n, r) \<in> set c \<Longrightarrow> well_formed_record region n r"
proof -
  obtain response where c: "c = [] \<or> c = foldl (\<lambda>apis api.
       dict_set (api_name api) (api_record region api) apis) [] (dict_get response [])"
    using assms
    by (auto simp: fetch_api_gateway_apis_def split: sum.splits dest: except_ClientError_Inr)
  have "distinct (map fst (foldl (\<lambda>apis api.
       dict_set (api_name api) (api_record region api) apis) [] (dict_get response [])))"
    by (rule foldl_dict_set_distinct) simp
  with c show "distinct (map fst c)" by auto
  show "well_formed_record region n r" if "(n, r) \<in> set c"
    using c that foldl_dict_set_well_formed[of n r api_name "api_record region" _ region]
      api_record_well_formed by auto
qed

lemma then_update_Inr:
  "then_update x y = Inr c \<longleftrightarrow> (\<exists>d e. x = Inr d \<and> y = Inr e \<and> c = dict_update d e)"
  by (auto simp: then_update_def split: sum.splits)

lemma fetch_all_InrI:
  assumes "fetch_lambda_functions a region = Inr c1" "fetch_s3_buckets a region = Inr c2"
    "fetch_sqs_queues a region = Inr c3" "fetch_kinesis_streams a region = Inr c4"
    "fetch_dynamodb_tables a region = Inr c5" "fetch_rds_resources a region = Inr c6"
    "fetch_api_gateway_apis a region = Inr c7"
  shows "fetch_all a region
           = Inr (dict_update (dict_update (dict_update (dict_update (dict_update (dict_update
                (dict_update [] c1) c2) c3) c4) c5) c6) c7)"
  by (simp add: fetch_all_def then_update_def assms)

lemma fetch_all_InrD:
  assumes "fetch_all a region = Inr c"
  shows "\<exists>c1 c2 c3 c4 c5 c6 c7.
        fetch_lambda_functions a region = Inr c1 \<and> fetch_s3_buckets a region = Inr c2
        \<and> fetch_sqs_queues a region = Inr c3 \<and> fetch_kinesis_streams a region = Inr c4
        \<and> fetch_dynamodb_tables a region = Inr c5 \<and> fetch_rds_resources a region = Inr c6
        \<and> fetch_api_gateway_apis a region = Inr c7
        \<and> c = dict_update (dict_update (dict_update (dict_update (dict_update (dict_update
                (dict_update [] c1) c2) c3) c4) c5) c6) c7"
proof -
  from assms obtain d6 c7 where s7: "fetch_api_gateway_apis a region = Inr c7"
    "c = dict_update d6 c7"
    and r6: "then_update (then_update (then_update (then_update (then_update (then_update
       (Inr [])
       (fetch_lambda_functions a region))
       (fetch_s3_buckets a region))
       (fetch_sqs_queues a region))
       (fetch_kinesis_streams a region))
       (fetch_dynamodb_tables a region))
       (fetch_rds_resources a region) = Inr d6"
    unfolding fetch_all_def then_update_Inr[of _ "fetch_api_gateway_apis a region"] by blast
  from r6 obtain d5 c6 where s6: "fetch_rds_resources a region = Inr c6" "d6 = dict_update d5 c6"
    and r5: "then_update (then_update (then_update (then_update (then_update
       (Inr [])
       (fetch_lambda_functions a region))
       (fetch_s3_buckets a region))
       (fetch_sqs_queues a region))
       (fetch_kinesis_streams a region))
       (fetch_dynamodb_tables a region) = Inr d5"
    unfolding then_update_Inr[of _ "fetch_rds_resources a region"] by blast
  from r5 obtain d4 c5 where s5: "fetch_dynamodb_tables a region = Inr c5" "d5 = dict_update d4 c5"
    and r4: "then_update (then_update (then_update (then_update
       (Inr [])
       (fetch_lambda_functions a region))
       (fetch_s3_buckets a region))
       (fetch_sqs_queues a region))
       (fetch_kinesis_streams a region) = Inr d4"
    unfolding then_update_Inr[of _ "fetch_dynamodb_tables a region"] by blast
  from r4 obtain d3 c4 where s4: "fetch_kinesis_streams a region = Inr c4" "d4 = dict_update d3 c4"
    and r3: "then_update (then_update (then_update
       (Inr [])
       (fetch_lambda_functions a region))
       (fetch_s3_buckets a region))
       (fetch_sqs_queues a region) = Inr d3"
    unfolding then_update_Inr[of _ "fetch_kinesis_streams a region"] by blast
  from r3 obtain d2 c3 where s3: "fetch_sqs_queues a region = Inr c3" "d3 = dict_update d2 c3"
    and r2: "then_update (then_update
       (Inr [])
       (fetch_lambda_functions a region))
       (fetch_s3_buckets a region) = Inr d2"
    unfolding then_update_Inr[of _ "fetch_sqs_queues a region"] by blast
  from r2 obtain d1 c2 where s2: "fetch_s3_buckets a region = Inr c2" "d2 = dict_update d1 c2"
    and r1: "then_update (Inr []) (fetch_lambda_functions a region) = Inr d1"
    unfolding then_update_Inr[of _ "fetch_s3_buckets a region"] by blast
  from r1 obtain c1 where s1: "fetch_lambda_functions a region = Inr c1" "d1 = dict_update [] c1"
    unfolding then_update_Inr by blast
  show ?thesis
    using s1 s2 s3 s4 s5 s6 s7 by blast
qed

lemma populate_main_written:
  assumes "populate_main a args = (out, Some cache)"
  shows "out = Returned (Some 0)
         \<and> (\<exists>region_arg profile_arg.
               parse_arguments args (None, None) = Some (region_arg, profile_arg)
               \<and> session_error a (run_profile a profile_arg) = None \<and> sts_error a = None
               \<and> makedirs_error a = None \<and> write_error a = None
               \<and> fetch_all a (run_region a region_arg) = Inr cache)"
  using assms
  by (auto simp: populate_main_def Let_def split: option.splits sum.splits if_splits prod.splits)

lemma map_of_foldl_dict_update:
  fixes cs :: "cache list"
  assumes "\<And>c. c \<in> set cs \<Longrightarrow> distinct (map fst c)"
  shows "map_of (foldl dict_update d cs) name
         = (case filter (\<lambda>c. name \<in> fst ` set c) (rev cs) of
              [] \<Rightarrow> map_of d name
            | c # others \<Rightarrow> map_of c name)"
  using assms
proof (induction cs rule: rev_induct)
  case Nil
  then show ?case by simp
next
  case (snoc c cs)
  have d: "distinct (map fst c)" using snoc.prems by simp
  have ih: "map_of (foldl dict_update d cs) name
         = (case filter (\<lambda>c. name \<in> fst ` set c) (rev cs) of
              [] \<Rightarrow> map_of d name
            | c # others \<Rightarrow> map_of c name)"
    using snoc.prems by (intro snoc.IH) simp
  show ?case
  proof (cases "name \<in> fst ` set c")
    case True
    then obtain r where "map_of c name = Some r"
      by (metis map_of_eq_None_iff not_None_eq)
    with True show ?thesis by (simp add: map_of_dict_update[OF d])
  next
    case False
    then have "map_of c name = None" by (simp add: map_of_eq_None_iff)
    with False show ?thesis by (simp add: map_of_dict_update[OF d] ih)
  qed
qed

lemma merged_lookup:
  fixes c1 c2 c3 c4 c5 c6 c7 :: cache
  assumes "distinct (map fst c1)" "distinct (map fst c2)" "distinct (map fst c3)"
    "distinct (map fst c4)" "distinct (map fst c5)" "distinct (map fst c6)" "distinct (map fst c7)"
  shows "map_of (dict_update (dict_update (dict_update (dict_update (dict_update (dict_update
                (dict_update [] c1) c2) c3) c4) c5) c6) c7) name
         = (case filter (\<lambda>c. name \<in> fst ` set c) [c7, c6, c5, c4, c3, c2, c1] of
              [] \<Rightarrow> None
            | c # others \<Rightarrow> map_of c name)"
proof -
  have "map_of (foldl dict_update [] [c1, c2, c3, c4, c5, c6, c7]) name
         = (case filter (\<lambda>c. name \<in> fst ` set c) (rev [c1, c2, c3, c4, c5, c6, c7]) of
              [] \<Rightarrow> map_of [] name
            | c # others \<Rightarrow> map_of c name)"
    by (rule map_of_foldl_dict_update) (use assms in auto)
  moreover have "rev [c1, c2, c3, c4, c5, c6, c7] = [c7, c6, c5, c4, c3, c2, c1]"
    by simp
  moreover have "foldl dict_update [] [c1, c2, c3, c4, c5, c6, c7]
      = dict_update (dict_update (dict_update (dict_update (dict_update (dict_update
                (dict_update [] c1) c2) c3) c4) c5) c6) c7"
    by simp
  ultimately show ?thesis by (simp only: map_of.simps)
qed

lemma merged_distinct:
  "distinct (map fst (dict_update (dict_update (dict_update (dict_update (dict_update (dict_update
                (dict_update [] c1) c2) c3) c4) c5) c6) c7))"
  by (intro dict_update_distinct) simp


lemma tolerated_except:
  "tolerated e \<Longrightarrow> except_ClientError e result = Inr (if e = None then result else [])"
  by (auto simp: tolerated_def except_ClientError_def)

lemma tolerated_raised_by:
  "tolerated (raised_by answer) \<Longrightarrow> answer = Inl ClientError \<or> (\<exists>x. answer = Inr x)"
  by (cases answer) (auto simp: tolerated_def raised_by_def)

lemma fetch_lambda_functions_tolerated:
  assumes "tolerated (snd (lambda_list_functions a))"
  shows "\<exists>c. fetch_lambda_functions a region = Inr c
           \<and> (snd (lambda_list_functions a) = Some ClientError \<longrightarrow> c = [])
           \<and> (snd (lambda_list_functions a) = None \<longrightarrow>
                FunctionName ` set (page_items (fst (lambda_list_functions a))) \<subseteq> fst ` set c)"
  using assms
  by (cases "lambda_list_functions a")
     (auto simp: fetch_lambda_functions_def tolerated_except foldl_dict_set_keys)

lemma fetch_s3_buckets_tolerated:
  assumes "tolerated (raised_by (s3_list_buckets a))"
  shows "\<exists>c. fetch_s3_buckets a region = Inr c
           \<and> (s3_list_buckets a = Inl ClientError \<longrightarrow> c = [])
           \<and> (\<forall>response. s3_list_buckets a = Inr response \<longrightarrow>
                Name ` set (dict_get response []) \<subseteq> fst ` set c)"
  using tolerated_raised_by[OF assms]
  by (auto simp: fetch_s3_buckets_def except_ClientError_def foldl_dict_set_keys)

lemma fetch_sqs_queues_tolerated:
  assumes "tolerated (raised_by (sqs_list_queues a))"
  shows "\<exists>c. fetch_sqs_queues a region = Inr c
           \<and> (sqs_list_queues a = Inl ClientError \<longrightarrow> c = [])
           \<and> (\<forall>response. sqs_list_queues a = Inr response \<longrightarrow>
                last_segment ` set (dict_get response []) \<subseteq> fst ` set c)"
  using tolerated_raised_by[OF assms]
  by (auto simp: fetch_sqs_queues_def except_ClientError_def foldl_dict_set_keys)

lemma fetch_api_gateway_apis_tolerated:
  assumes "tolerated (raised_by (apigateway_get_rest_apis a))"
  shows "\<exists>c. fetch_api_gateway_apis a region = Inr c
           \<and> (apigateway_get_rest_apis a = Inl ClientError \<longrightarrow> c = [])
           \<and> (\<forall>response. apigateway_get_rest_apis a = Inr response \<longrightarrow>
                api_name ` set (dict_get response []) \<subseteq> fst ` set c)"
  using tolerated_raised_by[OF assms]
  by (auto simp: fetch_api_gateway_apis_def except_ClientError_def foldl_dict_set_keys)

lemma describe_streams_tolerated:
  assumes "list_all (\<lambda>n. tolerated (raised_by (kinesis_describe_stream a n))) names"
  shows "\<exists>c. describe_streams a region names acc = Inr c
           \<and> fst ` set acc \<union> {n \<in> set names. raised_by (kinesis_describe_stream a n) = None}
               \<subseteq> fst ` set c"
  using assms
proof (induction names arbitrary: acc)
  case Nil
  then show ?case by simp
next
  case (Cons n names)
  from Cons.prems have t: "tolerated (raised_by (kinesis_describe_stream a n))"
    and rest: "list_all (\<lambda>n. tolerated (raised_by (kinesis_describe_stream a n))) names"
    by simp_all
  from tolerated_raised_by[OF t] show ?case
  proof
    assume e: "kinesis_describe_stream a n = Inl ClientError"
    from Cons.IH[OF rest, of acc] e show ?thesis
      by (auto simp: raised_by_def)
  next
    assume "\<exists>x. kinesis_describe_stream a n = Inr x"
    then obtain x where x: "kinesis_describe_stream a n = Inr x" ..
    from Cons.IH[OF rest, of "dict_set n (stream_record region n x) acc"] x show ?thesis
      by (auto simp: raised_by_def dict_set_keys)
  qed
qed

lemma describe_tables_tolerated:
  assumes "list_all (\<lambda>n. tolerated (raised_by (dynamodb_describe_table a n))) names"
  shows "\<exists>c. describe_tables a region names acc = Inr c
           \<and> fst ` set acc \<union> {n \<in> set names. raised_by (dynamodb_describe_table a n) = None}
               \<subseteq> fst ` set c"
  using assms
proof (induction names arbitrary: acc)
  case Nil
  then show ?case by simp
next
  case (Cons n names)
  from Cons.prems have t: "tolerated (raised_by (dynamodb_describe_table a n))"
    and rest: "list_all (\<lambda>n. tolerated (raised_by (dynamodb_describe_table a n))) names"
    by simp_all
  from tolerated_raised_by[OF t] show ?case
  proof
    assume e: "dynamodb_describe_table a n = Inl ClientError"
    from Cons.IH[OF rest, of acc] e show ?thesis
      by (auto simp: raised_by_def)
  next
    assume "\<exists>x. dynamodb_describe_table a n = Inr x"
    then obtain x where x: "dynamodb_describe_table a n = Inr x" ..
    from Cons.IH[OF rest, of "dict_set n (table_record region n x) acc"] x show ?thesis
      by (auto simp: raised_by_def dict_set_keys)
  qed
qed

lemma fetch_kinesis_streams_tolerated:
  assumes "tolerated (snd (kinesis_list_streams a))"
    and "list_all (\<lambda>n. tolerated (raised_by (kinesis_describe_stream a n)))
           (page_items (fst (kinesis_list_streams a)))"
  shows "\<exists>c. fetch_kinesis_streams a region = Inr c
           \<and> (snd (kinesis_list_streams a) = Some ClientError \<longrightarrow> c = [])
           \<and> (snd (kinesis_list_streams a) = None \<longrightarrow>
                {n \<in> set (page_items (fst (kinesis_list_streams a))).
                   raised_by (kinesis_describe_stream a n) = None} \<subseteq> fst ` set c)"
proof -
  obtain pages e where l: "kinesis_list_streams a = (pages, e)"
    by (cases "kinesis_list_streams a")
  from describe_streams_tolerated[OF assms(2), of region "[]"] l
  obtain c where c: "describe_streams a region (page_items pages) [] = Inr c"
    "{n \<in> set (page_items pages). raised_by (kinesis_describe_stream a n) = None} \<subseteq> fst ` set c"
    by auto
  show ?thesis
    using assms(1) l c by (auto simp: fetch_kinesis_streams_def tolerated_except)
qed

lemma fetch_dynamodb_tables_tolerated:
  assumes "tolerated (snd (dynamodb_list_tables a))"
    and "list_all (\<lambda>n. tolerated (raised_by (dynamodb_describe_table a n)))
           (page_items (fst (dynamodb_list_tables a)))"
  shows "\<exists>c. fetch_dynamodb_tables a region = Inr c
           \<and> (snd (dynamodb_list_tables a) = Some ClientError \<longrightarrow> c = [])
           \<and> (snd (dynamodb_list_tables a) = None \<longrightarrow>
                {n \<in> set (page_items (fst (dynamodb_list_tables a))).
                   raised_by (dynamodb_describe_table a n) = None} \<subseteq> fst ` set c)"
proof -
  obtain pages e where l: "dynamodb_list_tables a = (pages, e)"
    by (cases "dynamodb_list_tables a")
  from describe_tables_tolerated[OF assms(2), of region "[]"] l
  obtain c where c: "describe_tables a region (page_items pages) [] = Inr c"
    "{n \<in> set (page_items pages). raised_by (dynamodb_describe_table a n) = None} \<subseteq> fst ` set c"
    by auto
  show ?thesis
    using assms(1) l c by (auto simp: fetch_dynamodb_tables_def tolerated_except)
qed

lemma fetch_rds_resources_tolerated:
  assumes "tolerated (rds_client_error a)" "tolerated (snd (rds_describe_db_instances a))"
    "tolerated (snd (rds_describe_db_clusters a))"
  shows "\<exists>c. fetch_rds_resources a region = Inr c
           \<and> (rds_client_error a = Some ClientError \<longrightarrow> c = [])
           \<and> (rds_client_error a = None \<longrightarrow>
                c = store_clusters region (page_items (fst (rds_describe_db_clusters a)))
                      (store_instances region (page_items (fst (rds_describe_db_instances a))) []))"
  using assms
  by (cases "rds_describe_db_instances a"; cases "rds_describe_db_clusters a")
     (auto simp: fetch_rds_resources_def tolerated_def except_ClientError_def Let_def)

lemma rds_listed_keys:
  "fst ` set (store_clusters region clusters (store_instances region instances []))
     = DBInstanceIdentifier ` set instances \<union> DBClusterIdentifier ` set clusters"
  by (simp add: store_clusters_def store_instances_def foldl_dict_set_keys)

lemma populate_main_ok:
  assumes "parse_arguments args (None, None) = Some (region_arg, profile_arg)"
    "session_error a (run_profile a profile_arg) = None" "sts_error a = None"
    "fetch_all a (run_region a region_arg) = Inr c"
    "makedirs_error a = None" "write_error a = None"
  shows "populate_main a args = (Returned (Some 0), Some c)"
  using assms by (simp add: populate_main_def Let_def)

lemma populate_main_credentials:
  assumes "parse_arguments args (None, None) = Some (region_arg, profile_arg)"
    "session_error a (run_profile a profile_arg) \<noteq> None \<or> sts_error a \<noteq> None"
  shows "exit_status (fst (populate_main a args)) = 1 \<and> snd (populate_main a args) = None"
  using assms by (auto simp: populate_main_def Let_def split: option.splits)

lemma populate_main_write_failure:
  assumes "parse_arguments args (None, None) = Some (region_arg, profile_arg)"
    "session_error a (run_profile a profile_arg) = None" "sts_error a = None"
    "fetch_all a (run_region a region_arg) = Inr c"
    "makedirs_error a \<noteq> None \<or> write_error a \<noteq> None"
  shows "exit_status (fst (populate_main a args)) = 1 \<and> snd (populate_main a args) = None"
  using assms by (auto simp: populate_main_def Let_def split: option.splits)

lemma merged_as_foldl:
  "foldl dict_update [] [c1, c2, c3, c4, c5, c6, c7]
     = dict_update (dict_update (dict_update (dict_update (dict_update (dict_update
                (dict_update [] c1) c2) c3) c4) c5) c6) c7"
  by simp

lemma merged_keys:
  "fst ` set (foldl dict_update [] [c1, c2, c3, c4, c5, c6, c7])
     = fst ` set c1 \<union> fst ` set c2 \<union> fst ` set c3 \<union> fst ` set c4 \<union> fst ` set c5
       \<union> fst ` set c6 \<union> fst ` set c7"
  by (simp add: dict_update_keys)

lemma foldl_dict_update_entries:
  "(n, r) \<in> set (foldl dict_update d cs) \<Longrightarrow>
     (n, r) \<in> set d \<or> (\<exists>c\<in>set cs. (n, r) \<in> set c)"
proof (induction cs arbitrary: d)
  case Nil
  then show ?case by simp
next
  case (Cons c cs)
  from Cons.IH[of "dict_update d c"] Cons.prems
  have "(n, r) \<in> set (dict_update d c) \<or> (\<exists>c\<in>set cs. (n, r) \<in> set c)" by simp
  then show ?case using dict_update_entries[of n r d c] by auto
qed

lemma merged_entries:
  "(n, r) \<in> set (foldl dict_update [] [c1, c2, c3, c4, c5, c6, c7]) \<Longrightarrow>
     (n, r) \<in> set c1 \<or> (n, r) \<in> set c2 \<or> (n, r) \<in> set c3 \<or> (n, r) \<in> set c4
     \<or> (n, r) \<in> set c5 \<or> (n, r) \<in> set c6 \<or> (n, r) \<in> set c7"
  by (drule foldl_dict_update_entries) auto

lemma populate_main_entries_well_formed:
  assumes "parse_arguments args (None, None) = Some (region_arg, profile_arg)"
    and "populate_main a args = (out, Some cache)" and "(n, r) \<in> set cache"
  shows "well_formed_record (run_region a region_arg) n r"
proof -
  from populate_main_written[OF assms(2)] assms(1)
  have "fetch_all a (run_region a region_arg) = Inr cache" by auto
  from fetch_all_InrD[OF this] obtain c1 c2 c3 c4 c5 c6 c7 where
    f: "fetch_lambda_functions a (run_region a region_arg) = Inr c1"
       "fetch_s3_buckets a (run_region a region_arg) = Inr c2"
       "fetch_sqs_queues a (run_region a region_arg) = Inr c3"
       "fetch_kinesis_streams a (run_region a region_arg) = Inr c4"
       "fetch_dynamodb_tables a (run_region a region_arg) = Inr c5"
       "fetch_rds_resources a (run_region a region_arg) = Inr c6"
       "fetch_api_gateway_apis a (run_region a region_arg) = Inr c7"
    and c: "cache = foldl dict_update [] [c1, c2, c3, c4, c5, c6, c7]"
    unfolding merged_as_foldl by blast
  from assms(3) have "(n, r) \<in> set c1 \<or> (n, r) \<in> set c2 \<or> (n, r) \<in> set c3
     \<or> (n, r) \<in> set c4 \<or> (n, r) \<in> set c5 \<or> (n, r) \<in> set c6 \<or> (n, r) \<in> set c7"
    unfolding c by (rule merged_entries)
  then show ?thesis
    using fetch_lambda_functions_ok(2)[OF f(1)] fetch_s3_buckets_ok(2)[OF f(2)]
      fetch_sqs_queues_ok(2)[OF f(3)] fetch_kinesis_streams_ok(2)[OF f(4)]
      fetch_dynamodb_tables_ok(2)[OF f(5)] fetch_rds_resources_ok(2)[OF f(6)]
      fetch_api_gateway_apis_ok(2)[OF f(7)]
    by blast
qed

lemma tolerated_fetches:
  assumes "raises_only_ClientError a"
  obtains c1 c2 c3 c4 c5 c6 c7 where
    "fetch_lambda_functions a region = Inr c1"
    "snd (lambda_list_functions a) = Some ClientError \<longrightarrow> c1 = []"
    "snd (lambda_list_functions a) = None \<longrightarrow>
       FunctionName ` set (page_items (fst (lambda_list_functions a))) \<subseteq> fst ` set c1"
    "fetch_s3_buckets a region = Inr c2"
    "s3_list_buckets a = Inl ClientError \<longrightarrow> c2 = []"
    "\<forall>response. s3_list_buckets a = Inr response \<longrightarrow>
       Name ` set (dict_get response []) \<subseteq> fst ` set c2"
    "fetch_sqs_queues a region = Inr c3"
    "sqs_list_queues a = Inl ClientError \<longrightarrow> c3 = []"
    "\<forall>response. sqs_list_queues a = Inr response \<longrightarrow>
       last_segment ` set (dict_get response []) \<subseteq> fst ` set c3"
    "fetch_kinesis_streams a region = Inr c4"
    "snd (kinesis_list_streams a) = Some ClientError \<longrightarrow> c4 = []"
    "snd (kinesis_list_streams a) = None \<longrightarrow>
       {n \<in> set (page_items (fst (kinesis_list_streams a))).
          raised_by (kinesis_describe_stream a n) = None} \<subseteq> fst ` set c4"
    "fetch_dynamodb_tables a region = Inr c5"
    "snd (dynamodb_list_tables a) = Some ClientError \<longrightarrow> c5 = []"
    "snd (dynamodb_list_tables a) = None \<longrightarrow>
       {n \<in> set (page_items (fst (dynamodb_list_tables a))).
          raised_by (dynamodb_describe_table a n) = None} \<subseteq> fst ` set c5"
    "fetch_rds_resources a region = Inr c6"
    "rds_client_error a = Some ClientError \<longrightarrow> c6 = []"
    "rds_client_error a = None \<longrightarrow>
       c6 = store_clusters region (page_items (fst (rds_describe_db_clusters a)))
              (store_instances region (page_items (fst (rds_describe_db_instances a))) [])"
    "fetch_api_gateway_apis a region = Inr c7"
    "apigateway_get_rest_apis a = Inl ClientError \<longrightarrow> c7 = []"
    "\<forall>response. apigateway_get_rest_apis a = Inr response \<longrightarrow>
       api_name ` set (dict_get response []) \<subseteq> fst ` set c7"
proof -
  from assms have t:
    "tolerated (snd (lambda_list_functions a))"
    "tolerated (raised_by (s3_list_buckets a))"
    "tolerated (raised_by (sqs_list_queues a))"
    "tolerated (snd (kinesis_list_streams a))"
    "list_all (\<lambda>n. tolerated (raised_by (kinesis_describe_stream a n)))
       (page_items (fst (kinesis_list_streams a)))"
    "tolerated (snd (dynamodb_list_tables a))"
    "list_all (\<lambda>n. tolerated (raised_by (dynamodb_describe_table a n)))
       (page_items (fst (dynamodb_list_tables a)))"
    "tolerated (rds_client_error a)"
    "tolerated (snd (rds_describe_db_instances a))"
    "tolerated (snd (rds_describe_db_clusters a))"
    "tolerated (raised_by (apigateway_get_rest_apis a))"
    unfolding raises_only_ClientError_def by simp_all
  from fetch_lambda_functions_tolerated[OF t(1), of region] obtain c1 where
    "fetch_lambda_functions a region = Inr c1"
    "snd (lambda_list_functions a) = Some ClientError \<longrightarrow> c1 = []"
    "snd (lambda_list_functions a) = None \<longrightarrow>
       FunctionName ` set (page_items (fst (lambda_list_functions a))) \<subseteq> fst ` set c1"
    by (elim exE conjE)
  moreover from fetch_s3_buckets_tolerated[OF t(2), of region] obtain c2 where
    "fetch_s3_buckets a region = Inr c2"
    "s3_list_buckets a = Inl ClientError \<longrightarrow> c2 = []"
    "\<forall>response. s3_list_buckets a = Inr response \<longrightarrow>
       Name ` set (dict_get response []) \<subseteq> fst ` set c2"
    by (elim exE conjE)
  moreover from fetch_sqs_queues_tolerated[OF t(3), of region] obtain c3 where
    "fetch_sqs_queues a region = Inr c3"
    "sqs_list_queues a = Inl ClientError \<longrightarrow> c3 = []"
    "\<forall>response. sqs_list_queues a = Inr response \<longrightarrow>
       last_segment ` set (dict_get response []) \<subseteq> fst ` set c3"
    by (elim exE conjE)
  moreover from fetch_kinesis_streams_tolerated[OF t(4,5), of region] obtain c4 where
    "fetch_kinesis_streams a region = Inr c4"
    "snd (kinesis_list_streams a) = Some ClientError \<longrightarrow> c4 = []"
    "snd (kinesis_list_streams a) = None \<longrightarrow>
       {n \<in> set (page_items (fst (kinesis_list_streams a))).
          raised_by (kinesis_describe_stream a n) = None} \<subseteq> fst ` set c4"
    by (elim exE conjE)
  moreover from fetch_dynamodb_tables_tolerated[OF t(6,7), of region] obtain c5 where
    "fetch_dynamodb_tables a region = Inr c5"
    "snd (dynamodb_list_tables a) = Some ClientError \<longrightarrow> c5 = []"
    "snd (dynamodb_list_tables a) = None \<longrightarrow>
       {n \<in> set (page_items (fst (dynamodb_list_tables a))).
          raised_by (dynamodb_describe_table a n) = None} \<subseteq> fst ` set c5"
    by (elim exE conjE)
  moreover from fetch_rds_resources_tolerated[OF t(8,9,10), of region] obtain c6 where
    "fetch_rds_resources a region = Inr c6"
    "rds_client_error a = Some ClientError \<longrightarrow> c6 = []"
    "rds_client_error a = None \<longrightarrow>
       c6 = store_clusters region (page_items (fst (rds_describe_db_clusters a)))
              (store_instances region (page_items (fst (rds_describe_db_instances a))) [])"
    by (elim exE conjE)
  moreover from fetch_api_gateway_apis_tolerated[OF t(11), of region] obtain c7 where
    "fetch_api_gateway_apis a region = Inr c7"
    "apigateway_get_rest_apis a = Inl ClientError \<longrightarrow> c7 = []"
    "\<forall>response. apigateway_get_rest_apis a = Inr response \<longrightarrow>
       api_name ` set (dict_get response []) \<subseteq> fst ` set c7"
    by (elim exE conjE)
  ultimately show ?thesis by (rule that)
qed


lemma except_ClientError_Inl:
  "except_ClientError raised result = Inl e \<longleftrightarrow> raised = Some e \<and> e \<noteq> ClientError"
  by (auto simp: except_ClientError_def split: option.splits)

lemma describe_streams_Inl:
  "describe_streams a region names acc = Inl e \<Longrightarrow> e \<noteq> ClientError"
  by (induction names arbitrary: acc) (auto split: sum.splits if_splits)

lemma describe_tables_Inl:
  "describe_tables a region names acc = Inl e \<Longrightarrow> e \<noteq> ClientError"
  by (induction names arbitrary: acc) (auto split: sum.splits if_splits)

lemma describe_streams_raises:
  "n \<in> set names \<Longrightarrow> kinesis_describe_stream a n = Inl e \<Longrightarrow> e \<noteq> ClientError \<Longrightarrow>
     \<exists>e'. describe_streams a region names acc = Inl e'"
  by (induction names arbitrary: acc) (auto split: sum.splits)

lemma describe_tables_raises:
  "n \<in> set names \<Longrightarrow> dynamodb_describe_table a n = Inl e \<Longrightarrow> e \<noteq> ClientError \<Longrightarrow>
     \<exists>e'. describe_tables a region names acc = Inl e'"
  by (induction names arbitrary: acc) (auto split: sum.splits)

lemma fetchers_not_ClientError:
  "fetch_lambda_functions a region \<noteq> Inl ClientError"
  "fetch_s3_buckets a region \<noteq> Inl ClientError"
  "fetch_sqs_queues a region \<noteq> Inl ClientError"
  "fetch_kinesis_streams a region \<noteq> Inl ClientError"
  "fetch_dynamodb_tables a region \<noteq> Inl ClientError"
  "fetch_rds_resources a region \<noteq> Inl ClientError"
  "fetch_api_gateway_apis a region \<noteq> Inl ClientError"
  by (auto simp: fetch_lambda_functions_def fetch_s3_buckets_def fetch_sqs_queues_def
      fetch_kinesis_streams_def fetch_dynamodb_tables_def fetch_rds_resources_def
      fetch_api_gateway_apis_def except_ClientError_Inl Let_def
      split: prod.splits sum.splits option.splits if_splits)

lemma then_update_Inl:
  "then_update x y = Inl e \<longleftrightarrow> x = Inl e \<or> ((\<exists>d. x = Inr d) \<and> y = Inl e)"
  by (auto simp: then_update_def split: sum.splits)

lemma fetch_all_Inl:
  assumes "fetch_all a region = Inl e"
  shows "fetch_lambda_functions a region = Inl e \<or> fetch_s3_buckets a region = Inl e
     \<or> fetch_sqs_queues a region = Inl e \<or> fetch_kinesis_streams a region = Inl e
     \<or> fetch_dynamodb_tables a region = Inl e \<or> fetch_rds_resources a region = Inl e
     \<or> fetch_api_gateway_apis a region = Inl e"
  using assms unfolding fetch_all_def then_update_Inl by blast

lemma fetch_all_not_ClientError: "fetch_all a region \<noteq> Inl ClientError"
  using fetch_all_Inl[of a region ClientError] fetchers_not_ClientError[of a region] by blast

lemma fetch_all_InlI:
  assumes "fetch_lambda_functions a region = Inl e \<or> fetch_s3_buckets a region = Inl e
     \<or> fetch_sqs_queues a region = Inl e \<or> fetch_kinesis_streams a region = Inl e
     \<or> fetch_dynamodb_tables a region = Inl e \<or> fetch_rds_resources a region = Inl e
     \<or> fetch_api_gateway_apis a region = Inl e"
  shows "\<exists>e'. fetch_all a region = Inl e' \<and> e' \<noteq> ClientError"
proof (cases "fetch_all a region")
  case (Inl e')
  then show ?thesis using fetch_all_not_ClientError[of a region] by auto
next
  case (Inr c)
  from fetch_all_InrD[OF this] assms show ?thesis by auto
qed

lemma enumeration_raises_fetcher:
  assumes "enumeration_raises a e" "e \<noteq> ClientError"
  shows "\<exists>e'. fetch_lambda_functions a region = Inl e' \<or> fetch_s3_buckets a region = Inl e'
     \<or> fetch_sqs_queues a region = Inl e' \<or> fetch_kinesis_streams a region = Inl e'
     \<or> fetch_dynamodb_tables a region = Inl e' \<or> fetch_rds_resources a region = Inl e'
     \<or> fetch_api_gateway_apis a region = Inl e'"
proof -
  consider (l) "snd (lambda_list_functions a) = Some e"
    | (s3) "s3_list_buckets a = Inl e"
    | (sqs) "sqs_list_queues a = Inl e"
    | (k) "snd (kinesis_list_streams a) = Some e"
    | (kd) "list_ex (\<lambda>n. kinesis_describe_stream a n = Inl e) (page_items (fst (kinesis_list_streams a)))"
    | (d) "snd (dynamodb_list_tables a) = Some e"
    | (dd) "list_ex (\<lambda>n. dynamodb_describe_table a n = Inl e) (page_items (fst (dynamodb_list_tables a)))"
    | (rc) "rds_client_error a = Some e"
    | (ri) "rds_client_error a = None" "snd (rds_describe_db_instances a) = Some e"
    | (rk) "rds_client_error a = None" "snd (rds_describe_db_clusters a) = Some e"
    | (api) "apigateway_get_rest_apis a = Inl e"
    using assms(1) unfolding enumeration_raises_def by (elim disjE conjE) auto
  then show ?thesis
  proof cases
    case l
    then have "fetch_lambda_functions a region = Inl e"
      using assms(2) by (cases "lambda_list_functions a")
        (simp add: fetch_lambda_functions_def except_ClientError_def)
    then show ?thesis by blast
  next
    case s3
    then have "fetch_s3_buckets a region = Inl e"
      using assms(2) by (simp add: fetch_s3_buckets_def except_ClientError_def)
    then show ?thesis by blast
  next
    case sqs
    then have "fetch_sqs_queues a region = Inl e"
      using assms(2) by (simp add: fetch_sqs_queues_def except_ClientError_def)
    then show ?thesis by blast
  next
    case k
    then have "\<exists>e'. fetch_kinesis_streams a region = Inl e'"
      using assms(2) describe_streams_Inl[of a region "page_items (fst (kinesis_list_streams a))" "[]"]
      by (cases "kinesis_list_streams a")
        (auto simp: fetch_kinesis_streams_def except_ClientError_def split: sum.splits)
    then show ?thesis by blast
  next
    case kd
    then obtain n where "n \<in> set (page_items (fst (kinesis_list_streams a)))"
      "kinesis_describe_stream a n = Inl e"
      by (auto simp: list_ex_iff)
    from describe_streams_raises[OF this assms(2), of region "[]"]
    obtain e' where e': "describe_streams a region (page_items (fst (kinesis_list_streams a))) [] = Inl e'"
      by blast
    then have "fetch_kinesis_streams a region = Inl e'"
      using describe_streams_Inl[OF e']
      by (cases "kinesis_list_streams a") (simp add: fetch_kinesis_streams_def except_ClientError_def)
    then show ?thesis by blast
  next
    case d
    then have "\<exists>e'. fetch_dynamodb_tables a region = Inl e'"
      using assms(2) describe_tables_Inl[of a region "page_items (fst (dynamodb_list_tables a))" "[]"]
      by (cases "dynamodb_list_tables a")
        (auto simp: fetch_dynamodb_tables_def except_ClientError_def split: sum.splits)
    then show ?thesis by blast
  next
    case dd
    then obtain n where "n \<in> set (page_items (fst (dynamodb_list_tables a)))"
      "dynamodb_describe_table a n = Inl e"
      by (auto simp: list_ex_iff)
    from describe_tables_raises[OF this assms(2), of region "[]"]
    obtain e' where e': "describe_tables a region (page_items (fst (dynamodb_list_tables a))) [] = Inl e'"
      by blast
    then have "fetch_dynamodb_tables a region = Inl e'"
      using describe_tables_Inl[OF e']
      by (cases "dynamodb_list_tables a") (simp add: fetch_dynamodb_tables_def except_ClientError_def)
    then show ?thesis by blast
  next
    case rc
    then have "fetch_rds_resources a region = Inl e"
      using assms(2) by (simp add: fetch_rds_resources_def except_ClientError_def)
    then show ?thesis by blast
  next
    case ri
    then have "fetch_rds_resources a region = Inl e"
      using assms(2) by (cases "rds_describe_db_instances a")
        (simp add: fetch_rds_resources_def except_ClientError_def Let_def)
    then show ?thesis by blast
  next
    case rk
    then have "\<exists>e'. fetch_rds_resources a region = Inl e'"
      using assms(2)
      by (cases "rds_describe_db_instances a"; cases "rds_describe_db_clusters a")
        (auto simp: fetch_rds_resources_def except_ClientError_def Let_def)
    then show ?thesis by blast
  next
    case api
    then have "fetch_api_gateway_apis a region = Inl e"
      using assms(2) by (simp add: fetch_api_gateway_apis_def except_ClientError_def)
    then show ?thesis by blast
  qed
qed

lemma populate_main_raised:
  assumes "parse_arguments args (None, None) = Some (region_arg, profile_arg)"
    "session_error a (run_profile a profile_arg) = None" "sts_error a = None"
    "fetch_all a (run_region a region_arg) = Inl e"
  shows "populate_main a args = (Raised e, None)"
  using assms by (simp add: populate_main_def Let_def)

lemma populate_main_enumeration_raises:
  assumes "parse_arguments args (None, None) = Some (region_arg, profile_arg)"
    "session_error a (run_profile a profile_arg) = None" "sts_error a = None"
    "enumeration_raises a e" "e \<noteq> ClientError"
  shows "\<exists>e'. populate_main a args = (Raised e', None) \<and> e' \<noteq> ClientError"
proof -
  from enumeration_raises_fetcher[OF assms(4,5), of "run_region a region_arg"]
  obtain e0 where "fetch_lambda_functions a (run_region a region_arg) = Inl e0
     \<or> fetch_s3_buckets a (run_region a region_arg) = Inl e0
     \<or> fetch_sqs_queues a (run_region a region_arg) = Inl e0
     \<or> fetch_kinesis_streams a (run_region a region_arg) = Inl e0
     \<or> fetch_dynamodb_tables a (run_region a region_arg) = Inl e0
     \<or> fetch_rds_resources a (run_region a region_arg) = Inl e0
     \<or> fetch_api_gateway_apis a (run_region a region_arg) = Inl e0" ..
  from fetch_all_InlI[OF this] obtain e' where
    "fetch_all a (run_region a region_arg) = Inl e'" "e' \<noteq> ClientError"
    by blast
  with populate_main_raised[OF assms(1-3)] show ?thesis by blast
qed

lemma describe_streams_listed:
  "describe_streams a region names acc = Inr c \<Longrightarrow> (n, r) \<in> set c \<Longrightarrow>
     (n, r) \<in> set acc
     \<or> (n \<in> set names \<and> (\<exists>info. kinesis_describe_stream a n = Inr info \<and> r = stream_record region n info))"
proof (induction names arbitrary: acc)
  case Nil
  then show ?case by simp
next
  case (Cons x xs)
  then show ?case
    by (auto split: sum.splits if_splits dest!: dict_set_entries)
qed

lemma describe_tables_listed:
  "describe_tables a region names acc = Inr c \<Longrightarrow> (n, r) \<in> set c \<Longrightarrow>
     (n, r) \<in> set acc
     \<or> (n \<in> set names \<and> (\<exists>info. dynamodb_describe_table a n = Inr info \<and> r = table_record region n info))"
proof (induction names arbitrary: acc)
  case Nil
  then show ?case by simp
next
  case (Cons x xs)
  then show ?case
    by (auto split: sum.splits if_splits dest!: dict_set_entries)
qed

lemma fetch_lambda_functions_listed:
  assumes "fetch_lambda_functions a region = Inr c" "(n, r) \<in> set c"
  shows "listed_record a region n r"
proof -
  obtain pages raised where l: "lambda_list_functions a = (pages, raised)"
    by (cases "lambda_list_functions a")
  from assms l have "(n, r) \<in> set (foldl (\<lambda>functions func.
      dict_set (FunctionName func) (lambda_record region func) functions) [] (page_items pages))"
    by (auto simp: fetch_lambda_functions_def dest: except_ClientError_Inr)
  from foldl_dict_set_entries[OF this] l show ?thesis
    by (auto simp: listed_record_def list_ex_iff)
qed

lemma fetch_s3_buckets_listed:
  assumes "fetch_s3_buckets a region = Inr c" "(n, r) \<in> set c"
  shows "listed_record a region n r"
proof -
  from assms obtain response where r: "s3_list_buckets a = Inr response"
    and "(n, r) \<in> set (foldl (\<lambda>buckets bucket.
       dict_set (Name bucket) (s3_record region bucket) buckets) [] (dict_get response []))"
    by (auto simp: fetch_s3_buckets_def split: sum.splits dest: except_ClientError_Inr)
  from foldl_dict_set_entries[OF this(2)] r show ?thesis
    by (auto simp: listed_record_def list_ex_iff)
qed

lemma fetch_sqs_queues_listed:
  assumes "fetch_sqs_queues a region = Inr c" "(n, r) \<in> set c"
  shows "listed_record a region n r"
proof -
  from assms obtain response where r: "sqs_list_queues a = Inr response"
    and "(n, r) \<in> set (foldl (\<lambda>queues queue_url.
       dict_set (last_segment queue_url) (sqs_record region queue_url) queues) []
         (dict_get response []))"
    by (auto simp: fetch_sqs_queues_def split: sum.splits dest: except_ClientError_Inr)
  from foldl_dict_set_entries[OF this(2)] r show ?thesis
    by (auto simp: listed_record_def list_ex_iff)
qed

lemma fetch_kinesis_streams_listed:
  assumes "fetch_kinesis_streams a region = Inr c" "(n, r) \<in> set c"
  shows "listed_record a region n r"
proof -
  obtain pages raised where l: "kinesis_list_streams a = (pages, raised)"
    by (cases "kinesis_list_streams a")
  from assms l have "describe_streams a region (page_items pages) [] = Inr c"
    by (auto simp: fetch_kinesis_streams_def split: sum.splits dest: except_ClientError_Inr)
  from describe_streams_listed[OF this assms(2)] l show ?thesis
    by (auto simp: listed_record_def)
qed

lemma fetch_dynamodb_tables_listed:
  assumes "fetch_dynamodb_tables a region = Inr c" "(n, r) \<in> set c"
  shows "listed_record a region n r"
proof -
  obtain pages raised where l: "dynamodb_list_tables a = (pages, raised)"
    by (cases "dynamodb_list_tables a")
  from assms l have "describe_tables a region (page_items pages) [] = Inr c"
    by (auto simp: fetch_dynamodb_tables_def split: sum.splits dest: except_ClientError_Inr)
  from describe_tables_listed[OF this assms(2)] l show ?thesis
    by (auto simp: listed_record_def)
qed

lemma fetch_rds_resources_listed:
  assumes "fetch_rds_resources a region = Inr c" "(n, r) \<in> set c"
  shows "listed_record a region n r"
proof -
  from fetch_rds_resources_cases[OF assms(1)] assms(2)
  have "(n, r) \<in> set (store_clusters region (page_items (fst (rds_describe_db_clusters a)))
                          (store_instances region (page_items (fst (rds_describe_db_instances a))) []))"
    by auto
  then have "(\<exists>x\<in>set (page_items (fst (rds_describe_db_clusters a))).
                 n = DBClusterIdentifier x \<and> r = cluster_record region x)
             \<or> (\<exists>x\<in>set (page_items (fst (rds_describe_db_instances a))).
                 n = DBInstanceIdentifier x \<and> r = instance_record region x)"
    unfolding store_clusters_def store_instances_def
    by (auto dest!: foldl_dict_set_entries)
  then show ?thesis
    by (auto simp: listed_record_def list_ex_iff)
qed

lemma fetch_api_gateway_apis_listed:
  assumes "fetch_api_gateway_apis a region = Inr c" "(n, r) \<in> set c"
  shows "listed_record a region n r"
proof -
  from assms obtain response where r: "apigateway_get_rest_apis a = Inr response"
    and "(n, r) \<in> set (foldl (\<lambda>apis api.
       dict_set (api_name api) (api_record region api) apis) [] (dict_get response []))"
    by (auto simp: fetch_api_gateway_apis_def split: sum.splits dest: except_ClientError_Inr)
  from foldl_dict_set_entries[OF this(2)] r show ?thesis
    by (auto simp: listed_record_def list_ex_iff)
qed

lemma populate_main_entries_listed:
  assumes "parse_arguments args (None, None) = Some (region_arg, profile_arg)"
    and "populate_main a args = (out, Some cache)" and "(n, r) \<in> set cache"
  shows "listed_record a (run_region a region_arg) n r"
proof -
  from populate_main_written[OF assms(2)] assms(1)
  have "fetch_all a (run_region a region_arg) = Inr cache" by auto
  from fetch_all_InrD[OF this] obtain c1 c2 c3 c4 c5 c6 c7 where
    f: "fetch_lambda_functions a (run_region a region_arg) = Inr c1"
       "fetch_s3_buckets a (run_region a region_arg) = Inr c2"
       "fetch_sqs_queues a (run_region a region_arg) = Inr c3"
       "fetch_kinesis_streams a (run_region a region_arg) = Inr c4"
       "fetch_dynamodb_tables a (run_region a region_arg) = Inr c5"
       "fetch_rds_resources a (run_region a region_arg) = Inr c6"
       "fetch_api_gateway_apis a (run_region a region_arg) = Inr c7"
    and c: "cache = foldl dict_update [] [c1, c2, c3, c4, c5, c6, c7]"
    unfolding merged_as_foldl by blast
  from assms(3) have "(n, r) \<in> set c1 \<or> (n, r) \<in> set c2 \<or> (n, r) \<in> set c3
     \<or> (n, r) \<in> set c4 \<or> (n, r) \<in> set c5 \<or> (n, r) \<in> set c6 \<or> (n, r) \<in> set c7"
    unfolding c by (rule merged_entries)
  then show ?thesis
    using fetch_lambda_functions_listed[OF f(1)] fetch_s3_buckets_listed[OF f(2)]
      fetch_sqs_queues_listed[OF f(3)] fetch_kinesis_streams_listed[OF f(4)]
      fetch_dynamodb_tables_listed[OF f(5)] fetch_rds_resources_listed[OF f(6)]
      fetch_api_gateway_apis_listed[OF f(7)]
    by blast
qed

lemma listed_record_cases:
  assumes "listed_record a region n r"
  obtains (lambda) func where "r = lambda_record region func"
  | (s3) bucket where "r = s3_record region bucket"
  | (sqs) queue_url where "r = sqs_record region queue_url"
  | (kinesis) info where "r = stream_record region n info"
  | (dynamodb) info where "r = table_record region n info"
  | (rds_instance) inst where "r = instance_record region inst"
  | (rds_cluster) cluster where "r = cluster_record region cluster"
  | (api) api where "r = api_record region api"
  using assms unfolding listed_record_def list_ex_iff
  by (elim disjE conjE bexE) (auto split: sum.splits)

lemma builders_plain:
  "plain_record (lambda_record region func)"
  "plain_record (s3_record region bucket)"
  "plain_record (sqs_record region queue_url)"
  "plain_record (stream_record region n sinfo)"
  "plain_record (table_record region n tinfo)"
  "plain_record (instance_record region inst)"
  "plain_record (cluster_record region cluster)"
  "plain_record (api_record region api)"
  by (simp_all add: plain_record_def record_items_def lambda_record_def s3_record_def
      sqs_record_def stream_record_def table_record_def instance_record_def cluster_record_def
      api_record_def Let_def)

lemma listed_record_plain: "listed_record a region n r \<Longrightarrow> plain_record r"
  by (erule listed_record_cases) (simp_all add: builders_plain)

lemma foldl_dict_set_fresh:
  "distinct (map fst (acc @ xs)) \<Longrightarrow>
     foldl (\<lambda>acc (k, v). dict_set k v acc) acc xs = acc @ xs"
proof (induction xs arbitrary: acc)
  case Nil
  then show ?case by simp
next
  case (Cons x xs)
  obtain k v where x: "x = (k, v)" by (cases x)
  from Cons.prems x have "k \<notin> fst ` set acc" by auto
  then have "dict_set k v acc = acc @ [(k, v)]" by (simp add: dict_set_def)
  moreover from Cons.prems x have "distinct (map fst ((acc @ [(k, v)]) @ xs))" by simp
  ultimately show ?case using Cons.IH[of "acc @ [(k, v)]"] x by simp
qed

lemma dict_update_Nil_distinct: "distinct (map fst xs) \<Longrightarrow> dict_update [] xs = xs"
  using foldl_dict_set_fresh[of "[]" xs] by (simp add: dict_update_def)

lemma those_map_Some: "(\<And>x. x \<in> set xs \<Longrightarrow> f x = Some (g x)) \<Longrightarrow> those (map f xs) = Some (map g xs)"
  by (induction xs) simp_all

lemma dict_of_object_distinct:
  assumes "distinct (map fst members)" "\<And>k v. (k, v) \<in> set members \<Longrightarrow> read v = Some (g v)"
  shows "dict_of_object read members = Some (map (\<lambda>(k, v). (k, g v)) members)"
  unfolding dict_of_object_def dict_update_Nil_distinct[OF assms(1)]
  by (rule those_map_Some[where g = "\<lambda>(k, v). (k, g v)", THEN trans[rotated]])
     (auto simp: assms(2))

lemma native_round_trip: "json_native v \<Longrightarrow> value_of_json (json_of_value v) = Some v"
  by (cases v) simp_all

lemma record_of_items_record_items:
  assumes "list_all (\<lambda>(key, v). key \<notin> set [''service'', ''type'', ''url'']) (extra r)"
  shows "record_of_items (record_items r) = Some r"
proof -
  have n: "map_of (extra r) ''service'' = None" "map_of (extra r) ''type'' = None"
    "map_of (extra r) ''url'' = None"
    using assms by (auto simp: map_of_eq_None_iff list_all_iff)
  have f: "filter (\<lambda>(key, v). key \<noteq> ''service'' \<and> key \<noteq> ''type'' \<and> key \<noteq> ''url'') (extra r)
             = extra r"
    using assms by (auto simp: list_all_iff intro!: filter_True)
  show ?thesis
    by (cases "service r"; cases "rtype r"; cases "url r")
       (simp_all add: record_of_items_def record_items_def str_field_def n f map_add_def)
qed

lemma record_round_trip:
  assumes "plain_record r"
  shows "record_of_json (JObject (map (\<lambda>(key, v). (key, json_of_value v)) (record_items r))) = Some r"
proof -
  have d: "distinct (map fst (map (\<lambda>(key, v). (key, json_of_value v)) (record_items r)))"
    using assms by (simp add: plain_record_def case_prod_unfold comp_def)
  have "dict_of_object value_of_json (map (\<lambda>(key, v). (key, json_of_value v)) (record_items r))
          = Some (map (\<lambda>(k, j). (k, the (value_of_json j)))
                   (map (\<lambda>(key, v). (key, json_of_value v)) (record_items r)))"
    using assms
    by (intro dict_of_object_distinct[OF d])
       (auto simp: plain_record_def list_all_iff native_round_trip)
  also have "map (\<lambda>(k, j). (k, the (value_of_json j)))
                   (map (\<lambda>(key, v). (key, json_of_value v)) (record_items r)) = record_items r"
    using assms
    by (auto simp: plain_record_def list_all_iff native_round_trip intro!: map_idI)
  finally show ?thesis
    using assms by (simp add: record_of_json_def record_of_items_record_items plain_record_def)
qed

lemma json_round_trip:
  assumes "distinct (map fst c)" "\<And>n r. (n, r) \<in> set c \<Longrightarrow> plain_record r"
  shows "json_load (json_dump c) = Some c"
proof -
  let ?members = "map (\<lambda>(name, resource).
                     (name, JObject (map (\<lambda>(key, v). (key, json_of_value v))
                                       (record_items resource)))) c"
  have d: "distinct (map fst ?members)"
    using assms(1) by (simp add: case_prod_unfold comp_def)
  have "dict_of_object record_of_json ?members
          = Some (map (\<lambda>(k, j). (k, the (record_of_json j))) ?members)"
    using assms(2) by (intro dict_of_object_distinct[OF d]) (auto simp: record_round_trip)
  also have "map (\<lambda>(k, j). (k, the (record_of_json j))) ?members = c"
    using assms(2) by (auto simp: record_round_trip intro!: map_idI)
  finally show ?thesis
    by (simp add: json_load_def json_dump_def)
qed

lemma lambda_record_fields:
  "map_of (extra (lambda_record region func)) ''runtime''
     = Some (PStr (case Runtime func of None \<Rightarrow> ''unknown'' | Some v \<Rightarrow> v))"
  "map_of (extra (lambda_record region func)) ''last_modified''
     = Some (PStr (case LastModified func of None \<Rightarrow> [] | Some v \<Rightarrow> v))"
  by (simp_all add: lambda_record_def Let_def dict_get_def)

lemma s3_record_fields:
  "map_of (extra (s3_record region bucket)) ''creation_date''
     = Some (PStr (case CreationDate bucket of None \<Rightarrow> [] | Some d \<Rightarrow> isoformat d))"
  by (simp add: s3_record_def Let_def)

lemma stream_record_fields:
  "map_of (extra (stream_record region stream_name stream)) ''arn''
     = Some (PStr (case StreamARN stream of None \<Rightarrow> [] | Some v \<Rightarrow> v))"
  "map_of (extra (stream_record region stream_name stream)) ''status''
     = Some (PStr (case StreamStatus stream of None \<Rightarrow> ''unknown'' | Some v \<Rightarrow> v))"
  "map_of (extra (stream_record region stream_name stream)) ''shard_count''
     = Some (PInt (case Shards stream of None \<Rightarrow> 0 | Some shards \<Rightarrow> int (length shards)))"
  by (simp_all add: stream_record_def Let_def dict_get_def split: option.splits)

lemma table_record_fields:
  "map_of (extra (table_record region table_name table)) ''arn''
     = Some (PStr (case TableArn table of None \<Rightarrow> [] | Some v \<Rightarrow> v))"
  "map_of (extra (table_record region table_name table)) ''status''
     = Some (PStr (case TableStatus table of None \<Rightarrow> ''unknown'' | Some v \<Rightarrow> v))"
  "map_of (extra (table_record region table_name table)) ''item_count''
     = Some (PInt (case ItemCount table of None \<Rightarrow> 0 | Some v \<Rightarrow> v))"
  by (simp_all add: table_record_def Let_def dict_get_def)

lemma instance_record_fields:
  "map_of (extra (instance_record region inst)) ''arn''
     = Some (PStr (case DBInstanceArn inst of None \<Rightarrow> [] | Some v \<Rightarrow> v))"
  "map_of (extra (instance_record region inst)) ''engine''
     = Some (PStr (case InstanceEngine inst of None \<Rightarrow> ''unknown'' | Some v \<Rightarrow> v))"
  "map_of (extra (instance_record region inst)) ''status''
     = Some (PStr (case DBInstanceStatus inst of None \<Rightarrow> ''unknown'' | Some v \<Rightarrow> v))"
  by (simp_all add: instance_record_def Let_def dict_get_def)

lemma cluster_record_fields:
  "map_of (extra (cluster_record region cluster)) ''arn''
     = Some (PStr (case DBClusterArn cluster of None \<Rightarrow> [] | Some v \<Rightarrow> v))"
  "map_of (extra (cluster_record region cluster)) ''engine''
     = Some (PStr (case ClusterEngine cluster of None \<Rightarrow> ''unknown'' | Some v \<Rightarrow> v))"
  "map_of (extra (cluster_record region cluster)) ''status''
     = Some (PStr (case ClusterStatus cluster of None \<Rightarrow> ''unknown'' | Some v \<Rightarrow> v))"
  by (simp_all add: cluster_record_def Let_def dict_get_def)

lemma api_record_fields:
  "map_of (extra (api_record region api)) ''description''
     = Some (PStr (case description api of None \<Rightarrow> [] | Some v \<Rightarrow> v))"
  "map_of (extra (api_record region api)) ''created_date''
     = Some (PStr (case createdDate api of None \<Rightarrow> [] | Some d \<Rightarrow> isoformat d))"
  by (simp_all add: api_record_def Let_def dict_get_def)

lemmas record_fields =
  lambda_record_fields s3_record_fields stream_record_fields table_record_fields
  instance_record_fields cluster_record_fields api_record_fields


section \<open>Name collisions between services\<close>

text \<open>
  C9. The cache a run writes holds one record for each name, and for each name it is the
  record of the latest of the seven fetchers, in the order lambda, s3, sqs, kinesis,
  dynamodb, rds, apigateway, whose result has that name: the first of
  \<open>[c7, c6, c5, c4, c3, c2, c1]\<close> that has the name gives the record, and the records
  the earlier fetchers found under that name are not in the cache.
\<close>

theorem later_service_wins:
  assumes "populate_main a args = (out, Some cache)"
  shows "\<exists>region c1 c2 c3 c4 c5 c6 c7.
           fetch_lambda_functions a region = Inr c1 \<and> fetch_s3_buckets a region = Inr c2
           \<and> fetch_sqs_queues a region = Inr c3 \<and> fetch_kinesis_streams a region = Inr c4
           \<and> fetch_dynamodb_tables a region = Inr c5 \<and> fetch_rds_resources a region = Inr c6
           \<and> fetch_api_gateway_apis a region = Inr c7
           \<and> distinct (map fst cache)
           \<and> (\<forall>name. map_of cache name
                  = (case filter (\<lambda>c. name \<in> fst ` set c) [c7, c6, c5, c4, c3, c2, c1] of
                       [] \<Rightarrow> None
                     | c # others \<Rightarrow> map_of c name))"
proof -
  from populate_main_written[OF assms] obtain region where "fetch_all a region = Inr cache"
    by blast
  then obtain c1 c2 c3 c4 c5 c6 c7 where
    f: "fetch_lambda_functions a region = Inr c1" "fetch_s3_buckets a region = Inr c2"
       "fetch_sqs_queues a region = Inr c3" "fetch_kinesis_streams a region = Inr c4"
       "fetch_dynamodb_tables a region = Inr c5" "fetch_rds_resources a region = Inr c6"
       "fetch_api_gateway_apis a region = Inr c7"
    and c: "cache = dict_update (dict_update (dict_update (dict_update (dict_update (dict_update
                (dict_update [] c1) c2) c3) c4) c5) c6) c7"
    using fetch_all_InrD by blast
  have d: "distinct (map fst c1)" "distinct (map fst c2)" "distinct (map fst c3)"
    "distinct (map fst c4)" "distinct (map fst c5)" "distinct (map fst c6)" "distinct (map fst c7)"
    by (rule fetch_lambda_functions_ok(1)[OF f(1)] fetch_s3_buckets_ok(1)[OF f(2)]
        fetch_sqs_queues_ok(1)[OF f(3)] fetch_kinesis_streams_ok(1)[OF f(4)]
        fetch_dynamodb_tables_ok(1)[OF f(5)] fetch_rds_resources_ok(1)[OF f(6)]
        fetch_api_gateway_apis_ok(1)[OF f(7)])+
  have dc: "distinct (map fst cache)" unfolding c by (rule merged_distinct)
  have m: "\<forall>name. map_of cache name
                  = (case filter (\<lambda>c. name \<in> fst ` set c) [c7, c6, c5, c4, c3, c2, c1] of
                       [] \<Rightarrow> None
                     | c # others \<Rightarrow> map_of c name)"
    unfolding c by (rule allI) (rule merged_lookup[OF d])
  show ?thesis
  proof (intro exI conjI)
    show "fetch_lambda_functions a region = Inr c1" by (rule f)
    show "fetch_s3_buckets a region = Inr c2" by (rule f)
    show "fetch_sqs_queues a region = Inr c3" by (rule f)
    show "fetch_kinesis_streams a region = Inr c4" by (rule f)
    show "fetch_dynamodb_tables a region = Inr c5" by (rule f)
    show "fetch_rds_resources a region = Inr c6" by (rule f)
    show "fetch_api_gateway_apis a region = Inr c7" by (rule f)
    show "distinct (map fst cache)" by (rule dc)
    show "\<forall>name. map_of cache name
                  = (case filter (\<lambda>c. name \<in> fst ` set c) [c7, c6, c5, c4, c3, c2, c1] of
                       [] \<Rightarrow> None
                     | c # others \<Rightarrow> map_of c name)" by (rule m)
  qed
qed

theorem later_service_wins_witness:
  "populate_main collision_account []
     = (Returned (Some 0), Some [(''orders'', s3_record ''us-east-1'' orders_bucket)])
   \<and> (\<exists>region c1 c2 c3 c4 c5 c6 c7.
           fetch_lambda_functions collision_account region = Inr c1
           \<and> fetch_s3_buckets collision_account region = Inr c2
           \<and> fetch_sqs_queues collision_account region = Inr c3
           \<and> fetch_kinesis_streams collision_account region = Inr c4
           \<and> fetch_dynamodb_tables collision_account region = Inr c5
           \<and> fetch_rds_resources collision_account region = Inr c6
           \<and> fetch_api_gateway_apis collision_account region = Inr c7
           \<and> distinct (map fst [(''orders'', s3_record ''us-east-1'' orders_bucket)])
           \<and> (\<forall>name. map_of [(''orders'', s3_record ''us-east-1'' orders_bucket)] name
                  = (case filter (\<lambda>c. name \<in> fst ` set c) [c7, c6, c5, c4, c3, c2, c1] of
                       [] \<Rightarrow> None
                     | c # others \<Rightarrow> map_of c name)))"
proof -
  have h: "populate_main collision_account []
             = (Returned (Some 0), Some [(''orders'', s3_record ''us-east-1'' orders_bucket)])"
    by code_simp
  from h later_service_wins[OF h] show ?thesis by (rule conjI)
qed


section \<open>How a collection run ends\<close>

text \<open>
  C8, as the claim states it, fails in two ways. For RDS a failed listing does not give
  zero records: when listing the DB instances raises \<open>ClientError\<close> and a cluster is
  listed, the RDS fetcher still returns the record of the cluster; when both listings
  raise \<open>ClientError\<close>, the first after a page with one instance, it still returns the
  record of that instance; both runs exit 0 with the RDS record in the cache. And a
  failure that is not raised as \<open>ClientError\<close> is fatal: when listing the S3 buckets
  raises another exception, no fetcher catches it, the run ends with that exception,
  exit status 1, and writes no cache.
\<close>

theorem enumeration_failure_not_as_claimed:
  "snd (rds_describe_db_instances rds_denied_account) = Some ClientError
   \<and> fetch_rds_resources rds_denied_account ''us-east-1''
       = Inr [(''billing'', cluster_record ''us-east-1'' billing_cluster)]
   \<and> populate_main rds_denied_account []
       = (Returned (Some 0), Some [(''billing'', cluster_record ''us-east-1'' billing_cluster)])
   \<and> snd (rds_describe_db_instances rds_throttled_account) = Some ClientError
   \<and> snd (rds_describe_db_clusters rds_throttled_account) = Some ClientError
   \<and> fetch_rds_resources rds_throttled_account ''us-east-1''
       = Inr [(''ledger'', instance_record ''us-east-1'' ledger_instance)]
   \<and> populate_main rds_throttled_account []
       = (Returned (Some 0), Some [(''ledger'', instance_record ''us-east-1'' ledger_instance)])
   \<and> s3_list_buckets s3_unreachable_account = Inl Other_exception
   \<and> sts_error s3_unreachable_account = None
   \<and> fetch_s3_buckets s3_unreachable_account ''us-east-1'' = Inl Other_exception
   \<and> populate_main s3_unreachable_account [] = (Raised Other_exception, None)
   \<and> exit_status (fst (populate_main s3_unreachable_account [])) = 1"
  by code_simp

text \<open>
  C8, amended. When creating the session or the identity call raises, the run ends with
  exit status 1 and writes nothing. When no enumeration call raises anything but
  \<open>ClientError\<close> and the cache file can be written, every fetcher returns, the run
  writes the merge of the seven results and exits 0, and a service whose listing raised
  \<open>ClientError\<close> contributes no record; for RDS that holds when creating the client
  raised, while a \<open>ClientError\<close> in the listing of the instances or of the clusters
  keeps the records of the pages already read and of the other listing. When an
  enumeration call raises an exception that is not \<open>ClientError\<close>, the run ends with
  an exception that is not \<open>ClientError\<close>, exit status 1, and writes nothing. When
  creating the data directory or writing the cache file raises, the run ends with exit
  status 1 and writes nothing.
\<close>

theorem collection_run_failures:
  assumes "parse_arguments args (None, None) = Some (region_arg, profile_arg)"
  shows "(session_error a (run_profile a profile_arg) \<noteq> None \<or> sts_error a \<noteq> None \<longrightarrow>
            exit_status (fst (populate_main a args)) = 1 \<and> snd (populate_main a args) = None)
       \<and> (session_error a (run_profile a profile_arg) = None \<and> sts_error a = None
            \<and> raises_only_ClientError a \<and> makedirs_error a = None \<and> write_error a = None \<longrightarrow>
          (\<exists>c1 c2 c3 c4 c5 c6 c7.
             fetch_lambda_functions a (run_region a region_arg) = Inr c1
           \<and> fetch_s3_buckets a (run_region a region_arg) = Inr c2
           \<and> fetch_sqs_queues a (run_region a region_arg) = Inr c3
           \<and> fetch_kinesis_streams a (run_region a region_arg) = Inr c4
           \<and> fetch_dynamodb_tables a (run_region a region_arg) = Inr c5
           \<and> fetch_rds_resources a (run_region a region_arg) = Inr c6
           \<and> fetch_api_gateway_apis a (run_region a region_arg) = Inr c7
           \<and> populate_main a args
               = (Returned (Some 0), Some (foldl dict_update [] [c1, c2, c3, c4, c5, c6, c7]))
           \<and> exit_status (fst (populate_main a args)) = 0
           \<and> (snd (lambda_list_functions a) = Some ClientError \<longrightarrow> c1 = [])
           \<and> (s3_list_buckets a = Inl ClientError \<longrightarrow> c2 = [])
           \<and> (sqs_list_queues a = Inl ClientError \<longrightarrow> c3 = [])
           \<and> (snd (kinesis_list_streams a) = Some ClientError \<longrightarrow> c4 = [])
           \<and> (snd (dynamodb_list_tables a) = Some ClientError \<longrightarrow> c5 = [])
           \<and> (rds_client_error a = Some ClientError \<longrightarrow> c6 = [])
           \<and> (rds_client_error a = None \<longrightarrow>
                c6 = store_clusters (run_region a region_arg)
                       (page_items (fst (rds_describe_db_clusters a)))
                       (store_instances (run_region a region_arg)
                          (page_items (fst (rds_describe_db_instances a))) []))
           \<and> (apigateway_get_rest_apis a = Inl ClientError \<longrightarrow> c7 = [])))
       \<and> (session_error a (run_profile a profile_arg) = None \<and> sts_error a = None
            \<and> enumeration_raises a e \<and> e \<noteq> ClientError \<longrightarrow>
            (\<exists>e'. populate_main a args = (Raised e', None) \<and> e' \<noteq> ClientError)
          \<and> exit_status (fst (populate_main a args)) = 1 \<and> snd (populate_main a args) = None)
       \<and> (session_error a (run_profile a profile_arg) = None \<and> sts_error a = None
            \<and> fetch_all a (run_region a region_arg) = Inr cache
            \<and> (makedirs_error a \<noteq> None \<or> write_error a \<noteq> None) \<longrightarrow>
            exit_status (fst (populate_main a args)) = 1 \<and> snd (populate_main a args) = None)"
proof (intro conjI impI)
  assume "session_error a (run_profile a profile_arg) \<noteq> None \<or> sts_error a \<noteq> None"
  with assms have "exit_status (fst (populate_main a args)) = 1 \<and> snd (populate_main a args) = None"
    by (rule populate_main_credentials)
  then show "exit_status (fst (populate_main a args)) = 1" "snd (populate_main a args) = None"
    by simp_all
next
  assume h: "session_error a (run_profile a profile_arg) = None \<and> sts_error a = None
            \<and> fetch_all a (run_region a region_arg) = Inr cache
            \<and> (makedirs_error a \<noteq> None \<or> write_error a \<noteq> None)"
  then have "exit_status (fst (populate_main a args)) = 1 \<and> snd (populate_main a args) = None"
    using assms by (intro populate_main_write_failure[where c = cache]) auto
  then show "exit_status (fst (populate_main a args)) = 1" "snd (populate_main a args) = None"
    by simp_all
next
  assume h: "session_error a (run_profile a profile_arg) = None \<and> sts_error a = None
            \<and> enumeration_raises a e \<and> e \<noteq> ClientError"
  then have "\<exists>e'. populate_main a args = (Raised e', None) \<and> e' \<noteq> ClientError"
    using assms by (intro populate_main_enumeration_raises[where e = e]) auto
  then show "\<exists>e'. populate_main a args = (Raised e', None) \<and> e' \<noteq> ClientError"
    "exit_status (fst (populate_main a args)) = 1" "snd (populate_main a args) = None"
    by auto
next
  let ?region = "run_region a region_arg"
  assume h: "session_error a (run_profile a profile_arg) = None \<and> sts_error a = None
            \<and> raises_only_ClientError a \<and> makedirs_error a = None \<and> write_error a = None"
  then have r: "raises_only_ClientError a" by simp
  show "\<exists>c1 c2 c3 c4 c5 c6 c7.
             fetch_lambda_functions a ?region = Inr c1
           \<and> fetch_s3_buckets a ?region = Inr c2
           \<and> fetch_sqs_queues a ?region = Inr c3
           \<and> fetch_kinesis_streams a ?region = Inr c4
           \<and> fetch_dynamodb_tables a ?region = Inr c5
           \<and> fetch_rds_resources a ?region = Inr c6
           \<and> fetch_api_gateway_apis a ?region = Inr c7
           \<and> populate_main a args
               = (Returned (Some 0), Some (foldl dict_update [] [c1, c2, c3, c4, c5, c6, c7]))
           \<and> exit_status (fst (populate_main a args)) = 0
           \<and> (snd (lambda_list_functions a) = Some ClientError \<longrightarrow> c1 = [])
           \<and> (s3_list_buckets a = Inl ClientError \<longrightarrow> c2 = [])
           \<and> (sqs_list_queues a = Inl ClientError \<longrightarrow> c3 = [])
           \<and> (snd (kinesis_list_streams a) = Some ClientError \<longrightarrow> c4 = [])
           \<and> (snd (dynamodb_list_tables a) = Some ClientError \<longrightarrow> c5 = [])
           \<and> (rds_client_error a = Some ClientError \<longrightarrow> c6 = [])
           \<and> (rds_client_error a = None \<longrightarrow>
                c6 = store_clusters ?region
                       (page_items (fst (rds_describe_db_clusters a)))
                       (store_instances ?region
                          (page_items (fst (rds_describe_db_instances a))) []))
           \<and> (apigateway_get_rest_apis a = Inl ClientError \<longrightarrow> c7 = [])"
  proof (rule tolerated_fetches[OF r, of ?region])
    fix c1 c2 c3 c4 c5 c6 c7
    assume f: "fetch_lambda_functions a ?region = Inr c1" "fetch_s3_buckets a ?region = Inr c2"
       "fetch_sqs_queues a ?region = Inr c3" "fetch_kinesis_streams a ?region = Inr c4"
       "fetch_dynamodb_tables a ?region = Inr c5" "fetch_rds_resources a ?region = Inr c6"
       "fetch_api_gateway_apis a ?region = Inr c7"
    and z: "snd (lambda_list_functions a) = Some ClientError \<longrightarrow> c1 = []"
       "s3_list_buckets a = Inl ClientError \<longrightarrow> c2 = []"
       "sqs_list_queues a = Inl ClientError \<longrightarrow> c3 = []"
       "snd (kinesis_list_streams a) = Some ClientError \<longrightarrow> c4 = []"
       "snd (dynamodb_list_tables a) = Some ClientError \<longrightarrow> c5 = []"
       "rds_client_error a = Some ClientError \<longrightarrow> c6 = []"
       "rds_client_error a = None \<longrightarrow>
          c6 = store_clusters ?region (page_items (fst (rds_describe_db_clusters a)))
                 (store_instances ?region (page_items (fst (rds_describe_db_instances a))) [])"
       "apigateway_get_rest_apis a = Inl ClientError \<longrightarrow> c7 = []"
    have fa: "fetch_all a ?region = Inr (foldl dict_update [] [c1, c2, c3, c4, c5, c6, c7])"
      unfolding merged_as_foldl by (rule fetch_all_InrI[OF f])
    have p: "populate_main a args
               = (Returned (Some 0), Some (foldl dict_update [] [c1, c2, c3, c4, c5, c6, c7]))"
      using assms h fa by (intro populate_main_ok) auto
    have e: "exit_status (fst (populate_main a args)) = 0"
      by (simp add: p)
    show ?thesis
      apply (rule exI[of _ c1], rule exI[of _ c2], rule exI[of _ c3], rule exI[of _ c4])
      apply (rule exI[of _ c5], rule exI[of _ c6], rule exI[of _ c7])
      apply (intro conjI f p e z)
      done
  qed
qed

theorem collection_run_failures_witness:
  "parse_arguments [] (None, None) = Some (None, None)
   \<and> sts_error no_credentials_account \<noteq> None
   \<and> exit_status (fst (populate_main no_credentials_account [])) = 1
   \<and> snd (populate_main no_credentials_account []) = None
   \<and> raises_only_ClientError lambda_down_account
   \<and> snd (lambda_list_functions lambda_down_account) = Some ClientError
   \<and> fetch_lambda_functions lambda_down_account (run_region lambda_down_account None) = Inr []
   \<and> exit_status (fst (populate_main lambda_down_account [])) = 0
   \<and> enumeration_raises s3_unreachable_account Other_exception
   \<and> Other_exception \<noteq> ClientError
   \<and> (\<exists>e'. populate_main s3_unreachable_account [] = (Raised e', None) \<and> e' \<noteq> ClientError)
   \<and> exit_status (fst (populate_main s3_unreachable_account [])) = 1
   \<and> snd (populate_main s3_unreachable_account []) = None
   \<and> fetch_all disk_full_account (run_region disk_full_account None) = Inr []
   \<and> write_error disk_full_account \<noteq> None
   \<and> exit_status (fst (populate_main disk_full_account [])) = 1
   \<and> snd (populate_main disk_full_account []) = None"
proof -
  have p: "parse_arguments [] (None, None) = Some (None, None)" by simp
  have h1: "sts_error no_credentials_account \<noteq> None" by code_simp
  have h2: "session_error lambda_down_account (run_profile lambda_down_account None) = None
            \<and> sts_error lambda_down_account = None
            \<and> raises_only_ClientError lambda_down_account
            \<and> makedirs_error lambda_down_account = None \<and> write_error lambda_down_account = None"
    by code_simp
  have h2': "snd (lambda_list_functions lambda_down_account) = Some ClientError" by code_simp
  have h3: "session_error disk_full_account (run_profile disk_full_account None) = None
            \<and> sts_error disk_full_account = None
            \<and> fetch_all disk_full_account (run_region disk_full_account None) = Inr []
            \<and> (makedirs_error disk_full_account \<noteq> None \<or> write_error disk_full_account \<noteq> None)"
    by code_simp
  have h3': "write_error disk_full_account \<noteq> None" by code_simp
  have h4: "session_error s3_unreachable_account (run_profile s3_unreachable_account None) = None
            \<and> sts_error s3_unreachable_account = None
            \<and> enumeration_raises s3_unreachable_account Other_exception
            \<and> Other_exception \<noteq> ClientError"
    by code_simp
  note t1 = collection_run_failures[OF p, where a = no_credentials_account]
  note t2 = collection_run_failures[OF p, where a = lambda_down_account]
  note t3 = collection_run_failures[OF p, where a = disk_full_account and cache = "[]"]
  note t4 = collection_run_failures[OF p, where a = s3_unreachable_account and e = Other_exception]
  have c1: "exit_status (fst (populate_main no_credentials_account [])) = 1
            \<and> snd (populate_main no_credentials_account []) = None"
    by (rule mp[OF t1[THEN conjunct1] disjI2[OF h1]])
  from mp[OF t2[THEN conjunct2, THEN conjunct1] h2]
  obtain c1' where "fetch_lambda_functions lambda_down_account (run_region lambda_down_account None)
                     = Inr c1'"
    and "exit_status (fst (populate_main lambda_down_account [])) = 0"
    and "snd (lambda_list_functions lambda_down_account) = Some ClientError \<longrightarrow> c1' = []"
    by (elim exE conjE)
  with h2' have c2: "fetch_lambda_functions lambda_down_account (run_region lambda_down_account None)
                     = Inr []"
    "exit_status (fst (populate_main lambda_down_account [])) = 0"
    by simp_all
  have c4: "(\<exists>e'. populate_main s3_unreachable_account [] = (Raised e', None) \<and> e' \<noteq> ClientError)
            \<and> exit_status (fst (populate_main s3_unreachable_account [])) = 1
            \<and> snd (populate_main s3_unreachable_account []) = None"
    by (rule mp[OF t4[THEN conjunct2, THEN conjunct2, THEN conjunct1] h4])
  have c3: "exit_status (fst (populate_main disk_full_account [])) = 1
            \<and> snd (populate_main disk_full_account []) = None"
    by (rule mp[OF t3[THEN conjunct2, THEN conjunct2, THEN conjunct2] h3])
  note r = h2[THEN conjunct2, THEN conjunct2, THEN conjunct1]
  note f = h3[THEN conjunct2, THEN conjunct2, THEN conjunct1]
  note er = h4[THEN conjunct2, THEN conjunct2]
  show ?thesis
    by (intro conjI p h1 c1[THEN conjunct1] c1[THEN conjunct2] r h2' c2
        er[THEN conjunct1] er[THEN conjunct2]
        c4[THEN conjunct1] c4[THEN conjunct2, THEN conjunct1] c4[THEN conjunct2, THEN conjunct2]
        f h3' c3[THEN conjunct1] c3[THEN conjunct2])
qed


section \<open>The records the collector produces\<close>

text \<open>
  C6, as the claim states it, fails in two ways. The description of a DynamoDB table
  without \<open>ItemCount\<close> gives the record the item count 0, which is neither \<open>unknown\<close>
  nor the empty string. And the record of a REST API is stored under the name of the
  API, while its console URL is built from the API id: the URL of the API named
  \<open>orders-api\<close> with the id \<open>a1b2c3d4e5\<close> does not contain \<open>orders-api\<close>.
\<close>

theorem item_count_zero_and_api_url_without_name:
  "ItemCount bare_table = None
   \<and> populate_main bare_table_account []
       = (Returned (Some 0), Some [(''users'', table_record ''us-east-1'' ''users'' bare_table)])
   \<and> map_of (extra (table_record ''us-east-1'' ''users'' bare_table)) ''item_count''
       = Some (PInt 0)
   \<and> PInt 0 \<noteq> PStr ''unknown'' \<and> PInt 0 \<noteq> PStr []
   \<and> populate_main orders_api_account []
       = (Returned (Some 0), Some [(''orders-api'', api_record ''us-east-1'' orders_api)])
   \<and> url (api_record ''us-east-1'' orders_api)
       = Some ''https://us-east-1.console.aws.amazon.com/apigateway/home?region=us-east-1#/apis/a1b2c3d4e5''
   \<and> \<not> sublist ''orders-api''
         ''https://us-east-1.console.aws.amazon.com/apigateway/home?region=us-east-1#/apis/a1b2c3d4e5''
   \<and> sublist ''a1b2c3d4e5''
         ''https://us-east-1.console.aws.amazon.com/apigateway/home?region=us-east-1#/apis/a1b2c3d4e5''"
  by code_simp


text \<open>
  C6, amended. Every record in the cache a run writes is the record the collector builds
  for an item that one of the services lists, stored under the name of the item. It has
  a non-empty service tag, a non-empty resource type and a console URL that contains the
  region of the run and the identifier of the record: the API id for the record of a
  REST API, the name it is stored under for every other record. When no enumeration call
  raises anything but \<open>ClientError\<close> and the cache file can be written, the run exits 0
  whatever optional members the answers lack, and the cache has a record under the name
  of every item of a listing that did not raise. In the record built for an item, a
  missing optional member becomes \<open>unknown\<close>, the empty string or, for the item count
  and the shard list, 0.
\<close>

theorem collector_records_well_formed:
  assumes "parse_arguments args (None, None) = Some (region_arg, profile_arg)"
  shows "(populate_main a args = (out, Some cache) \<and> (name, r) \<in> set cache \<longrightarrow>
            listed_record a (run_region a region_arg) name r
          \<and> (\<exists>s. service r = Some s \<and> s \<noteq> []) \<and> (\<exists>t. rtype r = Some t \<and> t \<noteq> [])
          \<and> (\<exists>u. url r = Some u \<and> sublist (run_region a region_arg) u
                  \<and> sublist (record_identifier name r) u))
       \<and> (session_error a (run_profile a profile_arg) = None \<and> sts_error a = None
            \<and> raises_only_ClientError a \<and> makedirs_error a = None \<and> write_error a = None \<longrightarrow>
          (\<exists>written.
             populate_main a args = (Returned (Some 0), Some written)
           \<and> (snd (lambda_list_functions a) = None \<longrightarrow>
                FunctionName ` set (page_items (fst (lambda_list_functions a)))
                  \<subseteq> fst ` set written)
           \<and> (\<forall>response. s3_list_buckets a = Inr response \<longrightarrow>
                Name ` set (dict_get response []) \<subseteq> fst ` set written)
           \<and> (\<forall>response. sqs_list_queues a = Inr response \<longrightarrow>
                last_segment ` set (dict_get response []) \<subseteq> fst ` set written)
           \<and> (snd (kinesis_list_streams a) = None \<longrightarrow>
                {n \<in> set (page_items (fst (kinesis_list_streams a))).
                   raised_by (kinesis_describe_stream a n) = None} \<subseteq> fst ` set written)
           \<and> (snd (dynamodb_list_tables a) = None \<longrightarrow>
                {n \<in> set (page_items (fst (dynamodb_list_tables a))).
                   raised_by (dynamodb_describe_table a n) = None} \<subseteq> fst ` set written)
           \<and> (rds_client_error a = None \<longrightarrow>
                DBInstanceIdentifier ` set (page_items (fst (rds_describe_db_instances a)))
                \<union> DBClusterIdentifier ` set (page_items (fst (rds_describe_db_clusters a)))
                  \<subseteq> fst ` set written)
           \<and> (\<forall>response. apigateway_get_rest_apis a = Inr response \<longrightarrow>
                api_name ` set (dict_get response []) \<subseteq> fst ` set written)))
       \<and> map_of (extra (lambda_record region func)) ''runtime''
            = Some (PStr (case Runtime func of None \<Rightarrow> ''unknown'' | Some v \<Rightarrow> v))
       \<and> map_of (extra (lambda_record region func)) ''last_modified''
            = Some (PStr (case LastModified func of None \<Rightarrow> [] | Some v \<Rightarrow> v))
       \<and> map_of (extra (s3_record region bucket)) ''creation_date''
            = Some (PStr (case CreationDate bucket of None \<Rightarrow> [] | Some d \<Rightarrow> isoformat d))
       \<and> map_of (extra (stream_record region stream_name stream)) ''arn''
            = Some (PStr (case StreamARN stream of None \<Rightarrow> [] | Some v \<Rightarrow> v))
       \<and> map_of (extra (stream_record region stream_name stream)) ''status''
            = Some (PStr (case StreamStatus stream of None \<Rightarrow> ''unknown'' | Some v \<Rightarrow> v))
       \<and> map_of (extra (stream_record region stream_name stream)) ''shard_count''
            = Some (PInt (case Shards stream of None \<Rightarrow> 0 | Some shards \<Rightarrow> int (length shards)))
       \<and> map_of (extra (table_record region table_name table)) ''arn''
            = Some (PStr (case TableArn table of None \<Rightarrow> [] | Some v \<Rightarrow> v))
       \<and> map_of (extra (table_record region table_name table)) ''status''
            = Some (PStr (case TableStatus table of None \<Rightarrow> ''unknown'' | Some v \<Rightarrow> v))
       \<and> map_of (extra (table_record region table_name table)) ''item_count''
            = Some (PInt (case ItemCount table of None \<Rightarrow> 0 | Some v \<Rightarrow> v))
       \<and> map_of (extra (instance_record region inst)) ''arn''
            = Some (PStr (case DBInstanceArn inst of None \<Rightarrow> [] | Some v \<Rightarrow> v))
       \<and> map_of (extra (instance_record region inst)) ''engine''
            = Some (PStr (case InstanceEngine inst of None \<Rightarrow> ''unknown'' | Some v \<Rightarrow> v))
       \<and> map_of (extra (instance_record region inst)) ''status''
            = Some (PStr (case DBInstanceStatus inst of None \<Rightarrow> ''unknown'' | Some v \<Rightarrow> v))
       \<and> map_of (extra (cluster_record region cluster)) ''arn''
            = Some (PStr (case DBClusterArn cluster of None \<Rightarrow> [] | Some v \<Rightarrow> v))
       \<and> map_of (extra (cluster_record region cluster)) ''engine''
            = Some (PStr (case ClusterEngine cluster of None \<Rightarrow> ''unknown'' | Some v \<Rightarrow> v))
       \<and> map_of (extra (cluster_record region cluster)) ''status''
            = Some (PStr (case ClusterStatus cluster of None \<Rightarrow> ''unknown'' | Some v \<Rightarrow> v))
       \<and> map_of (extra (api_record region api)) ''description''
            = Some (PStr (case description api of None \<Rightarrow> [] | Some v \<Rightarrow> v))
       \<and> map_of (extra (api_record region api)) ''created_date''
            = Some (PStr (case createdDate api of None \<Rightarrow> [] | Some d \<Rightarrow> isoformat d))"
proof (intro conjI impI)
  assume w: "populate_main a args = (out, Some cache) \<and> (name, r) \<in> set cache"
  with assms show "listed_record a (run_region a region_arg) name r"
    by (intro populate_main_entries_listed[where out = out and cache = cache]) auto
  from w assms have "well_formed_record (run_region a region_arg) name r"
    by (intro populate_main_entries_well_formed[where out = out and cache = cache]) auto
  then show "\<exists>s. service r = Some s \<and> s \<noteq> []" "\<exists>t. rtype r = Some t \<and> t \<noteq> []"
    "\<exists>u. url r = Some u \<and> sublist (run_region a region_arg) u
                  \<and> sublist (record_identifier name r) u"
    unfolding well_formed_record_def by blast+
next
  let ?region = "run_region a region_arg"
  assume h: "session_error a (run_profile a profile_arg) = None \<and> sts_error a = None
            \<and> raises_only_ClientError a \<and> makedirs_error a = None \<and> write_error a = None"
  then have r: "raises_only_ClientError a" by simp
  show "\<exists>written.
             populate_main a args = (Returned (Some 0), Some written)
           \<and> (snd (lambda_list_functions a) = None \<longrightarrow>
                FunctionName ` set (page_items (fst (lambda_list_functions a)))
                  \<subseteq> fst ` set written)
           \<and> (\<forall>response. s3_list_buckets a = Inr response \<longrightarrow>
                Name ` set (dict_get response []) \<subseteq> fst ` set written)
           \<and> (\<forall>response. sqs_list_queues a = Inr response \<longrightarrow>
                last_segment ` set (dict_get response []) \<subseteq> fst ` set written)
           \<and> (snd (kinesis_list_streams a) = None \<longrightarrow>
                {n \<in> set (page_items (fst (kinesis_list_streams a))).
                   raised_by (kinesis_describe_stream a n) = None} \<subseteq> fst ` set written)
           \<and> (snd (dynamodb_list_tables a) = None \<longrightarrow>
                {n \<in> set (page_items (fst (dynamodb_list_tables a))).
                   raised_by (dynamodb_describe_table a n) = None} \<subseteq> fst ` set written)
           \<and> (rds_client_error a = None \<longrightarrow>
                DBInstanceIdentifier ` set (page_items (fst (rds_describe_db_instances a)))
                \<union> DBClusterIdentifier ` set (page_items (fst (rds_describe_db_clusters a)))
                  \<subseteq> fst ` set written)
           \<and> (\<forall>response. apigateway_get_rest_apis a = Inr response \<longrightarrow>
                api_name ` set (dict_get response []) \<subseteq> fst ` set written)"
  proof (rule tolerated_fetches[OF r, of ?region])
    fix c1 c2 c3 c4 c5 c6 c7
    assume f: "fetch_lambda_functions a ?region = Inr c1" "fetch_s3_buckets a ?region = Inr c2"
       "fetch_sqs_queues a ?region = Inr c3" "fetch_kinesis_streams a ?region = Inr c4"
       "fetch_dynamodb_tables a ?region = Inr c5" "fetch_rds_resources a ?region = Inr c6"
       "fetch_api_gateway_apis a ?region = Inr c7"
    and k1: "snd (lambda_list_functions a) = None \<longrightarrow>
       FunctionName ` set (page_items (fst (lambda_list_functions a))) \<subseteq> fst ` set c1"
    and k2: "\<forall>response. s3_list_buckets a = Inr response \<longrightarrow>
       Name ` set (dict_get response []) \<subseteq> fst ` set c2"
    and k3: "\<forall>response. sqs_list_queues a = Inr response \<longrightarrow>
       last_segment ` set (dict_get response []) \<subseteq> fst ` set c3"
    and k4: "snd (kinesis_list_streams a) = None \<longrightarrow>
       {n \<in> set (page_items (fst (kinesis_list_streams a))).
          raised_by (kinesis_describe_stream a n) = None} \<subseteq> fst ` set c4"
    and k5: "snd (dynamodb_list_tables a) = None \<longrightarrow>
       {n \<in> set (page_items (fst (dynamodb_list_tables a))).
          raised_by (dynamodb_describe_table a n) = None} \<subseteq> fst ` set c5"
    and k6: "rds_client_error a = None \<longrightarrow>
       c6 = store_clusters ?region (page_items (fst (rds_describe_db_clusters a)))
              (store_instances ?region (page_items (fst (rds_describe_db_instances a))) [])"
    and k7: "\<forall>response. apigateway_get_rest_apis a = Inr response \<longrightarrow>
       api_name ` set (dict_get response []) \<subseteq> fst ` set c7"
    let ?written = "foldl dict_update [] [c1, c2, c3, c4, c5, c6, c7]"
    have keys: "fst ` set ?written
        = fst ` set c1 \<union> fst ` set c2 \<union> fst ` set c3 \<union> fst ` set c4 \<union> fst ` set c5
          \<union> fst ` set c6 \<union> fst ` set c7"
      by (rule merged_keys)
    have fa: "fetch_all a ?region = Inr ?written"
      unfolding merged_as_foldl by (rule fetch_all_InrI[OF f])
    have p: "populate_main a args = (Returned (Some 0), Some ?written)"
      using assms h fa by (intro populate_main_ok) auto
    have k6': "rds_client_error a = None \<longrightarrow>
                DBInstanceIdentifier ` set (page_items (fst (rds_describe_db_instances a)))
                \<union> DBClusterIdentifier ` set (page_items (fst (rds_describe_db_clusters a)))
                  \<subseteq> fst ` set c6"
      using k6 by (simp add: rds_listed_keys)
    have "snd (lambda_list_functions a) = None \<longrightarrow>
            FunctionName ` set (page_items (fst (lambda_list_functions a)))
              \<subseteq> fst ` set ?written"
      using k1 unfolding keys by blast
    moreover have "\<forall>response. s3_list_buckets a = Inr response \<longrightarrow>
            Name ` set (dict_get response []) \<subseteq> fst ` set ?written"
      using k2 unfolding keys by blast
    moreover have "\<forall>response. sqs_list_queues a = Inr response \<longrightarrow>
            last_segment ` set (dict_get response []) \<subseteq> fst ` set ?written"
      using k3 unfolding keys by blast
    moreover have "snd (kinesis_list_streams a) = None \<longrightarrow>
            {n \<in> set (page_items (fst (kinesis_list_streams a))).
               raised_by (kinesis_describe_stream a n) = None} \<subseteq> fst ` set ?written"
      using k4 unfolding keys by blast
    moreover have "snd (dynamodb_list_tables a) = None \<longrightarrow>
            {n \<in> set (page_items (fst (dynamodb_list_tables a))).
               raised_by (dynamodb_describe_table a n) = None} \<subseteq> fst ` set ?written"
      using k5 unfolding keys by blast
    moreover have "rds_client_error a = None \<longrightarrow>
            DBInstanceIdentifier ` set (page_items (fst (rds_describe_db_instances a)))
            \<union> DBClusterIdentifier ` set (page_items (fst (rds_describe_db_clusters a)))
              \<subseteq> fst ` set ?written"
      using k6' unfolding keys by blast
    moreover have "\<forall>response. apigateway_get_rest_apis a = Inr response \<longrightarrow>
            api_name ` set (dict_get response []) \<subseteq> fst ` set ?written"
      using k7 unfolding keys by blast
    ultimately show ?thesis
      using p by (intro exI[of _ ?written] conjI)
  qed
qed (rule record_fields)+

theorem collector_records_well_formed_witness:
  "parse_arguments [] (None, None) = Some (None, None)
   \<and> populate_main bare_table_account []
       = (Returned (Some 0), Some [(''users'', table_record ''us-east-1'' ''users'' bare_table)])
   \<and> listed_record bare_table_account (run_region bare_table_account None) ''users''
         (table_record ''us-east-1'' ''users'' bare_table)
   \<and> (\<exists>s. service (table_record ''us-east-1'' ''users'' bare_table) = Some s \<and> s \<noteq> [])
   \<and> (\<exists>t. rtype (table_record ''us-east-1'' ''users'' bare_table) = Some t \<and> t \<noteq> [])
   \<and> (\<exists>u. url (table_record ''us-east-1'' ''users'' bare_table) = Some u
          \<and> sublist (run_region bare_table_account None) u
          \<and> sublist (record_identifier ''users'' (table_record ''us-east-1'' ''users'' bare_table)) u)
   \<and> raises_only_ClientError bare_table_account
   \<and> (\<exists>written. populate_main bare_table_account [] = (Returned (Some 0), Some written)
          \<and> ''users'' \<in> fst ` set written)"
proof -
  let ?r = "table_record ''us-east-1'' ''users'' bare_table"
  have p: "parse_arguments [] (None, None) = Some (None, None)" by simp
  have h1: "populate_main bare_table_account [] = (Returned (Some 0), Some [(''users'', ?r)])
            \<and> (''users'', ?r) \<in> set [(''users'', ?r)]"
    by code_simp
  have h2: "session_error bare_table_account (run_profile bare_table_account None) = None
            \<and> sts_error bare_table_account = None
            \<and> raises_only_ClientError bare_table_account
            \<and> makedirs_error bare_table_account = None \<and> write_error bare_table_account = None"
    by code_simp
  have h3: "snd (dynamodb_list_tables bare_table_account) = None" by code_simp
  have h4: "''users'' \<in> {n \<in> set (page_items (fst (dynamodb_list_tables bare_table_account))).
                            raised_by (dynamodb_describe_table bare_table_account n) = None}"
    by code_simp
  note t = collector_records_well_formed[OF p, where a = bare_table_account
      and out = "Returned (Some 0)" and cache = "[(''users'', ?r)]" and name = "''users''" and r = ?r]
  have c1: "listed_record bare_table_account (run_region bare_table_account None) ''users'' ?r
          \<and> (\<exists>s. service ?r = Some s \<and> s \<noteq> []) \<and> (\<exists>t. rtype ?r = Some t \<and> t \<noteq> [])
          \<and> (\<exists>u. url ?r = Some u \<and> sublist (run_region bare_table_account None) u
                  \<and> sublist (record_identifier ''users'' ?r) u)"
    by (rule mp[OF t[THEN conjunct1] h1])
  from mp[OF t[THEN conjunct2, THEN conjunct1] h2]
  have "\<exists>written. populate_main bare_table_account [] = (Returned (Some 0), Some written)
          \<and> (snd (dynamodb_list_tables bare_table_account) = None \<longrightarrow>
                {n \<in> set (page_items (fst (dynamodb_list_tables bare_table_account))).
                   raised_by (dynamodb_describe_table bare_table_account n) = None}
                 \<subseteq> fst ` set written)"
    by (elim exE conjE) (intro exI conjI; assumption)
  then have c2: "\<exists>written. populate_main bare_table_account [] = (Returned (Some 0), Some written)
          \<and> ''users'' \<in> fst ` set written"
    using h3 h4 by blast
  note r = h2[THEN conjunct2, THEN conjunct2, THEN conjunct1]
  show ?thesis
    by (intro conjI p h1[THEN conjunct1] c1[THEN conjunct1] c1[THEN conjunct2, THEN conjunct1]
        c1[THEN conjunct2, THEN conjunct2, THEN conjunct1]
        c1[THEN conjunct2, THEN conjunct2, THEN conjunct2] r c2)
qed

section \<open>The cache file read back\<close>

text \<open>
  C7. For every cache a run of the collector writes: what \<open>json.load\<close> reads from what
  \<open>json.dump\<close> wrote is the same mapping, with the same names, in the same order, and
  the same record under every name, and it is what \<open>load_aws_resources\<close> hands to the
  query tool. The reason lies in the collector: every value it stores in a record is a
  str or an int, the time members of the answers being stored as the text of their
  \<open>isoformat()\<close>, so \<open>default=str\<close> is never called and every value is read back as
  it was written. A \<open>datetime\<close>, had one been stored, would be read back as the str
  that \<open>str\<close> gives for it.
\<close>

theorem cache_round_trip:
  assumes "populate_main a args = (out, Some cache)"
  shows "json_load (json_dump cache) = Some cache
       \<and> (\<exists>loaded. json_load (json_dump cache) = Some loaded
             \<and> fst ` set loaded = fst ` set cache
             \<and> (\<forall>name. map_of loaded name = map_of cache name)
             \<and> load_aws_resources (Cache loaded) = ([], cache))
       \<and> (\<forall>(name, r)\<in>set cache. \<forall>(key, v)\<in>set (record_items r).
             json_native v \<and> value_of_json (json_of_value v) = Some v)
       \<and> value_of_json (json_of_value (PDatetime d)) = Some (PStr (str d))"
proof -
  from populate_main_written[OF assms] obtain region_arg profile_arg where
    p: "parse_arguments args (None, None) = Some (region_arg, profile_arg)"
    and f: "fetch_all a (run_region a region_arg) = Inr cache"
    by blast
  from fetch_all_InrD[OF f] have d: "distinct (map fst cache)"
    using merged_distinct by blast
  have plain: "plain_record r" if "(n, r) \<in> set cache" for n r
    using populate_main_entries_listed[OF p assms that] by (rule listed_record_plain)
  have rt: "json_load (json_dump cache) = Some cache"
    using d plain by (rule json_round_trip)
  have native: "json_native v \<and> value_of_json (json_of_value v) = Some v"
    if "(n, r) \<in> set cache" "(key, v) \<in> set (record_items r)" for n r key v
  proof -
    from plain[OF that(1)] that(2) have "json_native v"
      by (auto simp: plain_record_def list_all_iff)
    then show ?thesis by (simp add: native_round_trip)
  qed
  have l: "load_aws_resources (Cache cache) = ([], cache)"
    by (simp add: load_aws_resources_def)
  show ?thesis
  proof (intro conjI)
    show "json_load (json_dump cache) = Some cache" by (rule rt)
    show "\<exists>loaded. json_load (json_dump cache) = Some loaded
             \<and> fst ` set loaded = fst ` set cache
             \<and> (\<forall>name. map_of loaded name = map_of cache name)
             \<and> load_aws_resources (Cache loaded) = ([], cache)"
      using rt l by simp
    show "\<forall>(name, r)\<in>set cache. \<forall>(key, v)\<in>set (record_items r).
             json_native v \<and> value_of_json (json_of_value v) = Some v"
      using native by blast
    show "value_of_json (json_of_value (PDatetime d)) = Some (PStr (str d))"
      by simp
  qed
qed

theorem cache_round_trip_witness:
  "populate_main dated_account []
     = (Returned (Some 0), Some [(''logs'', s3_record ''us-east-1'' dated_bucket)])
   \<and> map_of (extra (s3_record ''us-east-1'' dated_bucket)) ''creation_date''
       = Some (PStr ''2024-01-02T03:04:05+00:00'')
   \<and> json_dump [(''logs'', s3_record ''us-east-1'' dated_bucket)]
       = JObject [(''logs'', JObject
           [(''service'', JString ''s3''), (''type'', JString ''bucket''),
            (''url'', JString ''https://s3.console.aws.amazon.com/s3/buckets/logs?region=us-east-1''),
            (''creation_date'', JString ''2024-01-02T03:04:05+00:00''),
            (''region'', JString ''us-east-1'')])]
   \<and> json_load (json_dump [(''logs'', s3_record ''us-east-1'' dated_bucket)])
       = Some [(''logs'', s3_record ''us-east-1'' dated_bucket)]
   \<and> value_of_json (json_of_value (PDatetime (Datetime ''2024-01-02T03:04:05+00:00'')))
       = Some (PStr ''2024-01-02 03:04:05+00:00'')"
proof -
  have h: "populate_main dated_account []
     = (Returned (Some 0), Some [(''logs'', s3_record ''us-east-1'' dated_bucket)])"
    by code_simp
  have v: "map_of (extra (s3_record ''us-east-1'' dated_bucket)) ''creation_date''
       = Some (PStr ''2024-01-02T03:04:05+00:00'')"
    by code_simp
  have j: "json_dump [(''logs'', s3_record ''us-east-1'' dated_bucket)]
       = JObject [(''logs'', JObject
           [(''service'', JString ''s3''), (''type'', JString ''bucket''),
            (''url'', JString ''https://s3.console.aws.amazon.com/s3/buckets/logs?region=us-east-1''),
            (''creation_date'', JString ''2024-01-02T03:04:05+00:00''),
            (''region'', JString ''us-east-1'')])]"
    by code_simp
  have s: "str (Datetime ''2024-01-02T03:04:05+00:00'') = ''2024-01-02 03:04:05+00:00''"
    by code_simp
  note t = cache_round_trip[OF h, of "Datetime ''2024-01-02T03:04:05+00:00''"]
  show ?thesis
    using h v j t[THEN conjunct1] t[THEN conjunct2, THEN conjunct2, THEN conjunct2] s
    by (intro conjI) simp_all
qed


end
